theory Spec2Isabelle
  imports Complex_Main "HOL-Library.Multiset"
begin

section \<open>PseudoTopProducer: data model\<close>

subsection \<open>Double-precision values\<close>

text \<open>
  A C++ \<^verbatim>\<open>double\<close> is a finite value, one of the two infinities, or a NaN.
  Finite values are taken as exact reals: rounding and overflow to an infinity are
  not modelled, and the two zeros are one value (read as +0 by a division).
  Comparisons with a NaN are false, as in IEEE 754; \<^verbatim>\<open>std::isnan\<close> is \<open>isnan\<close>.
\<close>

datatype dbl = Fin real | PInf | NInf | NaN

fun isnan :: "dbl \<Rightarrow> bool" where
  "isnan NaN = True"
| "isnan _ = False"

text \<open>\<open>dlt a b\<close> is the C++ \<^verbatim>\<open>a < b\<close>, \<open>dle a b\<close> is \<^verbatim>\<open>a <= b\<close>.\<close>

fun dlt :: "dbl \<Rightarrow> dbl \<Rightarrow> bool" where
  "dlt NaN _ = False"
| "dlt _ NaN = False"
| "dlt (Fin a) (Fin b) = (a < b)"
| "dlt (Fin a) PInf = True"
| "dlt NInf (Fin b) = True"
| "dlt NInf PInf = True"
| "dlt _ _ = False"

fun dle :: "dbl \<Rightarrow> dbl \<Rightarrow> bool" where
  "dle NaN _ = False"
| "dle _ NaN = False"
| "dle (Fin a) (Fin b) = (a \<le> b)"
| "dle NInf _ = True"
| "dle _ PInf = True"
| "dle _ _ = False"

text \<open>\<^verbatim>\<open>a > b\<close> and \<^verbatim>\<open>a >= b\<close>.\<close>

definition dgt :: "dbl \<Rightarrow> dbl \<Rightarrow> bool" where
  "dgt a b = dlt b a"

definition dge :: "dbl \<Rightarrow> dbl \<Rightarrow> bool" where
  "dge a b = dle b a"

fun dneg :: "dbl \<Rightarrow> dbl" where
  "dneg (Fin a) = Fin (- a)"
| "dneg PInf = NInf"
| "dneg NInf = PInf"
| "dneg NaN = NaN"

fun dabs :: "dbl \<Rightarrow> dbl" where
  "dabs (Fin a) = Fin \<bar>a\<bar>"
| "dabs PInf = PInf"
| "dabs NInf = PInf"
| "dabs NaN = NaN"

fun dadd :: "dbl \<Rightarrow> dbl \<Rightarrow> dbl" where
  "dadd NaN _ = NaN"
| "dadd _ NaN = NaN"
| "dadd (Fin a) (Fin b) = Fin (a + b)"
| "dadd PInf NInf = NaN"
| "dadd NInf PInf = NaN"
| "dadd PInf _ = PInf"
| "dadd _ PInf = PInf"
| "dadd NInf _ = NInf"
| "dadd _ NInf = NInf"

definition dsub :: "dbl \<Rightarrow> dbl \<Rightarrow> dbl" where
  "dsub a b = dadd a (dneg b)"

fun dmul :: "dbl \<Rightarrow> dbl \<Rightarrow> dbl" where
  "dmul NaN _ = NaN"
| "dmul _ NaN = NaN"
| "dmul (Fin a) (Fin b) = Fin (a * b)"
| "dmul (Fin a) PInf = (if a = 0 then NaN else if 0 < a then PInf else NInf)"
| "dmul (Fin a) NInf = (if a = 0 then NaN else if 0 < a then NInf else PInf)"
| "dmul PInf (Fin b) = (if b = 0 then NaN else if 0 < b then PInf else NInf)"
| "dmul NInf (Fin b) = (if b = 0 then NaN else if 0 < b then NInf else PInf)"
| "dmul PInf PInf = PInf"
| "dmul NInf NInf = PInf"
| "dmul PInf NInf = NInf"
| "dmul NInf PInf = NInf"

fun ddiv :: "dbl \<Rightarrow> dbl \<Rightarrow> dbl" where
  "ddiv NaN _ = NaN"
| "ddiv _ NaN = NaN"
| "ddiv (Fin a) (Fin b) =
     (if b \<noteq> 0 then Fin (a / b)
      else if a = 0 then NaN else if 0 < a then PInf else NInf)"
| "ddiv (Fin a) _ = Fin 0"
| "ddiv PInf (Fin b) = (if 0 \<le> b then PInf else NInf)"
| "ddiv NInf (Fin b) = (if 0 \<le> b then NInf else PInf)"
| "ddiv _ _ = NaN"

subsection \<open>Four-momenta, candidates, output objects\<close>

text \<open>
  \<^verbatim>\<open>reco::Candidate::LorentzVector\<close> in Cartesian coordinates; \<^verbatim>\<open>operator+\<close>
  adds component by component.
\<close>

record p4 =
  px :: dbl
  py :: dbl
  pz :: dbl
  energy :: dbl

definition p4_add :: "p4 \<Rightarrow> p4 \<Rightarrow> p4" where
  "p4_add a b =
     \<lparr>px = dadd (px a) (px b), py = dadd (py a) (py b),
      pz = dadd (pz a) (pz b), energy = dadd (energy a) (energy b)\<rparr>"

type_synonym point = "dbl \<times> dbl \<times> dbl"

text \<open>
  The mothers of a candidate, as far as the producer follows them: status, species
  code, and their own mothers. A decay history is acyclic, so the mother links
  unfold into a finite tree.
\<close>

datatype mother = Mother (m_status: int) (m_pdgId: int) (m_mothers: "mother list")

text \<open>
  A \<^verbatim>\<open>reco::Candidate\<close> as the producer reads it. Of the daughters only the species
  codes are read (\<open>c_daughters\<close>). Species codes, status and charge are C++
  \<^verbatim>\<open>int\<close>s: integers of the 32-bit range. Where the producer computes with them
  (\<^verbatim>\<open>abs\<close>, a product, a negation) the result is the two's-complement one,
  \<open>int32\<close> of the exact result. A signed overflow is undefined in C++; the wrap-around
  is what the compiled arithmetic gives.
\<close>

definition int32 :: "int \<Rightarrow> int" where
  "int32 x = (x + 2147483648) mod 4294967296 - 2147483648"

record candidate =
  c_status :: int
  c_pdgId :: int
  c_charge :: int
  c_p4 :: p4
  c_vertex :: point
  c_mothers :: "mother list"
  c_daughters :: "int list"

section \<open>B hadron identification\<close>

text \<open>\<^verbatim>\<open>PseudoTopProducer::isBHadron(const unsigned int absPdgId)\<close>.\<close>

definition isBHadron :: "nat \<Rightarrow> bool" where
  "isBHadron absPdgId =
     (if absPdgId \<le> 100 then False
      else if absPdgId \<ge> 1000000000 then False
      else
        let nq3 = (absPdgId div 10) mod 10;
            nq2 = (absPdgId div 100) mod 10;
            nq1 = (absPdgId div 1000) mod 10
        in if nq3 = 0 then False
           else if nq1 = 0 \<and> nq2 = 5 then True
           else if nq1 = 5 then True
           else False)"

text \<open>
  \<^verbatim>\<open>PseudoTopProducer::isBHadron(const reco::Candidate* p)\<close>: the loop over the
  daughters returns false at the first daughter that passes the digit test.
\<close>

fun hasBHadronDaughter :: "int list \<Rightarrow> bool" where
  "hasBHadronDaughter [] = False"
| "hasBHadronDaughter (dau # daus) =
     (if isBHadron (nat \<bar>dau\<bar>) then True else hasBHadronDaughter daus)"

definition isBHadron_cand :: "candidate \<Rightarrow> bool" where
  "isBHadron_cand c =
     (let absPdgId = nat \<bar>c_pdgId c\<bar>
      in if \<not> isBHadron absPdgId then False
         else if hasBHadronDaughter (c_daughters c) then False
         else True)"

text \<open>
  \<^verbatim>\<open>PseudoTopProducer::isFromHadron\<close>, over the mothers of a particle;
  \<^verbatim>\<open>const int pdgId = abs(mother->pdgId())\<close> is an \<^verbatim>\<open>int\<close>.
\<close>

fun isFromHadron :: "mother list \<Rightarrow> bool" where
  "isFromHadron [] = False"
| "isFromHadron (Mother st pdg ms # rest) =
     (if ms = [] then isFromHadron rest
      else if int32 \<bar>pdg\<bar> > 100 then True
      else if isFromHadron ms then True
      else isFromHadron rest)"

section \<open>Output objects and external collaborators\<close>

text \<open>
  \<^verbatim>\<open>reco::GenParticle\<close> as the producer builds it. The class is not part of the
  producer's source: the record keeps the arguments of the constructor
  \<^verbatim>\<open>GenParticle(q, p4, vtx, pdgId, status, integerCharge)\<close> as the producer passes
  them, \<open>gp_charge\<close> being the value of the expression passed for \<open>q\<close> (how the class
  stores a charge that is not an integer is not modelled), and the mother and
  daughter references, which are indices into the pseudo-top collection.
\<close>

record genParticle =
  gp_charge :: real
  gp_p4 :: p4
  gp_vertex :: point
  gp_pdgId :: int
  gp_status :: int
  gp_integerCharge :: bool
  gp_mothers :: "nat list"
  gp_daughters :: "nat list"

definition GenParticle :: "real \<Rightarrow> p4 \<Rightarrow> point \<Rightarrow> int \<Rightarrow> int \<Rightarrow> bool \<Rightarrow> genParticle" where
  "GenParticle q v vtx pdg st ic =
     \<lparr>gp_charge = q, gp_p4 = v, gp_vertex = vtx, gp_pdgId = pdg, gp_status = st,
      gp_integerCharge = ic, gp_mothers = [], gp_daughters = []\<rparr>"

text \<open>
  \<^verbatim>\<open>reco::GenJet\<close>: \<^verbatim>\<open>reco::writeSpecific\<close> sets the four-momentum, the vertex and
  the constituents (\<^verbatim>\<open>CandidatePtr\<close>s into the final-state collection, kept as
  their keys); species code and charge start at 0.
\<close>

record genJet =
  j_p4 :: p4
  j_vertex :: point
  j_constituents :: "nat list"
  j_pdgId :: int
  j_charge :: int
  j_area :: dbl

text \<open>
  A \<^verbatim>\<open>fastjet::PseudoJet\<close> handed to the clustering, and a jet it returns: its
  four-momentum, \<^verbatim>\<open>eta()\<close>, \<^verbatim>\<open>area()\<close> when \<^verbatim>\<open>has_area()\<close>, and
  \<^verbatim>\<open>sorted_by_pt(constituents())\<close>.
\<close>

record pseudoJet =
  pj_p4 :: p4
  pj_user_index :: nat

record fjJet =
  fj_p4 :: p4
  fj_eta :: dbl
  fj_area :: "dbl option"
  fj_constituents :: "pseudoJet list"

text \<open>
  What the producer takes from its libraries: the kinematic accessors \<^verbatim>\<open>pt()\<close>,
  \<^verbatim>\<open>p()\<close> and \<^verbatim>\<open>mass()\<close> of a four-momentum, and the two clusterings
  \<^verbatim>\<open>sorted_by_pt(ClusterSequence(inputs, def).inclusive_jets(ptmin))\<close>, one for
  each jet definition. They are parameters of the model.
\<close>

record env =
  kin_pt :: "p4 \<Rightarrow> dbl"
  kin_p :: "p4 \<Rightarrow> dbl"
  kin_mass :: "p4 \<Rightarrow> dbl"
  lepCluster :: "dbl \<Rightarrow> pseudoJet list \<Rightarrow> fjJet list"
  jetCluster :: "dbl \<Rightarrow> pseudoJet list \<Rightarrow> fjJet list"

record config =
  leptonMinPt :: dbl
  leptonMaxEta :: dbl
  jetMinPt :: dbl
  jetMaxEta :: dbl
  wMass :: dbl
  tMass :: dbl

definition genVertex :: point where
  "genVertex = (Fin 0, Fin 0, Fin 0)"

text \<open>
  An access the source makes through \<^verbatim>\<open>at()\<close> or by dereferencing a
  \<^verbatim>\<open>CandidatePtr\<close> fails on an index out of range; \<open>vec_at\<close> takes the C++
  \<^verbatim>\<open>int\<close> index, which a negative value turns into a huge \<^verbatim>\<open>size_t\<close>.
\<close>

datatype error = OutOfRange

definition vec_at :: "'a list \<Rightarrow> int \<Rightarrow> error + 'a" where
  "vec_at xs i = (if 0 \<le> i \<and> nat i < length xs then Inr (xs ! nat i) else Inl OutOfRange)"

section \<open>produce: classification\<close>

text \<open>
  The first loop of \<^verbatim>\<open>produce\<close>: the indices of the unstable B hadrons of the
  generated-particle collection, in the ascending order of the \<^verbatim>\<open>std::set\<close>.
\<close>

definition collectBHadrons :: "candidate list \<Rightarrow> nat list" where
  "collectBHadrons gen =
     filter (\<lambda>i. c_status (gen ! i) \<noteq> 1 \<and> isBHadron_cand (gen ! i)) [0..<length gen]"

text \<open>
  The second loop: a final-state particle goes on when it is stable, has a mother,
  its first mother does not have status 4, and it is not from a hadron. The counter
  \<^verbatim>\<open>nStables\<close> only sizes a \<^verbatim>\<open>reserve\<close> and is left out.
\<close>

definition isPrompt :: "candidate \<Rightarrow> bool" where
  "isPrompt c =
     (if c_status c \<noteq> 1 then False
      else if c_mothers c = [] then False
      else if m_status (hd (c_mothers c)) = 4 then False
      else if isFromHadron (c_mothers c) then False
      else True)"

definition collectLeptonIdxs :: "candidate list \<Rightarrow> nat list" where
  "collectLeptonIdxs fs =
     filter (\<lambda>i. isPrompt (fs ! i) \<and> \<bar>c_pdgId (fs ! i)\<bar> \<in> {11, 13, 22}) [0..<length fs]"

definition collectNeutrinos :: "candidate list \<Rightarrow> genParticle list" where
  "collectNeutrinos fs =
     map (\<lambda>c. GenParticle (real_of_int (c_charge c)) (c_p4 c) (c_vertex c) (c_pdgId c)
                 (c_status c) True)
       (filter (\<lambda>c. isPrompt c \<and> \<bar>c_pdgId c\<bar> \<in> {12, 14, 16}) fs)"

text \<open>
  \<^verbatim>\<open>std::sort\<close> with \<^verbatim>\<open>GreaterByPt\<close> (\<^verbatim>\<open>t1.pt() > t2.pt()\<close>), as an insertion
  sort with that comparison: the entries are taken in order, and each is put before
  the first entry it is greater than, so entries that compare equal keep their order.
  \<^verbatim>\<open>std::sort\<close> leaves the order of such entries open.
\<close>

definition greaterByPt :: "env \<Rightarrow> genParticle \<Rightarrow> genParticle \<Rightarrow> bool" where
  "greaterByPt env t1 t2 = dgt (kin_pt env (gp_p4 t1)) (kin_pt env (gp_p4 t2))"

fun insertByPt :: "env \<Rightarrow> genParticle \<Rightarrow> genParticle list \<Rightarrow> genParticle list" where
  "insertByPt env x [] = [x]"
| "insertByPt env x (y # ys) =
     (if greaterByPt env x y then x # y # ys else y # insertByPt env x ys)"

definition sortByPt :: "env \<Rightarrow> genParticle list \<Rightarrow> genParticle list" where
  "sortByPt env xs = fold (insertByPt env) xs []"

section \<open>produce: dressed leptons\<close>

text \<open>The test \<^verbatim>\<open>std::isnan(p.pt()) or p.pt() <= 0\<close> that drops a clustering input.\<close>

definition badPt :: "env \<Rightarrow> candidate \<Rightarrow> bool" where
  "badPt env c = (isnan (kin_pt env (c_p4 c)) \<or> dle (kin_pt env (c_p4 c)) (Fin 0))"

definition fjLepInputs :: "env \<Rightarrow> candidate list \<Rightarrow> nat list \<Rightarrow> pseudoJet list" where
  "fjLepInputs env fs leptonIdxs =
     map (\<lambda>index. \<lparr>pj_p4 = c_p4 (fs ! index), pj_user_index = index\<rparr>)
       (filter (\<lambda>index. \<not> badPt env (fs ! index)) leptonIdxs)"

text \<open>
  The loop over the constituents of one lepton cluster. The state is the chosen
  lepton (\<^verbatim>\<open>lepCand\<close>, null at first) and the constituents kept so far; a charged
  lepton below the chosen one in pt is skipped by \<^verbatim>\<open>continue\<close> and so is not kept
  as a constituent either.
\<close>

fun pickLepton ::
  "env \<Rightarrow> candidate list \<Rightarrow> pseudoJet list \<Rightarrow> nat option \<times> nat list
     \<Rightarrow> error + (nat option \<times> nat list)" where
  "pickLepton env fs [] st = Inr st"
| "pickLepton env fs (fjConstituent # rest) (lepCand, constituents) =
     (let index = pj_user_index fjConstituent in
      if \<not> index < length fs then Inl OutOfRange
      else
        let cand = fs ! index; absPdgId = \<bar>c_pdgId cand\<bar> in
        if absPdgId = 11 \<or> absPdgId = 13 then
          (case lepCand of
             Some l \<Rightarrow>
               if dgt (kin_pt env (c_p4 (fs ! l))) (kin_pt env (c_p4 cand))
               then pickLepton env fs rest (lepCand, constituents)
               else pickLepton env fs rest (Some index, constituents @ [index])
           | None \<Rightarrow> pickLepton env fs rest (Some index, constituents @ [index]))
        else pickLepton env fs rest (lepCand, constituents @ [index]))"

definition fjArea :: "fjJet \<Rightarrow> dbl" where
  "fjArea fjJet = (case fj_area fjJet of Some a \<Rightarrow> a | None \<Rightarrow> Fin 0)"

text \<open>
  The loop over the lepton clusters; the state is the dressed leptons built so far
  and \<^verbatim>\<open>lepDauIdxs\<close>.
\<close>

fun dressLeptons ::
  "env \<Rightarrow> config \<Rightarrow> candidate list \<Rightarrow> fjJet list \<Rightarrow> genJet list \<times> nat set
     \<Rightarrow> error + (genJet list \<times> nat set)" where
  "dressLeptons env cfg fs [] st = Inr st"
| "dressLeptons env cfg fs (fjJet # rest) (leptons, lepDauIdxs) =
     (if dgt (dabs (fj_eta fjJet)) (leptonMaxEta cfg)
      then dressLeptons env cfg fs rest (leptons, lepDauIdxs)
      else
        case pickLepton env fs (fj_constituents fjJet) (None, []) of
          Inl e \<Rightarrow> Inl e
        | Inr (None, constituents) \<Rightarrow> dressLeptons env cfg fs rest (leptons, lepDauIdxs)
        | Inr (Some l, constituents) \<Rightarrow>
            let lepJet = \<lparr>j_p4 = fj_p4 fjJet, j_vertex = genVertex,
                          j_constituents = constituents,
                          j_pdgId = c_pdgId (fs ! l), j_charge = c_charge (fs ! l),
                          j_area = fjArea fjJet\<rparr>
            in dressLeptons env cfg fs rest
                 (leptons @ [lepJet],
                  lepDauIdxs \<union> set (map pj_user_index (fj_constituents fjJet))))"

section \<open>produce: jets\<close>

text \<open>
  The inputs of the jet clustering, one definition for each of the two loops that
  fill them: the stable final-state particles that pass the pt test, are not
  neutrinos and are not in \<^verbatim>\<open>lepDauIdxs\<close>, followed by the B hadrons that pass the
  pt test, scaled by \<^verbatim>\<open>1e-20/p.p()\<close>; a B hadron carries its index in the
  generated-particle collection as user index.
\<close>

definition ghost :: "env \<Rightarrow> candidate \<Rightarrow> p4" where
  "ghost env c =
     (let scale = ddiv (Fin (1 / 10 ^ 20)) (kin_p env (c_p4 c))
      in \<lparr>px = dmul (px (c_p4 c)) scale, py = dmul (py (c_p4 c)) scale,
          pz = dmul (pz (c_p4 c)) scale, energy = dmul (energy (c_p4 c)) scale\<rparr>)"

definition fjStableInputs :: "env \<Rightarrow> candidate list \<Rightarrow> nat set \<Rightarrow> pseudoJet list" where
  "fjStableInputs env fs lepDauIdxs =
     map (\<lambda>i. \<lparr>pj_p4 = c_p4 (fs ! i), pj_user_index = i\<rparr>)
       (filter (\<lambda>i. c_status (fs ! i) = 1 \<and> \<not> badPt env (fs ! i) \<and>
                     \<bar>c_pdgId (fs ! i)\<bar> \<notin> {12, 14, 16} \<and> i \<notin> lepDauIdxs)
          [0..<length fs])"

definition fjGhostInputs :: "env \<Rightarrow> candidate list \<Rightarrow> nat list \<Rightarrow> pseudoJet list" where
  "fjGhostInputs env gen bHadronIdxs =
     map (\<lambda>index. \<lparr>pj_p4 = ghost env (gen ! index), pj_user_index = index\<rparr>)
       (filter (\<lambda>index. \<not> badPt env (gen ! index)) bHadronIdxs)"

definition fjJetInputs ::
  "env \<Rightarrow> candidate list \<Rightarrow> candidate list \<Rightarrow> nat set \<Rightarrow> nat list \<Rightarrow> pseudoJet list" where
  "fjJetInputs env fs gen lepDauIdxs bHadronIdxs =
     fjStableInputs env fs lepDauIdxs @ fjGhostInputs env gen bHadronIdxs"

text \<open>
  The loop over the clustered jets; the state is the jets built so far,
  \<^verbatim>\<open>bjetIdxs\<close> and \<^verbatim>\<open>ljetIdxs\<close>. Every constituent goes through
  \<^verbatim>\<open>finalStateHandle->ptrAt(index)\<close> and is read by \<^verbatim>\<open>writeSpecific\<close>, also the
  ghost of a B hadron, whose user index is an index of the generated-particle
  collection: as in the lepton loop, the access fails on an index outside the
  final-state collection.
\<close>

fun buildJets ::
  "config \<Rightarrow> candidate list \<Rightarrow> nat list \<Rightarrow> fjJet list \<Rightarrow> genJet list \<times> nat list \<times> nat list
     \<Rightarrow> error + (genJet list \<times> nat list \<times> nat list)" where
  "buildJets cfg fs bHadronIdxs [] st = Inr st"
| "buildJets cfg fs bHadronIdxs (fjJet # rest) (jets, bjetIdxs, ljetIdxs) =
     (if dgt (dabs (fj_eta fjJet)) (jetMaxEta cfg)
      then buildJets cfg fs bHadronIdxs rest (jets, bjetIdxs, ljetIdxs)
      else
        let constituents = map pj_user_index (fj_constituents fjJet);
            hasBHadron = list_ex (\<lambda>index. index \<in> set bHadronIdxs) constituents
        in if \<not> list_all (\<lambda>index. index < length fs) constituents then Inl OutOfRange
           else
             let genJet = \<lparr>j_p4 = fj_p4 fjJet, j_vertex = genVertex,
                           j_constituents = constituents,
                           j_pdgId = (if hasBHadron then 5 else 0), j_charge = 0,
                           j_area = fjArea fjJet\<rparr>
             in if hasBHadron
                then buildJets cfg fs bHadronIdxs rest
                       (jets @ [genJet], bjetIdxs @ [length jets], ljetIdxs)
                else buildJets cfg fs bHadronIdxs rest
                       (jets @ [genJet], bjetIdxs, ljetIdxs @ [length jets]))"

section \<open>produce: pseudo-W and pseudo-top combination\<close>

text \<open>
  The mass deviations the searches minimise, as the source computes them:
  \<^verbatim>\<open>std::abs((a + b).mass() - m)\<close>.
\<close>

definition massDev :: "env \<Rightarrow> p4 \<Rightarrow> p4 \<Rightarrow> dbl \<Rightarrow> dbl" where
  "massDev env a b m = dabs (dsub (kin_mass env (p4_add a b)) m)"

text \<open>
  The dilepton neutrino pairing. The state of the two nested loops is
  \<^verbatim>\<open>(dm, selNu1, selNu2)\<close>, starting at \<^verbatim>\<open>(1e9, -1, -1)\<close>.
\<close>

definition nuPairDev ::
  "env \<Rightarrow> config \<Rightarrow> genJet \<Rightarrow> genJet \<Rightarrow> genParticle list \<Rightarrow> nat \<Rightarrow> nat \<Rightarrow> dbl" where
  "nuPairDev env cfg lepton1 lepton2 neutrinos i j =
     (let dm1 = massDev env (j_p4 lepton1) (gp_p4 (neutrinos ! i)) (wMass cfg);
          dm2 = massDev env (j_p4 lepton2) (gp_p4 (neutrinos ! j)) (wMass cfg)
      in dadd dm1 dm2)"

definition nuPairStep ::
  "env \<Rightarrow> config \<Rightarrow> genJet \<Rightarrow> genJet \<Rightarrow> genParticle list \<Rightarrow> nat \<Rightarrow> nat
     \<Rightarrow> dbl \<times> int \<times> int \<Rightarrow> dbl \<times> int \<times> int" where
  "nuPairStep env cfg lepton1 lepton2 neutrinos i j st =
     (if i = j then st
      else
        let newDm = nuPairDev env cfg lepton1 lepton2 neutrinos i j
        in if dlt newDm (fst st) then (newDm, int i, int j) else st)"

definition searchNuPair ::
  "env \<Rightarrow> config \<Rightarrow> genJet \<Rightarrow> genJet \<Rightarrow> genParticle list \<Rightarrow> dbl \<times> int \<times> int" where
  "searchNuPair env cfg lepton1 lepton2 neutrinos =
     (let n = length neutrinos
      in fold (\<lambda>i. fold (nuPairStep env cfg lepton1 lepton2 neutrinos i) [0..<n]) [0..<n]
           (Fin 1000000000, - 1, - 1))"

text \<open>
  The b-jet pairing, the same code in both channels. The loops run over the entries
  of \<^verbatim>\<open>bjetIdxs\<close> and skip a pair of equal entries. \<^verbatim>\<open>jets->at(i)\<close> is reached
  for every entry in the outer loop, so the search throws exactly when an entry is
  out of range.
\<close>

definition bPairDev :: "env \<Rightarrow> config \<Rightarrow> p4 \<Rightarrow> p4 \<Rightarrow> genJet list \<Rightarrow> nat \<Rightarrow> nat \<Rightarrow> dbl" where
  "bPairDev env cfg w1LVec w2LVec jets i j =
     (let dm1 = massDev env w1LVec (j_p4 (jets ! i)) (tMass cfg);
          dm2 = massDev env w2LVec (j_p4 (jets ! j)) (tMass cfg)
      in dadd dm1 dm2)"

definition bPairStep ::
  "env \<Rightarrow> config \<Rightarrow> p4 \<Rightarrow> p4 \<Rightarrow> genJet list \<Rightarrow> nat \<Rightarrow> nat
     \<Rightarrow> dbl \<times> int \<times> int \<Rightarrow> dbl \<times> int \<times> int" where
  "bPairStep env cfg w1LVec w2LVec jets i j st =
     (if i = j then st
      else
        let newDm = bPairDev env cfg w1LVec w2LVec jets i j
        in if dlt newDm (fst st) then (newDm, int i, int j) else st)"

definition searchBPair ::
  "env \<Rightarrow> config \<Rightarrow> p4 \<Rightarrow> p4 \<Rightarrow> genJet list \<Rightarrow> nat list \<Rightarrow> error + (dbl \<times> int \<times> int)" where
  "searchBPair env cfg w1LVec w2LVec jets bjetIdxs =
     (if list_all (\<lambda>i. i < length jets) bjetIdxs
      then Inr (fold (\<lambda>i. fold (bPairStep env cfg w1LVec w2LVec jets i) bjetIdxs) bjetIdxs
                  (Fin 1000000000, - 1, - 1))
      else Inl OutOfRange)"

text \<open>
  The semileptonic search over a neutrino and two light jets; the inner loop starts
  one position after the middle one (\<^verbatim>\<open>std::next(j1Itr)\<close>). The state is
  \<^verbatim>\<open>(dm, selNu, selJ1, selJ2)\<close>. With at least one neutrino every entry of
  \<^verbatim>\<open>ljetIdxs\<close> reaches \<^verbatim>\<open>jets->at(j1)\<close>.
\<close>

definition wJetsDev ::
  "env \<Rightarrow> config \<Rightarrow> genJet \<Rightarrow> genParticle list \<Rightarrow> genJet list \<Rightarrow> nat \<Rightarrow> nat \<Rightarrow> nat \<Rightarrow> dbl" where
  "wJetsDev env cfg lepton neutrinos jets i j1 j2 =
     (let dm1 = massDev env (j_p4 lepton) (gp_p4 (neutrinos ! i)) (wMass cfg);
          dm2 = massDev env (j_p4 (jets ! j1)) (j_p4 (jets ! j2)) (wMass cfg)
      in dadd dm1 dm2)"

definition wJetsStep ::
  "env \<Rightarrow> config \<Rightarrow> genJet \<Rightarrow> genParticle list \<Rightarrow> genJet list \<Rightarrow> nat \<Rightarrow> nat \<Rightarrow> nat
     \<Rightarrow> dbl \<times> int \<times> int \<times> int \<Rightarrow> dbl \<times> int \<times> int \<times> int" where
  "wJetsStep env cfg lepton neutrinos jets i j1 j2 st =
     (let newDm = wJetsDev env cfg lepton neutrinos jets i j1 j2
      in if dlt newDm (fst st) then (newDm, int i, int j1, int j2) else st)"

fun foldPairs :: "(nat \<Rightarrow> nat \<Rightarrow> 's \<Rightarrow> 's) \<Rightarrow> nat list \<Rightarrow> 's \<Rightarrow> 's" where
  "foldPairs f [] st = st"
| "foldPairs f (j1 # rest) st = foldPairs f rest (fold (f j1) rest st)"

definition searchWJets ::
  "env \<Rightarrow> config \<Rightarrow> genJet \<Rightarrow> genParticle list \<Rightarrow> genJet list \<Rightarrow> nat list
     \<Rightarrow> error + (dbl \<times> int \<times> int \<times> int)" where
  "searchWJets env cfg lepton neutrinos jets ljetIdxs =
     (if list_all (\<lambda>j. j < length jets) ljetIdxs
      then Inr (fold (\<lambda>i. foldPairs (wJetsStep env cfg lepton neutrinos jets i) ljetIdxs)
                  [0..<length neutrinos] (Fin 1000000000, - 1, - 1, - 1))
      else Inl OutOfRange)"

text \<open>
  The ten candidates of the dilepton channel, in the order they are pushed into the
  collection. \<^verbatim>\<open>q1*2/3.\<close> and \<^verbatim>\<open>-q1/3.\<close> are divisions of an \<^verbatim>\<open>int\<close>
  (\<^verbatim>\<open>q1*2\<close>, \<^verbatim>\<open>-q1\<close>) by a \<^verbatim>\<open>double\<close>; the species codes are products
  of \<^verbatim>\<open>int\<close>s.
\<close>

definition dileptonTree ::
  "int \<Rightarrow> int \<Rightarrow> genJet \<Rightarrow> genJet \<Rightarrow> genParticle \<Rightarrow> genParticle \<Rightarrow> genJet \<Rightarrow> genJet
     \<Rightarrow> genParticle list" where
  "dileptonTree q1 q2 lepton1 lepton2 nu1 nu2 bJet1 bJet2 =
     (let w1LVec = p4_add (j_p4 lepton1) (gp_p4 nu1);
          w2LVec = p4_add (j_p4 lepton2) (gp_p4 nu2);
          t1LVec = p4_add w1LVec (j_p4 bJet1);
          t2LVec = p4_add w2LVec (j_p4 bJet2);
          t1 = GenParticle (real_of_int (int32 (q1 * 2)) / 3) t1LVec genVertex
                 (int32 (q1 * 6)) 3 False;
          w1 = GenParticle (real_of_int q1) w1LVec genVertex (int32 (q1 * 24)) 3 True;
          b1 = GenParticle (real_of_int (int32 (- q1)) / 3) (j_p4 bJet1) genVertex
                 (int32 (q1 * 5)) 1 True;
          l1 = GenParticle (real_of_int q1) (j_p4 lepton1) genVertex (j_pdgId lepton1) 1 True;
          n1 = GenParticle 0 (gp_p4 nu1) genVertex (gp_pdgId nu1) 1 True;
          t2 = GenParticle (real_of_int (int32 (q2 * 2)) / 3) t2LVec genVertex
                 (int32 (q2 * 6)) 3 False;
          w2 = GenParticle (real_of_int q2) w2LVec genVertex (int32 (q2 * 24)) 3 True;
          b2 = GenParticle (real_of_int (int32 (- q1)) / 3) (j_p4 bJet2) genVertex
                 (int32 (q2 * 5)) 1 True;
          l2 = GenParticle (real_of_int q2) (j_p4 lepton2) genVertex (j_pdgId lepton2) 1 True;
          n2 = GenParticle 0 (gp_p4 nu2) genVertex (gp_pdgId nu2) 1 True
      in [t1, t2, w1, b1, l1, n1, w2, b2, l2, n2])"

text \<open>
  The dilepton channel, entered with two dressed leptons and at least two neutrinos.
  A \<^verbatim>\<open>break\<close> leaves the pseudo-top collection empty.
\<close>

definition dilepton ::
  "env \<Rightarrow> config \<Rightarrow> genJet list \<Rightarrow> genParticle list \<Rightarrow> genJet list \<Rightarrow> nat list
     \<Rightarrow> error + genParticle list" where
  "dilepton env cfg leptons neutrinos jets bjetIdxs =
     (let q1 = j_charge (leptons ! 0); q2 = j_charge (leptons ! 1) in
      if int32 (q1 * q2) > 0 then Inr []
      else
        let lepton1 = (if q1 > 0 then leptons ! 0 else leptons ! 1);
            lepton2 = (if q1 > 0 then leptons ! 1 else leptons ! 0)
        in
        case searchNuPair env cfg lepton1 lepton2 neutrinos of (dm, selNu1, selNu2) \<Rightarrow>
        if dge dm (Fin 1000000000) then Inr []
        else
          case vec_at neutrinos selNu1 of Inl e \<Rightarrow> Inl e | Inr nu1 \<Rightarrow>
          case vec_at neutrinos selNu2 of Inl e \<Rightarrow> Inl e | Inr nu2 \<Rightarrow>
          let w1LVec = p4_add (j_p4 lepton1) (gp_p4 nu1);
              w2LVec = p4_add (j_p4 lepton2) (gp_p4 nu2)
          in
          case searchBPair env cfg w1LVec w2LVec jets bjetIdxs of Inl e \<Rightarrow> Inl e
          | Inr (dm', selB1, selB2) \<Rightarrow>
          if dge dm' (Fin 1000000000) then Inr []
          else
            case vec_at jets selB1 of Inl e \<Rightarrow> Inl e | Inr bJet1 \<Rightarrow>
            case vec_at jets selB2 of Inl e \<Rightarrow> Inl e | Inr bJet2 \<Rightarrow>
            Inr (dileptonTree q1 q2 lepton1 lepton2 nu1 nu2 bJet1 bJet2))"

text \<open>
  The ten candidates of the semileptonic channel; \<^verbatim>\<open>-q*2/3.\<close> is
  \<^verbatim>\<open>((-q)*2)/3.\<close> and \<^verbatim>\<open>-q*6\<close> is \<^verbatim>\<open>(-q)*6\<close>.
\<close>

definition semileptonTree ::
  "genJet \<Rightarrow> genParticle \<Rightarrow> genJet \<Rightarrow> genJet \<Rightarrow> genJet \<Rightarrow> genJet \<Rightarrow> genParticle list" where
  "semileptonTree lepton nu1 wJet1 wJet2 bJet1 bJet2 =
     (let w1LVec = p4_add (j_p4 lepton) (gp_p4 nu1);
          w2LVec = p4_add (j_p4 wJet1) (j_p4 wJet2);
          t1LVec = p4_add w1LVec (j_p4 bJet1);
          t2LVec = p4_add w2LVec (j_p4 bJet2);
          q = j_charge lepton;
          t1 = GenParticle (real_of_int (int32 (q * 2)) / 3) t1LVec genVertex
                 (int32 (q * 6)) 3 False;
          w1 = GenParticle (real_of_int q) w1LVec genVertex (int32 (q * 24)) 3 True;
          b1 = GenParticle (real_of_int (int32 (- q)) / 3) (j_p4 bJet1) genVertex
                 (int32 (q * 5)) 1 True;
          l1 = GenParticle (real_of_int q) (j_p4 lepton) genVertex (j_pdgId lepton) 1 True;
          n1 = GenParticle 0 (gp_p4 nu1) genVertex (gp_pdgId nu1) 1 True;
          t2 = GenParticle (real_of_int (int32 (int32 (- q) * 2)) / 3) t2LVec genVertex
                 (int32 (int32 (- q) * 6)) 3 False;
          w2 = GenParticle (real_of_int (int32 (- q))) w2LVec genVertex
                 (int32 (int32 (- q) * 24)) 3 True;
          b2 = GenParticle 0 (j_p4 bJet2) genVertex (int32 (int32 (- q) * 5)) 1 True;
          u2 = GenParticle 0 (j_p4 wJet1) genVertex (int32 (- 2 * q)) 1 True;
          d2 = GenParticle 0 (j_p4 wJet2) genVertex q 1 True
      in [t1, t2, w1, b1, l1, n1, w2, b2, u2, d2])"

text \<open>The semileptonic channel, entered with one dressed lepton and at least one neutrino.\<close>

definition semilepton ::
  "env \<Rightarrow> config \<Rightarrow> genJet list \<Rightarrow> genParticle list \<Rightarrow> genJet list \<Rightarrow> nat list \<Rightarrow> nat list
     \<Rightarrow> error + genParticle list" where
  "semilepton env cfg leptons neutrinos jets bjetIdxs ljetIdxs =
     (let lepton = leptons ! 0 in
      case searchWJets env cfg lepton neutrinos jets ljetIdxs of Inl e \<Rightarrow> Inl e
      | Inr (dm, selNu, selJ1, selJ2) \<Rightarrow>
      if dge dm (Fin 1000000000) then Inr []
      else
        case vec_at neutrinos selNu of Inl e \<Rightarrow> Inl e | Inr nu1 \<Rightarrow>
        case vec_at jets selJ1 of Inl e \<Rightarrow> Inl e | Inr wJet1 \<Rightarrow>
        case vec_at jets selJ2 of Inl e \<Rightarrow> Inl e | Inr wJet2 \<Rightarrow>
        let w1LVec = p4_add (j_p4 lepton) (gp_p4 nu1);
            w2LVec = p4_add (j_p4 wJet1) (j_p4 wJet2)
        in
        case searchBPair env cfg w1LVec w2LVec jets bjetIdxs of Inl e \<Rightarrow> Inl e
        | Inr (dm', selB1, selB2) \<Rightarrow>
        if dge dm' (Fin 1000000000) then Inr []
        else
          case vec_at jets selB1 of Inl e \<Rightarrow> Inl e | Inr bJet1 \<Rightarrow>
          case vec_at jets selB2 of Inl e \<Rightarrow> Inl e | Inr bJet2 \<Rightarrow>
          Inr (semileptonTree lepton nu1 wJet1 wJet2 bJet1 bJet2))"

text \<open>The \<^verbatim>\<open>do { ... } while (false)\<close> block.\<close>

definition combine ::
  "env \<Rightarrow> config \<Rightarrow> genJet list \<Rightarrow> genParticle list \<Rightarrow> genJet list \<Rightarrow> nat list \<Rightarrow> nat list
     \<Rightarrow> error + genParticle list" where
  "combine env cfg leptons neutrinos jets bjetIdxs ljetIdxs =
     (if length bjetIdxs < 2 then Inr []
      else if length leptons = 2 \<and> length neutrinos \<ge> 2
        then dilepton env cfg leptons neutrinos jets bjetIdxs
      else if length leptons = 1 \<and> length neutrinos \<ge> 1
        then semilepton env cfg leptons neutrinos jets bjetIdxs ljetIdxs
      else Inr [])"

section \<open>produce: decay tree and output\<close>

definition addDaughter :: "nat \<Rightarrow> nat \<Rightarrow> genParticle list \<Rightarrow> genParticle list" where
  "addDaughter i d ps = ps[i := (ps ! i)\<lparr>gp_daughters := gp_daughters (ps ! i) @ [d]\<rparr>]"

definition addMother :: "nat \<Rightarrow> nat \<Rightarrow> genParticle list \<Rightarrow> genParticle list" where
  "addMother i m ps = ps[i := (ps ! i)\<lparr>gp_mothers := gp_mothers (ps ! i) @ [m]\<rparr>]"

text \<open>
  The links set when the collection has ten entries (every \<^verbatim>\<open>at\<close> is then in
  range), in the order of the source.
\<close>

definition linkDecayTree :: "genParticle list \<Rightarrow> genParticle list" where
  "linkDecayTree pseudoTop =
     (if length pseudoTop = 10 then
        (addMother 9 6 \<circ> addMother 8 6 \<circ> addDaughter 6 9 \<circ> addDaughter 6 8 \<circ>
         addMother 7 1 \<circ> addMother 6 1 \<circ> addDaughter 1 7 \<circ> addDaughter 1 6 \<circ>
         addMother 5 2 \<circ> addMother 4 2 \<circ> addDaughter 2 5 \<circ> addDaughter 2 4 \<circ>
         addMother 3 0 \<circ> addMother 2 0 \<circ> addDaughter 0 3 \<circ> addDaughter 0 2) pseudoTop
      else pseudoTop)"

record event_output =
  o_neutrinos :: "genParticle list"
  o_leptons :: "genJet list"
  o_jets :: "genJet list"
  o_pseudoTop :: "genParticle list"

text \<open>
  The stages of \<^verbatim>\<open>produce\<close> on the final-state collection \<open>fs\<close> and the
  generated-particle collection \<open>gen\<close>.
\<close>

definition ev_neutrinos :: "env \<Rightarrow> candidate list \<Rightarrow> genParticle list" where
  "ev_neutrinos env fs = sortByPt env (collectNeutrinos fs)"

definition ev_fjLepInputs :: "env \<Rightarrow> candidate list \<Rightarrow> pseudoJet list" where
  "ev_fjLepInputs env fs = fjLepInputs env fs (collectLeptonIdxs fs)"

definition ev_dressed ::
  "env \<Rightarrow> config \<Rightarrow> candidate list \<Rightarrow> error + (genJet list \<times> nat set)" where
  "ev_dressed env cfg fs =
     dressLeptons env cfg fs (lepCluster env (leptonMinPt cfg) (ev_fjLepInputs env fs)) ([], {})"

definition ev_fjJetInputs ::
  "env \<Rightarrow> candidate list \<Rightarrow> candidate list \<Rightarrow> nat set \<Rightarrow> pseudoJet list" where
  "ev_fjJetInputs env fs gen lepDauIdxs =
     fjJetInputs env fs gen lepDauIdxs (collectBHadrons gen)"

definition ev_jets ::
  "env \<Rightarrow> config \<Rightarrow> candidate list \<Rightarrow> candidate list \<Rightarrow> nat set
     \<Rightarrow> error + (genJet list \<times> nat list \<times> nat list)" where
  "ev_jets env cfg fs gen lepDauIdxs =
     buildJets cfg fs (collectBHadrons gen)
       (jetCluster env (jetMinPt cfg) (ev_fjJetInputs env fs gen lepDauIdxs)) ([], [], [])"

definition produce :: "env \<Rightarrow> config \<Rightarrow> candidate list \<Rightarrow> candidate list \<Rightarrow> error + event_output" where
  "produce env cfg fs gen =
     (let neutrinos = ev_neutrinos env fs in
      case ev_dressed env cfg fs of Inl e \<Rightarrow> Inl e
      | Inr (leptons, lepDauIdxs) \<Rightarrow>
      case ev_jets env cfg fs gen lepDauIdxs of Inl e \<Rightarrow> Inl e
      | Inr (jets, bjetIdxs, ljetIdxs) \<Rightarrow>
      case combine env cfg leptons neutrinos jets bjetIdxs ljetIdxs of Inl e \<Rightarrow> Inl e
      | Inr pseudoTop \<Rightarrow>
          Inr \<lparr>o_neutrinos = neutrinos, o_leptons = leptons, o_jets = jets,
               o_pseudoTop = linkDecayTree pseudoTop\<rparr>)"

section \<open>Vocabulary of the properties\<close>

text \<open>
  The update every search applies to its running best: a candidate \<open>c\<close> with
  deviation \<open>d c\<close> replaces the state when \<open>d c\<close> is strictly below the best so far.
\<close>

definition keepBest :: "('c \<Rightarrow> dbl) \<Rightarrow> ('c \<Rightarrow> 's) \<Rightarrow> 'c \<Rightarrow> dbl \<times> 's \<Rightarrow> dbl \<times> 's" where
  "keepBest d enc c st = (if dlt (d c) (fst st) then (d c, enc c) else st)"

text \<open>
  The combinations the searches enumerate, in the order of the loops: ordered pairs
  of different entries of a list, pairs of a list entry with a later entry, and a
  neutrino index with such a pair of light-jet entries.
\<close>

definition orderedPairs :: "nat list \<Rightarrow> (nat \<times> nat) list" where
  "orderedPairs xs = [(i, j). i \<leftarrow> xs, j \<leftarrow> xs, i \<noteq> j]"

fun laterPairs :: "nat list \<Rightarrow> (nat \<times> nat) list" where
  "laterPairs [] = []"
| "laterPairs (j1 # rest) = map (Pair j1) rest @ laterPairs rest"

definition wCombos :: "nat \<Rightarrow> nat list \<Rightarrow> (nat \<times> nat \<times> nat) list" where
  "wCombos n ljetIdxs = [(i, j1, j2). i \<leftarrow> [0..<n], (j1, j2) \<leftarrow> laterPairs ljetIdxs]"

text \<open>
  \<open>firstMin d cs c\<close>: \<open>c\<close> occurs in the enumeration \<open>cs\<close>, no entry before its first
  occurrence has a deviation less than or equal to that of \<open>c\<close>, and no entry after
  it has a smaller one.
\<close>

fun firstMin :: "('c \<Rightarrow> dbl) \<Rightarrow> 'c list \<Rightarrow> 'c \<Rightarrow> bool" where
  "firstMin d [] c = False"
| "firstMin d (x # xs) c =
     (if x = c then list_all (\<lambda>e. \<not> dlt (d e) (d c)) xs
      else \<not> dle (d x) (d c) \<and> firstMin d xs c)"


text \<open>
  What the model asks of a clustering where a property needs it: every constituent
  of a returned jet is one of the inputs, and no input is a constituent twice.
\<close>

definition clusterOf :: "pseudoJet list \<Rightarrow> fjJet list \<Rightarrow> bool" where
  "clusterOf inputs fjJets = (mset (concat (map fj_constituents fjJets)) \<subseteq># mset inputs)"

text \<open>
  \<open>lastHighest env fs cs l\<close>: the particle \<open>l\<close> is a charged lepton among the
  constituents \<open>cs\<close>, no charged lepton before it in \<open>cs\<close> has a higher pt, and every
  charged lepton after it has a lower pt.
\<close>

definition isChargedLepton :: "candidate \<Rightarrow> bool" where
  "isChargedLepton c = (\<bar>c_pdgId c\<bar> = 11 \<or> \<bar>c_pdgId c\<bar> = 13)"

definition candPt :: "env \<Rightarrow> candidate list \<Rightarrow> nat \<Rightarrow> dbl" where
  "candPt env fs i = kin_pt env (c_p4 (fs ! i))"

fun lastHighest :: "env \<Rightarrow> candidate list \<Rightarrow> pseudoJet list \<Rightarrow> nat \<Rightarrow> bool" where
  "lastHighest env fs [] l = False"
| "lastHighest env fs (c # cs) l =
     ((pj_user_index c = l \<and> isChargedLepton (fs ! l) \<and>
       list_all (\<lambda>e. isChargedLepton (fs ! pj_user_index e) \<longrightarrow>
                      dgt (candPt env fs l) (candPt env fs (pj_user_index e))) cs)
      \<or> ((isChargedLepton (fs ! pj_user_index c) \<longrightarrow>
             \<not> dgt (candPt env fs (pj_user_index c)) (candPt env fs l))
          \<and> lastHighest env fs cs l))"

text \<open>
  A lepton cluster is accepted when it passes the eta cut and has a charged lepton
  among its constituents; \<open>consumed\<close> are the indices of all its constituents;
  \<open>dressedFrom env fs fjJet lepJet\<close>: the species code and charge of \<open>lepJet\<close> are
  those of a constituent of \<open>fjJet\<close> that is \<open>lastHighest\<close> there.
\<close>

definition acceptedLepton :: "config \<Rightarrow> candidate list \<Rightarrow> fjJet \<Rightarrow> bool" where
  "acceptedLepton cfg fs fjJet =
     (\<not> dgt (dabs (fj_eta fjJet)) (leptonMaxEta cfg) \<and>
      list_ex (\<lambda>c. isChargedLepton (fs ! pj_user_index c)) (fj_constituents fjJet))"

definition consumed :: "fjJet \<Rightarrow> nat set" where
  "consumed fjJet = set (map pj_user_index (fj_constituents fjJet))"

definition dressedFrom :: "env \<Rightarrow> candidate list \<Rightarrow> fjJet \<Rightarrow> genJet \<Rightarrow> bool" where
  "dressedFrom env fs fjJet lepJet =
     list_ex (\<lambda>c. lastHighest env fs (fj_constituents fjJet) (pj_user_index c) \<and>
                  j_pdgId lepJet = c_pdgId (fs ! pj_user_index c) \<and>
                  j_charge lepJet = c_charge (fs ! pj_user_index c))
       (fj_constituents fjJet)"

text \<open>The transverse momentum of an output particle, as \<^verbatim>\<open>GreaterByPt\<close> reads it.\<close>

definition ptOf :: "env \<Rightarrow> genParticle \<Rightarrow> dbl" where
  "ptOf env g = kin_pt env (gp_p4 g)"

text \<open>
  A channel finds no combination when no enumerated combination of its first search
  has a deviation below \<^verbatim>\<open>1e9\<close>, or when the first search selects a
  combination and no pair of b jets has a deviation below \<^verbatim>\<open>1e9\<close> for it.
  \<open>noCandidate\<close> collects the cases in which the combination stops: fewer than two b
  jets, multiplicities of neither channel, two leptons whose charges have a positive
  product as an \<^verbatim>\<open>int\<close>, or a channel that finds no combination. \<open>sameSign\<close> and
  \<open>oppositeSign\<close> are what the properties mean by charges of the same and of
  opposite sign.
\<close>

definition sameSign :: "int \<Rightarrow> int \<Rightarrow> bool" where
  "sameSign a b = (0 < a \<and> 0 < b \<or> a < 0 \<and> b < 0)"


definition noDileptonCombination ::
  "env \<Rightarrow> config \<Rightarrow> genJet \<Rightarrow> genJet \<Rightarrow> genParticle list \<Rightarrow> genJet list \<Rightarrow> nat list \<Rightarrow> bool" where
  "noDileptonCombination env cfg lepton1 lepton2 neutrinos jets bjetIdxs =
     (let dnu = (\<lambda>(i, j). nuPairDev env cfg lepton1 lepton2 neutrinos i j);
          nuPairs = orderedPairs [0..<length neutrinos]
      in list_all (\<lambda>c. \<not> dlt (dnu c) (Fin 1000000000)) nuPairs \<or>
         list_ex (\<lambda>(i, j). firstMin dnu nuPairs (i, j) \<and> dlt (dnu (i, j)) (Fin 1000000000) \<and>
                    list_all (\<lambda>(k, l). \<not> dlt (bPairDev env cfg
                                 (p4_add (j_p4 lepton1) (gp_p4 (neutrinos ! i)))
                                 (p4_add (j_p4 lepton2) (gp_p4 (neutrinos ! j))) jets k l)
                               (Fin 1000000000))
                      (orderedPairs bjetIdxs))
           nuPairs)"

definition noSemileptonCombination ::
  "env \<Rightarrow> config \<Rightarrow> genJet \<Rightarrow> genParticle list \<Rightarrow> genJet list \<Rightarrow> nat list \<Rightarrow> nat list \<Rightarrow> bool" where
  "noSemileptonCombination env cfg lepton neutrinos jets bjetIdxs ljetIdxs =
     (let dw = (\<lambda>(i, j1, j2). wJetsDev env cfg lepton neutrinos jets i j1 j2);
          combos = wCombos (length neutrinos) ljetIdxs
      in list_all (\<lambda>c. \<not> dlt (dw c) (Fin 1000000000)) combos \<or>
         list_ex (\<lambda>(i, j1, j2). firstMin dw combos (i, j1, j2) \<and>
                    dlt (dw (i, j1, j2)) (Fin 1000000000) \<and>
                    list_all (\<lambda>(k, l). \<not> dlt (bPairDev env cfg
                                 (p4_add (j_p4 lepton) (gp_p4 (neutrinos ! i)))
                                 (p4_add (j_p4 (jets ! j1)) (j_p4 (jets ! j2))) jets k l)
                               (Fin 1000000000))
                      (orderedPairs bjetIdxs))
           combos)"

definition noCandidate ::
  "env \<Rightarrow> config \<Rightarrow> genJet list \<Rightarrow> genParticle list \<Rightarrow> genJet list \<Rightarrow> nat list \<Rightarrow> nat list \<Rightarrow> bool" where
  "noCandidate env cfg leptons neutrinos jets bjetIdxs ljetIdxs =
     (length bjetIdxs < 2 \<or>
      (if length leptons = 2 \<and> 2 \<le> length neutrinos then
         0 < int32 (j_charge (leptons ! 0) * j_charge (leptons ! 1)) \<or>
         noDileptonCombination env cfg
           (if 0 < j_charge (leptons ! 0) then leptons ! 0 else leptons ! 1)
           (if 0 < j_charge (leptons ! 0) then leptons ! 1 else leptons ! 0)
           neutrinos jets bjetIdxs
       else if length leptons = 1 \<and> 1 \<le> length neutrinos then
         noSemileptonCombination env cfg (leptons ! 0) neutrinos jets bjetIdxs ljetIdxs
       else True))"

text \<open>
  The index alignment of the two collections, as far as the producer relies on it
  when it reads the generated-particle index of a B hadron in the final-state
  collection. \<open>ghostsInRange\<close>: every index of an unstable B hadron of the
  generated-particle collection is an index of the final-state collection.
  \<open>aligned\<close>: moreover the particle at that index of the final-state collection is
  not stable. Both hold when the two handles read one collection, and when every
  index of the generated-particle collection is an index of the final-state collection
  with the same status there.
\<close>

definition ghostsInRange :: "candidate list \<Rightarrow> candidate list \<Rightarrow> bool" where
  "ghostsInRange fs gen = list_all (\<lambda>i. i < length fs) (collectBHadrons gen)"

definition aligned :: "candidate list \<Rightarrow> candidate list \<Rightarrow> bool" where
  "aligned fs gen =
     list_all (\<lambda>i. i < length fs \<and> c_status (fs ! i) \<noteq> 1) (collectBHadrons gen)"

section \<open>Example events\<close>

text \<open>
  Concrete inputs on which the properties below are evaluated. The particles move
  along the x axis, in one of its two directions, so \<^verbatim>\<open>pt()\<close> and \<^verbatim>\<open>p()\<close> are
  the absolute value of the x component and \<^verbatim>\<open>eta()\<close> is 0; the examples read the
  energy of a four-momentum as its mass.

  The stand-in for the two clusterings is what the anti-kt algorithm does with such
  inputs for a cone size below pi: the inputs of one direction are at distance 0 of
  each other and end in one jet, inputs of opposite directions are never merged, and
  the four-momentum of a jet is the sum of those of its constituents. As
  \<^verbatim>\<open>sorted_by_pt(inclusive_jets(ptmin))\<close> it returns the jets with a pt of at least
  \<open>ptmin\<close>, by decreasing pt, and as \<^verbatim>\<open>sorted_by_pt(constituents())\<close> the constituents
  of a jet by decreasing pt, those of equal pt in the order of the input.
\<close>

definition xpt :: "p4 \<Rightarrow> dbl" where
  "xpt v = dabs (px v)"

fun insertDesc :: "('a \<Rightarrow> dbl) \<Rightarrow> 'a \<Rightarrow> 'a list \<Rightarrow> 'a list" where
  "insertDesc key x [] = [x]"
| "insertDesc key x (y # ys) =
     (if dgt (key x) (key y) then x # y # ys else y # insertDesc key x ys)"

definition sortDesc :: "('a \<Rightarrow> dbl) \<Rightarrow> 'a list \<Rightarrow> 'a list" where
  "sortDesc key xs = fold (insertDesc key) xs []"

definition p4_sum :: "p4 list \<Rightarrow> p4" where
  "p4_sum vs = foldr p4_add vs \<lparr>px = Fin 0, py = Fin 0, pz = Fin 0, energy = Fin 0\<rparr>"

definition jetFrom :: "pseudoJet list \<Rightarrow> fjJet" where
  "jetFrom cs =
     \<lparr>fj_p4 = p4_sum (map pj_p4 cs), fj_eta = Fin 0, fj_area = None,
      fj_constituents = sortDesc (\<lambda>c. xpt (pj_p4 c)) cs\<rparr>"

definition kept :: "dbl \<Rightarrow> pseudoJet list \<Rightarrow> bool" where
  "kept ptmin cs = (cs \<noteq> [] \<and> dge (xpt (p4_sum (map pj_p4 cs))) ptmin)"

definition alongAxis :: "dbl \<Rightarrow> pseudoJet list \<Rightarrow> fjJet list" where
  "alongAxis ptmin inputs =
     (let fwd = filter (\<lambda>c. dle (Fin 0) (px (pj_p4 c))) inputs;
          bwd = filter (\<lambda>c. \<not> dle (Fin 0) (px (pj_p4 c))) inputs
      in if kept ptmin fwd \<and> kept ptmin bwd then
           (if dgt (xpt (p4_sum (map pj_p4 bwd))) (xpt (p4_sum (map pj_p4 fwd)))
            then [jetFrom bwd, jetFrom fwd] else [jetFrom fwd, jetFrom bwd])
         else if kept ptmin fwd then [jetFrom fwd]
         else if kept ptmin bwd then [jetFrom bwd]
         else [])"

definition ex_env :: env where
  "ex_env = \<lparr>kin_pt = xpt, kin_p = xpt, kin_mass = energy,
              lepCluster = alongAxis, jetCluster = alongAxis\<rparr>"

definition ex_cfg :: config where
  "ex_cfg = \<lparr>leptonMinPt = Fin 20, leptonMaxEta = Fin (12 / 5), jetMinPt = Fin 20,
              jetMaxEta = Fin (12 / 5), wMass = Fin 80, tMass = Fin 172\<rparr>"

definition along_x :: "dbl \<Rightarrow> dbl \<Rightarrow> p4" where
  "along_x x e = \<lparr>px = x, py = Fin 0, pz = Fin 0, energy = e\<rparr>"

definition particle :: "int \<Rightarrow> int \<Rightarrow> int \<Rightarrow> dbl \<Rightarrow> dbl \<Rightarrow> mother list \<Rightarrow> candidate" where
  "particle st pdg q x e ms =
     \<lparr>c_status = st, c_pdgId = pdg, c_charge = q, c_p4 = along_x x e,
      c_vertex = (Fin 0, Fin 0, Fin 0), c_mothers = ms, c_daughters = []\<rparr>"

definition fromW :: "mother list" where
  "fromW = [Mother 2 24 [Mother 2 6 []]]"

definition fromB :: "mother list" where
  "fromB = [Mother 2 511 [Mother 2 5 []]]"

text \<open>
  The event \<open>ex_event\<close>, read through both handles: a positron and a muon from W
  decays, two neutrinos, two B hadrons, two pions from a B decay, a photon of zero pt
  and a B hadron whose momentum is NaN. The positron is the harder lepton. Each pion
  is clustered with the ghost of the B hadron of its direction.
\<close>

definition ex_event :: "candidate list" where
  "ex_event =
     [particle 1 (- 11) 1 (Fin 40) (Fin 40) fromW,
      particle 1 13 (- 1) (Fin (- 30)) (Fin 30) fromW,
      particle 1 12 0 (Fin (- 40)) (Fin 40) fromW,
      particle 1 (- 14) 0 (Fin 35) (Fin 35) fromW,
      particle 2 511 0 (Fin 50) (Fin 60) [],
      particle 2 (- 521) (- 1) (Fin (- 45)) (Fin 50) [],
      particle 1 211 1 (Fin 25) (Fin 26) fromB,
      particle 1 (- 211) (- 1) (Fin (- 22)) (Fin 23) fromB,
      particle 1 22 0 (Fin 0) (Fin 0) fromW,
      particle 2 531 0 NaN NaN []]"

definition nuOut :: "dbl \<Rightarrow> dbl \<Rightarrow> int \<Rightarrow> genParticle" where
  "nuOut x e pdg = GenParticle 0 (along_x x e) (Fin 0, Fin 0, Fin 0) pdg 1 True"

definition inputOf :: "dbl \<Rightarrow> dbl \<Rightarrow> nat \<Rightarrow> pseudoJet" where
  "inputOf x e i = \<lparr>pj_p4 = along_x x e, pj_user_index = i\<rparr>"

definition jetOf :: "dbl \<Rightarrow> dbl \<Rightarrow> nat list \<Rightarrow> int \<Rightarrow> int \<Rightarrow> genJet" where
  "jetOf x e cs pdg q =
     \<lparr>j_p4 = along_x x e, j_vertex = (Fin 0, Fin 0, Fin 0), j_constituents = cs,
      j_pdgId = pdg, j_charge = q, j_area = Fin 0\<rparr>"

definition ex_leptons :: "genJet list" where
  "ex_leptons = [jetOf (Fin 40) (Fin 40) [0] (- 11) 1, jetOf (Fin (- 30)) (Fin 30) [1] 13 (- 1)]"

definition ex_nus :: "genParticle list" where
  "ex_nus = [nuOut (Fin (- 40)) (Fin 40) 12, nuOut (Fin 35) (Fin 35) (- 14)]"

definition ex_jets :: "genJet list" where
  "ex_jets =
     [jetOf (Fin (25 + 1 / 10 ^ 20)) (Fin (26 + 60 / 50 / 10 ^ 20)) [6, 4] 5 0,
      jetOf (Fin (- 22 - 1 / 10 ^ 20)) (Fin (23 + 50 / 45 / 10 ^ 20)) [7, 5] 5 0]"

definition ex_out :: event_output where
  "ex_out = \<lparr>o_neutrinos = ex_nus, o_leptons = ex_leptons, o_jets = ex_jets,
              o_pseudoTop = linkDecayTree
                (dileptonTree 1 (- 1) (ex_leptons ! 0) (ex_leptons ! 1) (ex_nus ! 0) (ex_nus ! 1)
                   (ex_jets ! 0) (ex_jets ! 1))\<rparr>"

text \<open>
  Two further jets without a B hadron, for the semileptonic channel; \<open>ex_cfg_w\<close> and
  \<open>ex_cfg_t\<close> put a reference mass so far away that every deviation is above
  \<^verbatim>\<open>1e9\<close>.
\<close>

definition ex_jets4 :: "genJet list" where
  "ex_jets4 = ex_jets @ [jetOf (Fin 21) (Fin 30) [10] 0 0, jetOf (Fin (- 20)) (Fin 45) [11] 0 0]"

definition ex_cfg_w :: config where
  "ex_cfg_w = ex_cfg\<lparr>wMass := Fin 3000000000\<rparr>"

definition ex_cfg_t :: config where
  "ex_cfg_t = ex_cfg\<lparr>tMass := Fin 3000000000\<rparr>"

text \<open>
  \<open>ex_tie\<close>: a positron and a muon of the same direction and the same pt;
  \<open>ex_tie_rev\<close>: the same two particles in the other order.
  \<open>ex_infinite\<close>: particles whose pt is plus infinity. \<open>ex_gen_one_b\<close>: a
  generated-particle collection with one B hadron. \<open>ex_nan_nu\<close>: a neutrino whose
  momentum is NaN and one of pt 10.
\<close>

definition ex_tie :: "candidate list" where
  "ex_tie =
     [particle 1 (- 11) 1 (Fin 30) (Fin 30) fromW,
      particle 1 13 (- 1) (Fin 30) (Fin 31) fromW]"

definition ex_tie_rev :: "candidate list" where
  "ex_tie_rev = rev ex_tie"

definition ex_infinite :: "candidate list" where
  "ex_infinite =
     [particle 1 11 (- 1) PInf PInf fromW,
      particle 1 211 1 PInf PInf fromB,
      particle 2 511 0 PInf PInf []]"


definition ex_nan_nu :: "candidate list" where
  "ex_nan_nu =
     [particle 1 12 0 NaN NaN fromW,
      particle 1 (- 14) 0 (Fin 10) (Fin 10) fromW]"

text \<open>
  \<open>ex_event_neg\<close> is \<open>ex_event\<close> with the muon as the harder lepton, so that the first
  dressed lepton is the negative one. \<open>ex_event_big\<close> is \<open>ex_event\<close> with both leptons
  of charge 50000, whose product does not fit an \<^verbatim>\<open>int\<close>.
\<close>

definition ex_event_neg :: "candidate list" where
  "ex_event_neg =
     [particle 1 (- 11) 1 (Fin 30) (Fin 30) fromW,
      particle 1 13 (- 1) (Fin (- 40)) (Fin 40) fromW,
      particle 1 12 0 (Fin (- 40)) (Fin 40) fromW,
      particle 1 (- 14) 0 (Fin 35) (Fin 35) fromW,
      particle 2 511 0 (Fin 50) (Fin 60) [],
      particle 2 (- 521) (- 1) (Fin (- 45)) (Fin 50) [],
      particle 1 211 1 (Fin 25) (Fin 26) fromB,
      particle 1 (- 211) (- 1) (Fin (- 22)) (Fin 23) fromB]"

definition ex_leptons_neg :: "genJet list" where
  "ex_leptons_neg =
     [jetOf (Fin (- 40)) (Fin 40) [1] 13 (- 1), jetOf (Fin 30) (Fin 30) [0] (- 11) 1]"



section \<open>Properties\<close>

subsection \<open>B hadron identification\<close>

lemma hasBHadronDaughter_iff:
  "hasBHadronDaughter ds \<longleftrightarrow> (\<exists>d \<in> set ds. isBHadron (nat \<bar>d\<bar>))"
  by (induction ds) auto

lemma isBHadron_low: "code \<le> 100 \<Longrightarrow> \<not> isBHadron code"
  by (simp add: isBHadron_def)

lemma isBHadron_high:
  assumes "code \<ge> 10 ^ 9"
  shows "\<not> isBHadron code"
proof -
  from assms have "code \<ge> 1000000000" by simp
  then show ?thesis
    unfolding isBHadron_def by (simp only: if_True if_False simp_thms split: if_splits)
qed

lemma if_chain_digits:
  "(if A then False else if B then True else if C then True else False) = (\<not> A \<and> (B \<or> C))"
  by simp

lemma isBHadron_digits:
  assumes "100 < code" "code < 10 ^ 9"
  shows "isBHadron code =
           ((code div 10) mod 10 \<noteq> 0 \<and>
            (((code div 1000) mod 10 = 0 \<and> (code div 100) mod 10 = 5) \<or>
             (code div 1000) mod 10 = 5))"
proof -
  have lo: "\<not> code \<le> 100" using assms(1) by (simp only: not_le)
  have hi: "\<not> code \<ge> 1000000000" using assms(2) by (simp only: not_le power_numeral) simp
  show ?thesis
    unfolding isBHadron_def Let_def by (simp only: lo hi if_False if_chain_digits)
qed

lemma isBHadron_cand_iff:
  "isBHadron_cand c =
     (isBHadron (nat \<bar>c_pdgId c\<bar>) \<and> (\<forall>d \<in> set (c_daughters c). \<not> isBHadron (nat \<bar>d\<bar>)))"
  by (simp add: isBHadron_cand_def hasBHadronDaughter_iff Let_def)

text \<open>
  Claim C4. The digit test is false for codes up to 100 and from \<open>10^9\<close> on; in between,
  with \<open>q3 = (code/10)%10\<close>, \<open>q2 = (code/100)%10\<close>, \<open>q1 = (code/1000)%10\<close>, it holds
  exactly when \<open>q3 \<noteq> 0\<close> and (\<open>q1 = 0\<close> and \<open>q2 = 5\<close>, or \<open>q1 = 5\<close>). A particle is a B hadron
  exactly when its own absolute code passes the digit test and the absolute code of
  none of its direct daughters does.
\<close>

theorem isBHadron_spec:
  "(code \<le> 100 \<longrightarrow> \<not> isBHadron code) \<and>
   (code \<ge> 10 ^ 9 \<longrightarrow> \<not> isBHadron code) \<and>
   (100 < code \<and> code < 10 ^ 9 \<longrightarrow>
      isBHadron code =
        ((code div 10) mod 10 \<noteq> 0 \<and>
         (((code div 1000) mod 10 = 0 \<and> (code div 100) mod 10 = 5) \<or>
          (code div 1000) mod 10 = 5))) \<and>
   (isBHadron_cand c =
      (isBHadron (nat \<bar>c_pdgId c\<bar>) \<and>
       (\<forall>d \<in> set (c_daughters c). \<not> isBHadron (nat \<bar>d\<bar>))))"
proof (intro conjI impI)
  assume "code \<le> 100"
  then show "\<not> isBHadron code" by (rule isBHadron_low)
next
  assume "code \<ge> 10 ^ 9"
  then show "\<not> isBHadron code" by (rule isBHadron_high)
next
  assume "100 < code \<and> code < 10 ^ 9"
  then have "100 < code" and "code < 10 ^ 9" by (rule conjunct1, rule conjunct2)
  then show "isBHadron code =
        ((code div 10) mod 10 \<noteq> 0 \<and>
         (((code div 1000) mod 10 = 0 \<and> (code div 100) mod 10 = 5) \<or>
          (code div 1000) mod 10 = 5))"
    by (rule isBHadron_digits)
next
  show "isBHadron_cand c =
      (isBHadron (nat \<bar>c_pdgId c\<bar>) \<and>
       (\<forall>d \<in> set (c_daughters c). \<not> isBHadron (nat \<bar>d\<bar>)))"
    by (rule isBHadron_cand_iff)
qed

theorem isBHadron_spec_witness:
  "100 < (521::nat) \<and> (521::nat) < 10 ^ 9 \<and> isBHadron 521 \<and>
   (22::nat) \<le> 100 \<and> \<not> isBHadron 22 \<and>
   \<not> isBHadron_cand \<lparr>c_status = 2, c_pdgId = 513, c_charge = 0,
        c_p4 = \<lparr>px = Fin 1, py = Fin 0, pz = Fin 0, energy = Fin 6\<rparr>,
        c_vertex = (Fin 0, Fin 0, Fin 0), c_mothers = [], c_daughters = [511, 22]\<rparr>"
  using isBHadron_spec [of 521 "\<lparr>c_status = 2, c_pdgId = 513, c_charge = 0,
        c_p4 = \<lparr>px = Fin 1, py = Fin 0, pz = Fin 0, energy = Fin 6\<rparr>,
        c_vertex = (Fin 0, Fin 0, Fin 0), c_mothers = [], c_daughters = [511, 22]\<rparr>"]
    isBHadron_spec [of 22 "\<lparr>c_status = 2, c_pdgId = 513, c_charge = 0,
        c_p4 = \<lparr>px = Fin 1, py = Fin 0, pz = Fin 0, energy = Fin 6\<rparr>,
        c_vertex = (Fin 0, Fin 0, Fin 0), c_mothers = [], c_daughters = [511, 22]\<rparr>"]
    isBHadron_spec [of 511 "\<lparr>c_status = 2, c_pdgId = 513, c_charge = 0,
        c_p4 = \<lparr>px = Fin 1, py = Fin 0, pz = Fin 0, energy = Fin 6\<rparr>,
        c_vertex = (Fin 0, Fin 0, Fin 0), c_mothers = [], c_daughters = [511, 22]\<rparr>"]
    isBHadron_spec [of 513 "\<lparr>c_status = 2, c_pdgId = 513, c_charge = 0,
        c_p4 = \<lparr>px = Fin 1, py = Fin 0, pz = Fin 0, energy = Fin 6\<rparr>,
        c_vertex = (Fin 0, Fin 0, Fin 0), c_mothers = [], c_daughters = [511, 22]\<rparr>"]
  by simp

subsection \<open>Ordering of doubles\<close>

lemma dlt_irrefl: "\<not> dlt a a"
  by (cases a) auto

lemma dlt_trans: "dlt a b \<Longrightarrow> dlt b c \<Longrightarrow> dlt a c"
  by (cases a; cases b; cases c) auto

lemma dle_dlt_trans: "dle a b \<Longrightarrow> dlt b c \<Longrightarrow> dlt a c"
  by (cases a; cases b; cases c) auto

lemma dlt_dle_trans: "dlt a b \<Longrightarrow> dle b c \<Longrightarrow> dlt a c"
  by (cases a; cases b; cases c) auto

lemma dlt_imp_dle: "dlt a b \<Longrightarrow> dle a b"
  by (cases a; cases b) auto

lemma dlt_not_nan: "dlt a b \<Longrightarrow> \<not> isnan a \<and> \<not> isnan b"
  by (cases a; cases b) auto

lemma not_dlt_iff_dle: "\<not> isnan a \<Longrightarrow> \<not> isnan b \<Longrightarrow> (\<not> dlt a b) = dle b a"
  by (cases a; cases b) auto

lemma dge_iff_not_dlt: "\<not> isnan a \<Longrightarrow> \<not> isnan b \<Longrightarrow> dge a b = (\<not> dlt a b)"
  by (cases a; cases b) (auto simp: dge_def)

subsection \<open>The running best of a search\<close>

lemma keepBest_none:
  "\<forall>c \<in> set cs. \<not> dlt (d c) (fst st) \<Longrightarrow> fold (keepBest d enc) cs st = st"
  by (induction cs arbitrary: st) (auto simp: keepBest_def)

lemma keepBest_lower:
  "\<not> isnan (fst st) \<Longrightarrow>
   \<not> isnan (fst (fold (keepBest d enc) cs st)) \<and>
   dle (fst (fold (keepBest d enc) cs st)) (fst st) \<and>
   (\<forall>c \<in> set cs. \<not> dlt (d c) (fst (fold (keepBest d enc) cs st)))"
proof (induction cs arbitrary: st)
  case Nil
  then show ?case by (cases "fst st") auto
next
  case (Cons c cs)
  let ?st' = "keepBest d enc c st"
  have nn: "\<not> isnan (fst ?st')" using Cons.prems by (auto simp: keepBest_def dest: dlt_not_nan)
  have le: "dle (fst ?st') (fst st)" using Cons.prems
    by (cases "fst st") (auto simp: keepBest_def dest: dlt_imp_dle)
  have c: "\<not> dlt (d c) (fst ?st')" by (auto simp: keepBest_def dlt_irrefl)
  from Cons.IH[OF nn] have ih: "\<not> isnan (fst (fold (keepBest d enc) cs ?st'))"
    "dle (fst (fold (keepBest d enc) cs ?st')) (fst ?st')"
    "\<forall>c \<in> set cs. \<not> dlt (d c) (fst (fold (keepBest d enc) cs ?st'))" by auto
  have "dle (fst (fold (keepBest d enc) cs ?st')) (fst st)"
    using ih(1,2) le nn Cons.prems
    by (cases "fst (fold (keepBest d enc) cs ?st')"; cases "fst ?st'"; cases "fst st") auto
  moreover have "\<not> dlt (d c) (fst (fold (keepBest d enc) cs ?st'))"
    using c ih(2) by (meson dlt_dle_trans)
  ultimately show ?case using ih by simp
qed

lemma keepBest_first_min:
  assumes "\<not> isnan (fst st)" "\<exists>c \<in> set cs. dlt (d c) (fst st)"
  shows "\<exists>pre c post. cs = pre @ c # post \<and> fold (keepBest d enc) cs st = (d c, enc c) \<and>
           dlt (d c) (fst st) \<and>
           (\<forall>e \<in> set pre. \<not> dle (d e) (d c)) \<and> (\<forall>e \<in> set post. \<not> dlt (d e) (d c))"
  using assms
proof (induction cs arbitrary: st rule: rev_induct)
  case Nil
  then show ?case by simp
next
  case (snoc x cs)
  let ?r = "fold (keepBest d enc) cs st"
  have low: "\<not> isnan (fst ?r)" "dle (fst ?r) (fst st)" "\<forall>c \<in> set cs. \<not> dlt (d c) (fst ?r)"
    using keepBest_lower[OF snoc.prems(1), of d enc cs] by auto
  show ?case
  proof (cases "dlt (d x) (fst ?r)")
    case True
    then have r: "fold (keepBest d enc) (cs @ [x]) st = (d x, enc x)" by (simp add: keepBest_def)
    have "dlt (d x) (fst st)" using True low(2) by (rule dlt_dle_trans)
    moreover have "\<forall>e \<in> set cs. \<not> dle (d e) (d x)"
      using low(3) True by (meson dle_dlt_trans)
    ultimately show ?thesis using r by (intro exI[of _ cs] exI[of _ x] exI[of _ "[]"]) simp
  next
    case False
    then have r: "fold (keepBest d enc) (cs @ [x]) st = ?r" by (simp add: keepBest_def)
    have ex: "\<exists>c \<in> set cs. dlt (d c) (fst st)"
    proof (rule ccontr)
      assume "\<not> ?thesis"
      then have "?r = st" by (intro keepBest_none) simp
      with False snoc.prems(2) \<open>\<not> (\<exists>c \<in> set cs. dlt (d c) (fst st))\<close> show False by auto
    qed
    from snoc.IH[OF snoc.prems(1) ex] obtain pre c post where
      p: "cs = pre @ c # post" "?r = (d c, enc c)" "dlt (d c) (fst st)"
         "\<forall>e \<in> set pre. \<not> dle (d e) (d c)" "\<forall>e \<in> set post. \<not> dlt (d e) (d c)" by blast
    have "\<not> dlt (d x) (d c)" using False p(2) by simp
    then show ?thesis using p r
      by (intro exI[of _ pre] exI[of _ c] exI[of _ "post @ [x]"]) simp
  qed
qed


lemma dle_refl: "\<not> isnan a \<Longrightarrow> dle a a"
  by (cases a) auto

lemma firstMin_split:
  assumes "\<not> isnan (d c)" "\<forall>e \<in> set pre. \<not> dle (d e) (d c)" "\<forall>e \<in> set post. \<not> dlt (d e) (d c)"
  shows "firstMin d (pre @ c # post) c"
  using assms(2)
proof (induction pre)
  case Nil
  then show ?case using assms(3) by (simp add: list_all_iff)
next
  case (Cons p pre)
  then have "p \<noteq> c" using assms(1) dle_refl by auto
  then show ?case using Cons by simp
qed

lemma firstMin_mem: "firstMin d cs c \<Longrightarrow> c \<in> set cs"
  by (induction cs) (auto split: if_splits)

lemma firstMin_minimal: "firstMin d cs c \<Longrightarrow> e \<in> set cs \<Longrightarrow> \<not> dlt (d e) (d c)"
  by (induction cs) (auto split: if_splits simp: list_all_iff dlt_irrefl dest: dlt_imp_dle)

lemma firstMin_unique:
  "firstMin d cs c \<Longrightarrow> firstMin d cs c' \<Longrightarrow> \<not> isnan (d c) \<Longrightarrow> \<not> isnan (d c') \<Longrightarrow> c = c'"
proof (induction cs)
  case Nil
  then show ?case by simp
next
  case (Cons x cs)
  show ?case
  proof (cases "x = c"; cases "x = c'")
    assume "x = c" "x \<noteq> c'"
    with Cons.prems have "\<not> dle (d c) (d c')" "c' \<in> set cs" "\<forall>e \<in> set cs. \<not> dlt (d e) (d c)"
      by (auto simp: list_all_iff dest: firstMin_mem)
    then show ?thesis using Cons.prems(3,4) by (cases "d c"; cases "d c'") auto
  next
    assume "x \<noteq> c" "x = c'"
    with Cons.prems have "\<not> dle (d c') (d c)" "c \<in> set cs" "\<forall>e \<in> set cs. \<not> dlt (d e) (d c')"
      by (auto simp: list_all_iff dest: firstMin_mem)
    then show ?thesis using Cons.prems(3,4) by (cases "d c"; cases "d c'") auto
  qed (use Cons in auto)
qed

lemma keepBest_result:
  assumes "\<not> isnan dm0"
  shows "(\<forall>c \<in> set cs. \<not> dlt (d c) dm0) \<and> fold (keepBest d enc) cs (dm0, s0) = (dm0, s0) \<or>
         (\<exists>c. fold (keepBest d enc) cs (dm0, s0) = (d c, enc c) \<and> dlt (d c) dm0 \<and> firstMin d cs c)"
proof (cases "\<exists>c \<in> set cs. dlt (d c) dm0")
  case True
  with keepBest_first_min[of "(dm0, s0)" cs d enc] assms obtain pre c post where
    p: "cs = pre @ c # post" "fold (keepBest d enc) cs (dm0, s0) = (d c, enc c)" "dlt (d c) dm0"
       "\<forall>e \<in> set pre. \<not> dle (d e) (d c)" "\<forall>e \<in> set post. \<not> dlt (d e) (d c)"
    by auto
  from p(3) have "\<not> isnan (d c)" by (auto dest: dlt_not_nan)
  then have "firstMin d cs c" unfolding p(1) using p(4,5) by (rule firstMin_split)
  with p show ?thesis by blast
next
  case False
  then have "fold (keepBest d enc) cs (dm0, s0) = (dm0, s0)" by (intro keepBest_none) simp
  with False show ?thesis by blast
qed

lemma fold_inner_keepBest:
  assumes "\<And>j st. step j st = (if i = j then st else keepBest d enc (i, j) st)"
  shows "fold step ys st = fold (keepBest d enc) [(i, j). j \<leftarrow> ys, i \<noteq> j] st"
  by (induction ys arbitrary: st) (simp_all add: assms)

lemma fold_pairs_keepBest:
  assumes "\<And>i j st. step i j st = (if i = j then st else keepBest d enc (i, j) st)"
  shows "fold (\<lambda>i. fold (step i) ys) xs st = fold (keepBest d enc) [(i, j). i \<leftarrow> xs, j \<leftarrow> ys, i \<noteq> j] st"
proof (induction xs arbitrary: st)
  case Nil
  then show ?case by simp
next
  case (Cons i xs)
  have "fold (step i) ys st = fold (keepBest d enc) [(i, j). j \<leftarrow> ys, i \<noteq> j] st"
    by (rule fold_inner_keepBest) (rule assms)
  then show ?case using Cons by simp
qed

lemma foldPairs_keepBest:
  assumes "\<And>j1 j2 st. step j1 j2 st = keepBest d enc (i, j1, j2) st"
  shows "foldPairs step xs st = fold (keepBest d enc) [(i, j1, j2). (j1, j2) \<leftarrow> laterPairs xs] st"
proof (induction xs arbitrary: st)
  case Nil
  then show ?case by simp
next
  case (Cons x xs)
  have "fold (step x) ys st' = fold (keepBest d enc) (map (\<lambda>j2. (i, x, j2)) ys) st'" for ys st'
    by (induction ys arbitrary: st') (simp_all add: assms)
  then show ?case using Cons by (simp add: comp_def)
qed

lemma searchNuPair_keepBest:
  "searchNuPair env cfg lepton1 lepton2 neutrinos =
     fold (keepBest (\<lambda>(i, j). nuPairDev env cfg lepton1 lepton2 neutrinos i j) (\<lambda>(i, j). (int i, int j)))
       (orderedPairs [0..<length neutrinos]) (Fin 1000000000, - 1, - 1)"
  unfolding searchNuPair_def Let_def orderedPairs_def
  by (rule fold_pairs_keepBest) (simp add: nuPairStep_def keepBest_def Let_def)

lemma searchBPair_keepBest:
  "list_all (\<lambda>i. i < length jets) bjetIdxs \<Longrightarrow>
   searchBPair env cfg w1LVec w2LVec jets bjetIdxs =
     Inr (fold (keepBest (\<lambda>(i, j). bPairDev env cfg w1LVec w2LVec jets i j) (\<lambda>(i, j). (int i, int j)))
       (orderedPairs bjetIdxs) (Fin 1000000000, - 1, - 1))"
  unfolding searchBPair_def orderedPairs_def
  by (simp only: if_True sum.inject, rule fold_pairs_keepBest) (simp add: bPairStep_def keepBest_def Let_def)

lemma searchWJets_keepBest:
  "list_all (\<lambda>j. j < length jets) ljetIdxs \<Longrightarrow>
   searchWJets env cfg lepton neutrinos jets ljetIdxs =
     Inr (fold (keepBest (\<lambda>(i, j1, j2). wJetsDev env cfg lepton neutrinos jets i j1 j2)
                 (\<lambda>(i, j1, j2). (int i, int j1, int j2)))
       (wCombos (length neutrinos) ljetIdxs) (Fin 1000000000, - 1, - 1, - 1))"
proof -
  have "fold (\<lambda>i. foldPairs (wJetsStep env cfg lepton neutrinos jets i) ljetIdxs) xs st =
        fold (keepBest (\<lambda>(i, j1, j2). wJetsDev env cfg lepton neutrinos jets i j1 j2)
                 (\<lambda>(i, j1, j2). (int i, int j1, int j2)))
          [(i, j1, j2). i \<leftarrow> xs, (j1, j2) \<leftarrow> laterPairs ljetIdxs] st" for xs st
  proof (induction xs arbitrary: st)
    case Nil
    then show ?case by simp
  next
    case (Cons i xs)
    have "foldPairs (wJetsStep env cfg lepton neutrinos jets i) ljetIdxs st =
          fold (keepBest (\<lambda>(i, j1, j2). wJetsDev env cfg lepton neutrinos jets i j1 j2)
                 (\<lambda>(i, j1, j2). (int i, int j1, int j2)))
            [(i, j1, j2). (j1, j2) \<leftarrow> laterPairs ljetIdxs] st"
      by (rule foldPairs_keepBest) (simp add: wJetsStep_def keepBest_def Let_def)
    then show ?case using Cons by simp
  qed
  then show "list_all (\<lambda>j. j < length jets) ljetIdxs \<Longrightarrow> ?thesis"
    by (simp add: searchWJets_def wCombos_def)
qed

subsection \<open>The searches and the two channels\<close>

lemma set_orderedPairs:
  "set (orderedPairs xs) = {(i, j). i \<in> set xs \<and> j \<in> set xs \<and> i \<noteq> j}"
  by (auto simp: orderedPairs_def)

lemma set_laterPairs_subset:
  "(a, b) \<in> set (laterPairs xs) \<Longrightarrow> a \<in> set xs \<and> b \<in> set xs"
  by (induction xs) auto

lemma set_wCombos_subset:
  "(i, a, b) \<in> set (wCombos n xs) \<Longrightarrow> i < n \<and> a \<in> set xs \<and> b \<in> set xs"
  by (auto simp: wCombos_def dest: set_laterPairs_subset)

lemma vec_at_nat: "i < length xs \<Longrightarrow> vec_at xs (int i) = Inr (xs ! i)"
  by (simp add: vec_at_def)

lemma sentinel_dge: "dge (Fin b) (Fin b)"
  by (simp add: dge_def)

lemma dlt_not_dge: "dlt a b \<Longrightarrow> \<not> dge a b"
  by (cases a; cases b) (auto simp: dge_def)

lemma dge_not_dlt: "dge a b \<Longrightarrow> \<not> dlt a b"
  by (cases a; cases b) (auto simp: dge_def)

lemma searchNuPair_result:
  fixes env cfg lepton1 lepton2 neutrinos
  defines "d \<equiv> \<lambda>(i, j). nuPairDev env cfg lepton1 lepton2 neutrinos i j"
    and "cs \<equiv> orderedPairs [0..<length neutrinos]"
  shows "(\<forall>c \<in> set cs. \<not> dlt (d c) (Fin 1000000000)) \<and>
           searchNuPair env cfg lepton1 lepton2 neutrinos = (Fin 1000000000, - 1, - 1) \<or>
         (\<exists>i j. searchNuPair env cfg lepton1 lepton2 neutrinos = (d (i, j), int i, int j) \<and>
                 dlt (d (i, j)) (Fin 1000000000) \<and> firstMin d cs (i, j))"
  using keepBest_result[of "Fin 1000000000" cs d "\<lambda>(i, j). (int i, int j)" "(- 1, - 1)"]
  unfolding searchNuPair_keepBest d_def cs_def by auto

lemma searchBPair_result:
  fixes env cfg w1LVec w2LVec jets bjetIdxs
  defines "d \<equiv> \<lambda>(i, j). bPairDev env cfg w1LVec w2LVec jets i j"
    and "cs \<equiv> orderedPairs bjetIdxs"
  assumes valid: "list_all (\<lambda>i. i < length jets) bjetIdxs"
  shows "(\<forall>c \<in> set cs. \<not> dlt (d c) (Fin 1000000000)) \<and>
           searchBPair env cfg w1LVec w2LVec jets bjetIdxs = Inr (Fin 1000000000, - 1, - 1) \<or>
         (\<exists>i j. searchBPair env cfg w1LVec w2LVec jets bjetIdxs = Inr (d (i, j), int i, int j) \<and>
                 dlt (d (i, j)) (Fin 1000000000) \<and> firstMin d cs (i, j))"
  using keepBest_result[of "Fin 1000000000" cs d "\<lambda>(i, j). (int i, int j)" "(- 1, - 1)"]
  unfolding searchBPair_keepBest[OF valid] d_def cs_def by auto

lemma searchWJets_result:
  fixes env cfg lepton neutrinos jets ljetIdxs
  defines "d \<equiv> \<lambda>(i, j1, j2). wJetsDev env cfg lepton neutrinos jets i j1 j2"
    and "cs \<equiv> wCombos (length neutrinos) ljetIdxs"
  assumes valid: "list_all (\<lambda>j. j < length jets) ljetIdxs"
  shows "(\<forall>c \<in> set cs. \<not> dlt (d c) (Fin 1000000000)) \<and>
           searchWJets env cfg lepton neutrinos jets ljetIdxs = Inr (Fin 1000000000, - 1, - 1, - 1) \<or>
         (\<exists>i j1 j2. searchWJets env cfg lepton neutrinos jets ljetIdxs =
                       Inr (d (i, j1, j2), int i, int j1, int j2) \<and>
                 dlt (d (i, j1, j2)) (Fin 1000000000) \<and> firstMin d cs (i, j1, j2))"
  using keepBest_result[of "Fin 1000000000" cs d "\<lambda>(i, j1, j2). (int i, int j1, int j2)" "(- 1, - 1, - 1)"]
  unfolding searchWJets_keepBest[OF valid] d_def cs_def by auto


lemma bStage_result:
  fixes env cfg w1LVec w2LVec jets bjetIdxs F
  defines "d \<equiv> \<lambda>(i, j). bPairDev env cfg w1LVec w2LVec jets i j"
    and "R \<equiv> (case searchBPair env cfg w1LVec w2LVec jets bjetIdxs of Inl e \<Rightarrow> Inl e
          | Inr (dm', selB1, selB2) \<Rightarrow>
          if dge dm' (Fin 1000000000) then Inr []
          else
            case vec_at jets selB1 of Inl e \<Rightarrow> Inl e | Inr bJet1 \<Rightarrow>
            case vec_at jets selB2 of Inl e \<Rightarrow> Inl e | Inr bJet2 \<Rightarrow>
            Inr (F bJet1 bJet2))"
  assumes valid: "list_all (\<lambda>i. i < length jets) bjetIdxs"
  shows "(\<forall>c \<in> set (orderedPairs bjetIdxs). \<not> dlt (d c) (Fin 1000000000)) \<and> R = Inr [] \<or>
         (\<exists>k l. firstMin d (orderedPairs bjetIdxs) (k, l) \<and> dlt (d (k, l)) (Fin 1000000000) \<and>
                 R = Inr (F (jets ! k) (jets ! l)))"
proof -
  from searchBPair_result[OF valid, where env=env and cfg=cfg and ?w1LVec=w1LVec and ?w2LVec=w2LVec]
  consider
    (none) "\<forall>c \<in> set (orderedPairs bjetIdxs). \<not> dlt (d c) (Fin 1000000000)"
           "searchBPair env cfg w1LVec w2LVec jets bjetIdxs = Inr (Fin 1000000000, - 1, - 1)"
  | (some) k l where "searchBPair env cfg w1LVec w2LVec jets bjetIdxs = Inr (d (k, l), int k, int l)"
           "dlt (d (k, l)) (Fin 1000000000)" "firstMin d (orderedPairs bjetIdxs) (k, l)"
    unfolding d_def by blast
  then show ?thesis
  proof cases
    case none
    then show ?thesis by (simp add: R_def sentinel_dge)
  next
    case some
    from some(3) have "(k, l) \<in> set (orderedPairs bjetIdxs)" by (rule firstMin_mem)
    then have "k < length jets" "l < length jets"
      using valid by (auto simp: set_orderedPairs list_all_iff)
    then have "R = Inr (F (jets ! k) (jets ! l))"
      using some(1,2) by (simp add: R_def dlt_not_dge vec_at_nat)
    with some show ?thesis by blast
  qed
qed

lemma dilepton_result:
  fixes env cfg leptons neutrinos jets bjetIdxs
  defines "q1 \<equiv> j_charge (leptons ! 0)" and "q2 \<equiv> j_charge (leptons ! 1)"
  defines "lepton1 \<equiv> (if q1 > 0 then leptons ! 0 else leptons ! 1)"
    and "lepton2 \<equiv> (if q1 > 0 then leptons ! 1 else leptons ! 0)"
  defines "dnu \<equiv> \<lambda>(i, j). nuPairDev env cfg lepton1 lepton2 neutrinos i j"
    and "db \<equiv> \<lambda>i j. \<lambda>(k, l). bPairDev env cfg (p4_add (j_p4 lepton1) (gp_p4 (neutrinos ! i)))
                        (p4_add (j_p4 lepton2) (gp_p4 (neutrinos ! j))) jets k l"
  assumes valid: "list_all (\<lambda>i. i < length jets) bjetIdxs"
  shows "int32 (q1 * q2) > 0 \<and> dilepton env cfg leptons neutrinos jets bjetIdxs = Inr [] \<or>
         \<not> int32 (q1 * q2) > 0 \<and>
           (\<forall>c \<in> set (orderedPairs [0..<length neutrinos]). \<not> dlt (dnu c) (Fin 1000000000)) \<and>
           dilepton env cfg leptons neutrinos jets bjetIdxs = Inr [] \<or>
         \<not> int32 (q1 * q2) > 0 \<and>
           (\<exists>i j. firstMin dnu (orderedPairs [0..<length neutrinos]) (i, j) \<and>
              dlt (dnu (i, j)) (Fin 1000000000) \<and>
              ((\<forall>c \<in> set (orderedPairs bjetIdxs). \<not> dlt (db i j c) (Fin 1000000000)) \<and>
                 dilepton env cfg leptons neutrinos jets bjetIdxs = Inr [] \<or>
               (\<exists>k l. firstMin (db i j) (orderedPairs bjetIdxs) (k, l) \<and>
                  dlt (db i j (k, l)) (Fin 1000000000) \<and>
                  dilepton env cfg leptons neutrinos jets bjetIdxs =
                    Inr (dileptonTree q1 q2 lepton1 lepton2 (neutrinos ! i) (neutrinos ! j)
                           (jets ! k) (jets ! l)))))"
proof (cases "int32 (q1 * q2) > 0")
  case True
  then show ?thesis by (simp add: dilepton_def q1_def q2_def)
next
  case False
  from searchNuPair_result[where env=env and cfg=cfg and ?lepton1.0=lepton1 and ?lepton2.0=lepton2
      and neutrinos=neutrinos]
  consider
    (none) "\<forall>c \<in> set (orderedPairs [0..<length neutrinos]). \<not> dlt (dnu c) (Fin 1000000000)"
           "searchNuPair env cfg lepton1 lepton2 neutrinos = (Fin 1000000000, - 1, - 1)"
  | (some) i j where "searchNuPair env cfg lepton1 lepton2 neutrinos = (dnu (i, j), int i, int j)"
           "dlt (dnu (i, j)) (Fin 1000000000)"
           "firstMin dnu (orderedPairs [0..<length neutrinos]) (i, j)"
    unfolding dnu_def by blast
  then show ?thesis
  proof cases
    case none
    have "dilepton env cfg leptons neutrinos jets bjetIdxs = Inr []"
      using False none(2) unfolding dilepton_def Let_def q1_def q2_def lepton1_def lepton2_def
      by (simp add: sentinel_dge)
    with False none(1) show ?thesis by blast
  next
    case some
    from some(3) have "(i, j) \<in> set (orderedPairs [0..<length neutrinos])" by (rule firstMin_mem)
    then have ij: "i < length neutrinos" "j < length neutrinos" by (auto simp: set_orderedPairs)
    let ?w1 = "p4_add (j_p4 lepton1) (gp_p4 (neutrinos ! i))"
    let ?w2 = "p4_add (j_p4 lepton2) (gp_p4 (neutrinos ! j))"
    let ?F = "dileptonTree q1 q2 lepton1 lepton2 (neutrinos ! i) (neutrinos ! j)"
    have eq: "dilepton env cfg leptons neutrinos jets bjetIdxs =
      (case searchBPair env cfg ?w1 ?w2 jets bjetIdxs of Inl e \<Rightarrow> Inl e
          | Inr (dm', selB1, selB2) \<Rightarrow>
          if dge dm' (Fin 1000000000) then Inr []
          else
            case vec_at jets selB1 of Inl e \<Rightarrow> Inl e | Inr bJet1 \<Rightarrow>
            case vec_at jets selB2 of Inl e \<Rightarrow> Inl e | Inr bJet2 \<Rightarrow>
            Inr (?F bJet1 bJet2))"
      using False some(1,2) ij
      unfolding dilepton_def Let_def q1_def[symmetric] q2_def[symmetric]
        lepton1_def[symmetric] lepton2_def[symmetric]
      by (simp add: dlt_not_dge vec_at_nat)
    from bStage_result[OF valid, where env=env and cfg=cfg and ?w1LVec="?w1" and ?w2LVec="?w2"
      and F="?F"]
    have "(\<forall>c \<in> set (orderedPairs bjetIdxs). \<not> dlt (db i j c) (Fin 1000000000)) \<and>
             dilepton env cfg leptons neutrinos jets bjetIdxs = Inr [] \<or>
          (\<exists>k l. firstMin (db i j) (orderedPairs bjetIdxs) (k, l) \<and>
                  dlt (db i j (k, l)) (Fin 1000000000) \<and>
                  dilepton env cfg leptons neutrinos jets bjetIdxs = Inr (?F (jets ! k) (jets ! l)))"
      unfolding eq db_def by simp
    with False some(2,3) show ?thesis by blast
  qed
qed


lemma semilepton_result:
  fixes env cfg leptons neutrinos jets bjetIdxs ljetIdxs
  defines "lepton \<equiv> leptons ! 0"
  defines "dw \<equiv> \<lambda>(i, j1, j2). wJetsDev env cfg lepton neutrinos jets i j1 j2"
    and "db \<equiv> \<lambda>i j1 j2. \<lambda>(k, l). bPairDev env cfg (p4_add (j_p4 lepton) (gp_p4 (neutrinos ! i)))
                        (p4_add (j_p4 (jets ! j1)) (j_p4 (jets ! j2))) jets k l"
  assumes valid: "list_all (\<lambda>i. i < length jets) bjetIdxs"
    and validl: "list_all (\<lambda>j. j < length jets) ljetIdxs"
  shows "(\<forall>c \<in> set (wCombos (length neutrinos) ljetIdxs). \<not> dlt (dw c) (Fin 1000000000)) \<and>
           semilepton env cfg leptons neutrinos jets bjetIdxs ljetIdxs = Inr [] \<or>
         (\<exists>i j1 j2. firstMin dw (wCombos (length neutrinos) ljetIdxs) (i, j1, j2) \<and>
              dlt (dw (i, j1, j2)) (Fin 1000000000) \<and>
              ((\<forall>c \<in> set (orderedPairs bjetIdxs). \<not> dlt (db i j1 j2 c) (Fin 1000000000)) \<and>
                 semilepton env cfg leptons neutrinos jets bjetIdxs ljetIdxs = Inr [] \<or>
               (\<exists>k l. firstMin (db i j1 j2) (orderedPairs bjetIdxs) (k, l) \<and>
                  dlt (db i j1 j2 (k, l)) (Fin 1000000000) \<and>
                  semilepton env cfg leptons neutrinos jets bjetIdxs ljetIdxs =
                    Inr (semileptonTree lepton (neutrinos ! i) (jets ! j1) (jets ! j2)
                           (jets ! k) (jets ! l)))))"
proof -
  from searchWJets_result[OF validl, where env=env and cfg=cfg and lepton=lepton
      and neutrinos=neutrinos]
  consider
    (none) "\<forall>c \<in> set (wCombos (length neutrinos) ljetIdxs). \<not> dlt (dw c) (Fin 1000000000)"
           "searchWJets env cfg lepton neutrinos jets ljetIdxs = Inr (Fin 1000000000, - 1, - 1, - 1)"
  | (some) i j1 j2 where
           "searchWJets env cfg lepton neutrinos jets ljetIdxs =
              Inr (dw (i, j1, j2), int i, int j1, int j2)"
           "dlt (dw (i, j1, j2)) (Fin 1000000000)"
           "firstMin dw (wCombos (length neutrinos) ljetIdxs) (i, j1, j2)"
    unfolding dw_def by blast
  then show ?thesis
  proof cases
    case none
    have "semilepton env cfg leptons neutrinos jets bjetIdxs ljetIdxs = Inr []"
      using none(2) unfolding semilepton_def Let_def lepton_def
      by (simp add: sentinel_dge)
    with none(1) show ?thesis by blast
  next
    case some
    from some(3) have "(i, j1, j2) \<in> set (wCombos (length neutrinos) ljetIdxs)"
      by (rule firstMin_mem)
    then have "i < length neutrinos" "j1 \<in> set ljetIdxs" "j2 \<in> set ljetIdxs"
      by (auto dest: set_wCombos_subset)
    then have ij: "i < length neutrinos" "j1 < length jets" "j2 < length jets"
      using validl by (auto simp: list_all_iff)
    let ?w1 = "p4_add (j_p4 lepton) (gp_p4 (neutrinos ! i))"
    let ?w2 = "p4_add (j_p4 (jets ! j1)) (j_p4 (jets ! j2))"
    let ?F = "semileptonTree lepton (neutrinos ! i) (jets ! j1) (jets ! j2)"
    have eq: "semilepton env cfg leptons neutrinos jets bjetIdxs ljetIdxs =
      (case searchBPair env cfg ?w1 ?w2 jets bjetIdxs of Inl e \<Rightarrow> Inl e
          | Inr (dm', selB1, selB2) \<Rightarrow>
          if dge dm' (Fin 1000000000) then Inr []
          else
            case vec_at jets selB1 of Inl e \<Rightarrow> Inl e | Inr bJet1 \<Rightarrow>
            case vec_at jets selB2 of Inl e \<Rightarrow> Inl e | Inr bJet2 \<Rightarrow>
            Inr (?F bJet1 bJet2))"
      using some(1,2) ij
      unfolding semilepton_def Let_def lepton_def[symmetric]
      by (simp add: dlt_not_dge vec_at_nat)
    from bStage_result[OF valid, where env=env and cfg=cfg and ?w1LVec="?w1" and ?w2LVec="?w2"
      and F="?F"]
    have "(\<forall>c \<in> set (orderedPairs bjetIdxs). \<not> dlt (db i j1 j2 c) (Fin 1000000000)) \<and>
             semilepton env cfg leptons neutrinos jets bjetIdxs ljetIdxs = Inr [] \<or>
          (\<exists>k l. firstMin (db i j1 j2) (orderedPairs bjetIdxs) (k, l) \<and>
                  dlt (db i j1 j2 (k, l)) (Fin 1000000000) \<and>
                  semilepton env cfg leptons neutrinos jets bjetIdxs ljetIdxs =
                    Inr (?F (jets ! k) (jets ! l)))"
      unfolding eq db_def by simp
    with some(2,3) show ?thesis by blast
  qed
qed

lemma combine_total:
  assumes "list_all (\<lambda>i. i < length jets) bjetIdxs" "list_all (\<lambda>j. j < length jets) ljetIdxs"
  shows "\<exists>ps. combine env cfg leptons neutrinos jets bjetIdxs ljetIdxs = Inr ps"
proof -
  have "\<exists>ps. dilepton env cfg leptons neutrinos jets bjetIdxs = Inr ps"
    using dilepton_result[OF assms(1), where env=env and cfg=cfg and leptons=leptons
        and neutrinos=neutrinos] by blast
  moreover have "\<exists>ps. semilepton env cfg leptons neutrinos jets bjetIdxs ljetIdxs = Inr ps"
    using semilepton_result[OF assms, where env=env and cfg=cfg and leptons=leptons
        and neutrinos=neutrinos] by blast
  ultimately show ?thesis by (simp add: combine_def)
qed

subsection \<open>Dressed leptons and jets\<close>

lemma dgt_chain1: "\<not> isnan b \<Longrightarrow> \<not> isnan a \<Longrightarrow> dgt a c \<Longrightarrow> \<not> dgt a b \<Longrightarrow> \<not> dgt c b"
  by (cases a; cases b; cases c) (auto simp: dgt_def)

lemma dgt_chain2: "\<not> isnan a \<Longrightarrow> \<not> isnan b \<Longrightarrow> \<not> isnan c \<Longrightarrow> \<not> dgt a c \<Longrightarrow> \<not> dgt c b \<Longrightarrow> \<not> dgt a b"
  by (cases a; cases b; cases c) (auto simp: dgt_def)

lemma lastHighest_mem: "lastHighest env fs cs l \<Longrightarrow> l \<in> pj_user_index ` set cs \<and> isChargedLepton (fs ! l)"
  by (induction cs) auto

lemma pickLepton_char:
  assumes "\<forall>c \<in> set cs. pj_user_index c < length fs \<and> \<not> isnan (candPt env fs (pj_user_index c))"
    and "\<forall>l0. lc = Some l0 \<longrightarrow> \<not> isnan (candPt env fs l0)"
  shows "\<exists>lc' cons'. pickLepton env fs cs (lc, cons) = Inr (lc', cons') \<and>
           set cons' \<subseteq> set cons \<union> pj_user_index ` set cs \<and>
           (case lc of
              None \<Rightarrow> (lc' = None \<and> \<not> list_ex (\<lambda>c. isChargedLepton (fs ! pj_user_index c)) cs) \<or>
                       (\<exists>l. lc' = Some l \<and> lastHighest env fs cs l)
            | Some l0 \<Rightarrow>
                (lc' = Some l0 \<and>
                 (\<forall>e \<in> set cs. isChargedLepton (fs ! pj_user_index e) \<longrightarrow>
                    dgt (candPt env fs l0) (candPt env fs (pj_user_index e)))) \<or>
                (\<exists>l. lc' = Some l \<and> lastHighest env fs cs l \<and>
                     \<not> dgt (candPt env fs l0) (candPt env fs l)))"
  using assms
proof (induction cs arbitrary: lc cons)
  case Nil
  then show ?case by (cases lc) auto
next
  case (Cons c cs)
  let ?i = "pj_user_index c"
  have i: "?i < length fs" and nn: "\<not> isnan (candPt env fs ?i)" using Cons.prems(1) by auto
  have rest: "\<forall>c \<in> set cs. pj_user_index c < length fs \<and> \<not> isnan (candPt env fs (pj_user_index c))"
    using Cons.prems(1) by auto
  have nnl: "\<not> isnan (candPt env fs l)" if "lastHighest env fs cs l" for l
    using lastHighest_mem[OF that] rest by auto
  show ?case
  proof (cases "isChargedLepton (fs ! ?i)")
    case False
    from Cons.IH[OF rest Cons.prems(2), of "cons @ [?i]"] obtain lc' cons' where
      r: "pickLepton env fs cs (lc, cons @ [?i]) = Inr (lc', cons')"
         "set cons' \<subseteq> set (cons @ [?i]) \<union> pj_user_index ` set cs"
      and ch: "(case lc of
              None \<Rightarrow> (lc' = None \<and> \<not> list_ex (\<lambda>c. isChargedLepton (fs ! pj_user_index c)) cs) \<or>
                       (\<exists>l. lc' = Some l \<and> lastHighest env fs cs l)
            | Some l0 \<Rightarrow>
                (lc' = Some l0 \<and>
                 (\<forall>e \<in> set cs. isChargedLepton (fs ! pj_user_index e) \<longrightarrow>
                    dgt (candPt env fs l0) (candPt env fs (pj_user_index e)))) \<or>
                (\<exists>l. lc' = Some l \<and> lastHighest env fs cs l \<and>
                     \<not> dgt (candPt env fs l0) (candPt env fs l)))" by blast
    have "pickLepton env fs (c # cs) (lc, cons) = Inr (lc', cons')"
      using False i r(1) by (simp add: isChargedLepton_def Let_def)
    moreover have "set cons' \<subseteq> set cons \<union> pj_user_index ` set (c # cs)" using r(2) by auto
    ultimately show ?thesis using ch False by (cases lc) auto
  next
    case True
    show ?thesis
    proof (cases "\<exists>l0. lc = Some l0 \<and> dgt (candPt env fs l0) (candPt env fs ?i)")
      case keep: True
      then obtain l0 where l0: "lc = Some l0" "dgt (candPt env fs l0) (candPt env fs ?i)" by blast
      have nn0: "\<not> isnan (candPt env fs l0)" using Cons.prems(2) l0 by simp
      from Cons.IH[OF rest Cons.prems(2), of cons] l0 obtain lc' cons' where
        r: "pickLepton env fs cs (lc, cons) = Inr (lc', cons')"
           "set cons' \<subseteq> set cons \<union> pj_user_index ` set cs"
        and ch: "(lc' = Some l0 \<and>
                 (\<forall>e \<in> set cs. isChargedLepton (fs ! pj_user_index e) \<longrightarrow>
                    dgt (candPt env fs l0) (candPt env fs (pj_user_index e)))) \<or>
                (\<exists>l. lc' = Some l \<and> lastHighest env fs cs l \<and>
                     \<not> dgt (candPt env fs l0) (candPt env fs l))" by auto
      have eq: "pickLepton env fs (c # cs) (lc, cons) = Inr (lc', cons')"
        using True i r(1) l0 by (simp add: isChargedLepton_def Let_def candPt_def)
      have sub: "set cons' \<subseteq> set cons \<union> pj_user_index ` set (c # cs)" using r(2) by auto
      from ch show ?thesis
      proof
        assume "lc' = Some l0 \<and>
                 (\<forall>e \<in> set cs. isChargedLepton (fs ! pj_user_index e) \<longrightarrow>
                    dgt (candPt env fs l0) (candPt env fs (pj_user_index e)))"
        then show ?thesis using eq sub l0 by auto
      next
        assume "\<exists>l. lc' = Some l \<and> lastHighest env fs cs l \<and>
                     \<not> dgt (candPt env fs l0) (candPt env fs l)"
        then obtain l where l: "lc' = Some l" "lastHighest env fs cs l"
          "\<not> dgt (candPt env fs l0) (candPt env fs l)" by blast
        have "\<not> dgt (candPt env fs ?i) (candPt env fs l)"
          using dgt_chain1[OF nnl[OF l(2)] nn0 l0(2) l(3)] .
        then have "lastHighest env fs (c # cs) l" using l(2) by simp
        then show ?thesis using eq sub l0 l by auto
      qed
    next
      case repl: False
      have st: "\<forall>l0. Some ?i = Some l0 \<longrightarrow> \<not> isnan (candPt env fs l0)" using nn by simp
      from Cons.IH[OF rest st, of "cons @ [?i]"] obtain lc' cons' where
        r: "pickLepton env fs cs (Some ?i, cons @ [?i]) = Inr (lc', cons')"
           "set cons' \<subseteq> set (cons @ [?i]) \<union> pj_user_index ` set cs"
        and ch: "(lc' = Some ?i \<and>
                 (\<forall>e \<in> set cs. isChargedLepton (fs ! pj_user_index e) \<longrightarrow>
                    dgt (candPt env fs ?i) (candPt env fs (pj_user_index e)))) \<or>
                (\<exists>l. lc' = Some l \<and> lastHighest env fs cs l \<and>
                     \<not> dgt (candPt env fs ?i) (candPt env fs l))" by auto
      have eq: "pickLepton env fs (c # cs) (lc, cons) = Inr (lc', cons')"
        using True i r(1) repl by (cases lc) (auto simp: isChargedLepton_def Let_def candPt_def)
      have sub: "set cons' \<subseteq> set cons \<union> pj_user_index ` set (c # cs)" using r(2) by auto
      have lh: "\<exists>l. lc' = Some l \<and> lastHighest env fs (c # cs) l \<and>
                  \<not> dgt (candPt env fs ?i) (candPt env fs l)"
      proof -
        from ch show ?thesis
        proof
          assume a: "lc' = Some ?i \<and>
                 (\<forall>e \<in> set cs. isChargedLepton (fs ! pj_user_index e) \<longrightarrow>
                    dgt (candPt env fs ?i) (candPt env fs (pj_user_index e)))"
          have "\<not> dgt (candPt env fs ?i) (candPt env fs ?i)" by (simp add: dgt_def dlt_irrefl)
          moreover have "lastHighest env fs (c # cs) ?i" using a True by (simp add: list_all_iff)
          ultimately show ?thesis using a by blast
        next
          assume "\<exists>l. lc' = Some l \<and> lastHighest env fs cs l \<and>
                     \<not> dgt (candPt env fs ?i) (candPt env fs l)"
          then obtain l where l: "lc' = Some l" "lastHighest env fs cs l"
            "\<not> dgt (candPt env fs ?i) (candPt env fs l)" by blast
          then have "lastHighest env fs (c # cs) l" by simp
          with l show ?thesis by blast
        qed
      qed
      then obtain l where l: "lc' = Some l" "lastHighest env fs (c # cs) l"
        "\<not> dgt (candPt env fs ?i) (candPt env fs l)" by blast
      show ?thesis
      proof (cases lc)
        case None
        then show ?thesis using eq sub l by auto
      next
        case (Some l0)
        have nn0: "\<not> isnan (candPt env fs l0)" using Cons.prems(2) Some by simp
        have nl: "\<not> isnan (candPt env fs l)"
          using lastHighest_mem[OF l(2)] Cons.prems(1) by auto
        have "\<not> dgt (candPt env fs l0) (candPt env fs ?i)" using repl Some by simp
        then have "\<not> dgt (candPt env fs l0) (candPt env fs l)"
          using dgt_chain2[OF nn0 nl nn _ l(3)] by simp
        then show ?thesis using eq sub l Some by auto
      qed
    qed
  qed
qed


lemma pickLepton_start:
  assumes "\<forall>c \<in> set cs. pj_user_index c < length fs \<and> \<not> isnan (candPt env fs (pj_user_index c))"
  shows "\<exists>lc' cons'. pickLepton env fs cs (None, []) = Inr (lc', cons') \<and>
           set cons' \<subseteq> pj_user_index ` set cs \<and>
           ((lc' = None \<and> \<not> list_ex (\<lambda>c. isChargedLepton (fs ! pj_user_index c)) cs) \<or>
            (\<exists>l. lc' = Some l \<and> lastHighest env fs cs l))"
  using pickLepton_char[OF assms, of None "[]"] by auto

lemma lastHighest_list_ex:
  "lastHighest env fs cs l \<Longrightarrow> list_ex (\<lambda>c. isChargedLepton (fs ! pj_user_index c)) cs"
  using lastHighest_mem[of env fs cs l] by (auto simp: list_ex_iff)

lemma dressLeptons_char:
  assumes "\<forall>J \<in> set fjs. \<forall>c \<in> set (fj_constituents J).
             pj_user_index c < length fs \<and> \<not> isnan (candPt env fs (pj_user_index c))"
  shows "\<exists>new. dressLeptons env cfg fs fjs (ls0, d0) =
                  Inr (ls0 @ new, d0 \<union> \<Union> (consumed ` set (filter (acceptedLepton cfg fs) fjs))) \<and>
               list_all2 (\<lambda>J lep. dressedFrom env fs J lep \<and> j_p4 lep = fj_p4 J \<and>
                                   set (j_constituents lep) \<subseteq> consumed J)
                 (filter (acceptedLepton cfg fs) fjs) new"
  using assms
proof (induction fjs arbitrary: ls0 d0)
  case Nil
  then show ?case by simp
next
  case (Cons J fjs)
  have rest: "\<forall>J \<in> set fjs. \<forall>c \<in> set (fj_constituents J).
             pj_user_index c < length fs \<and> \<not> isnan (candPt env fs (pj_user_index c))"
    using Cons.prems by simp
  have here: "\<forall>c \<in> set (fj_constituents J).
             pj_user_index c < length fs \<and> \<not> isnan (candPt env fs (pj_user_index c))"
    using Cons.prems by simp
  show ?case
  proof (cases "dgt (dabs (fj_eta J)) (leptonMaxEta cfg)")
    case True
    then have "\<not> acceptedLepton cfg fs J" by (simp add: acceptedLepton_def)
    then show ?thesis using Cons.IH[OF rest, of ls0 d0] True by simp
  next
    case False
    from pickLepton_start[OF here] obtain lc' cons' where
      pk: "pickLepton env fs (fj_constituents J) (None, []) = Inr (lc', cons')"
          "set cons' \<subseteq> pj_user_index ` set (fj_constituents J)"
      and ch: "(lc' = None \<and> \<not> list_ex (\<lambda>c. isChargedLepton (fs ! pj_user_index c)) (fj_constituents J)) \<or>
            (\<exists>l. lc' = Some l \<and> lastHighest env fs (fj_constituents J) l)" by blast
    from ch show ?thesis
    proof
      assume a: "lc' = None \<and> \<not> list_ex (\<lambda>c. isChargedLepton (fs ! pj_user_index c)) (fj_constituents J)"
      then have "\<not> acceptedLepton cfg fs J" by (simp add: acceptedLepton_def)
      then show ?thesis using Cons.IH[OF rest, of ls0 d0] False pk a by simp
    next
      assume "\<exists>l. lc' = Some l \<and> lastHighest env fs (fj_constituents J) l"
      then obtain l where l: "lc' = Some l" "lastHighest env fs (fj_constituents J) l" by blast
      have acc: "acceptedLepton cfg fs J"
        using False lastHighest_list_ex[OF l(2)] by (simp add: acceptedLepton_def)
      define lepJet where "lepJet = \<lparr>j_p4 = fj_p4 J, j_vertex = genVertex,
                          j_constituents = cons',
                          j_pdgId = c_pdgId (fs ! l), j_charge = c_charge (fs ! l),
                          j_area = fjArea J\<rparr>"
      from Cons.IH[OF rest, of "ls0 @ [lepJet]" "d0 \<union> consumed J"] obtain new where
        ih: "dressLeptons env cfg fs fjs (ls0 @ [lepJet], d0 \<union> consumed J) =
               Inr ((ls0 @ [lepJet]) @ new,
                    (d0 \<union> consumed J) \<union> \<Union> (consumed ` set (filter (acceptedLepton cfg fs) fjs)))"
            "list_all2 (\<lambda>J lep. dressedFrom env fs J lep \<and> j_p4 lep = fj_p4 J \<and>
                                   set (j_constituents lep) \<subseteq> consumed J)
                 (filter (acceptedLepton cfg fs) fjs) new" by blast
      have eq: "dressLeptons env cfg fs (J # fjs) (ls0, d0) =
                  dressLeptons env cfg fs fjs (ls0 @ [lepJet], d0 \<union> consumed J)"
        using False pk l(1) by (simp add: lepJet_def consumed_def Let_def)
      have "l \<in> pj_user_index ` set (fj_constituents J)" using lastHighest_mem[OF l(2)] by simp
      then have df: "dressedFrom env fs J lepJet"
        using l(2) by (auto simp: dressedFrom_def list_ex_iff lepJet_def)
      have "set (j_constituents lepJet) \<subseteq> consumed J"
        using pk(2) by (simp add: lepJet_def consumed_def)
      then show ?thesis
        using eq ih acc df
        by (intro exI[of _ "lepJet # new"]) (simp add: lepJet_def Un_assoc)
    qed
  qed
qed


lemma clusterOf_mem:
  assumes "clusterOf inputs fjJets" "J \<in> set fjJets" "c \<in> set (fj_constituents J)"
  shows "c \<in> set inputs"
proof -
  have "c \<in> set (concat (map fj_constituents fjJets))" using assms(2,3) by auto
  then have "c \<in># mset (concat (map fj_constituents fjJets))" by simp
  then have "c \<in># mset inputs" using assms(1) unfolding clusterOf_def
    by (meson mset_subset_eqD)
  then show ?thesis by simp
qed

lemma clusterOf_distinct:
  assumes "clusterOf inputs fjJets" "distinct (map f inputs)"
  shows "distinct (map f (concat (map fj_constituents fjJets)))"
proof -
  let ?cs = "concat (map fj_constituents fjJets)"
  have "image_mset f (mset ?cs) \<subseteq># image_mset f (mset inputs)"
    using assms(1) unfolding clusterOf_def by (rule image_mset_subseteq_mono)
  then have sub: "mset (map f ?cs) \<subseteq># mset (map f inputs)" by simp
  have "count (mset (map f ?cs)) a \<le> 1" for a
  proof -
    have "count (mset (map f ?cs)) a \<le> count (mset (map f inputs)) a"
      using sub by (rule mset_subset_eq_count)
    also have "\<dots> \<le> 1" using assms(2) by (simp add: distinct_count_atmost_1)
    finally show ?thesis .
  qed
  then show ?thesis
    unfolding distinct_count_atmost_1
    by (metis count_mset_0_iff le_antisym less_one linorder_not_le set_mset_mset)
qed

lemma collectLeptonIdxs_mem:
  "i \<in> set (collectLeptonIdxs fs) \<Longrightarrow> i < length fs \<and> c_status (fs ! i) = 1"
  by (auto simp: collectLeptonIdxs_def isPrompt_def split: if_splits)

lemma distinct_collectLeptonIdxs: "distinct (collectLeptonIdxs fs)"
  by (simp add: collectLeptonIdxs_def)

lemma collectBHadrons_mem:
  "i \<in> set (collectBHadrons gen) \<Longrightarrow> i < length gen \<and> c_status (gen ! i) \<noteq> 1"
  by (auto simp: collectBHadrons_def)

lemma ev_fjLepInputs_mem:
  "c \<in> set (ev_fjLepInputs env fs) \<Longrightarrow>
     pj_user_index c \<in> set (collectLeptonIdxs fs) \<and> \<not> badPt env (fs ! pj_user_index c)"
  by (auto simp: ev_fjLepInputs_def fjLepInputs_def)

lemma distinct_ev_fjLepInputs: "distinct (map pj_user_index (ev_fjLepInputs env fs))"
  by (simp add: ev_fjLepInputs_def fjLepInputs_def comp_def distinct_collectLeptonIdxs)

lemma not_badPt_not_nan: "\<not> badPt env (fs ! i) \<Longrightarrow> \<not> isnan (candPt env fs i)"
  by (simp add: badPt_def candPt_def)

lemma lep_constituents_ok:
  assumes "clusterOf (ev_fjLepInputs env fs) fjJets"
  shows "\<forall>J \<in> set fjJets. \<forall>c \<in> set (fj_constituents J).
             pj_user_index c < length fs \<and> \<not> isnan (candPt env fs (pj_user_index c))"
proof (intro ballI)
  fix J c assume "J \<in> set fjJets" "c \<in> set (fj_constituents J)"
  with assms have "c \<in> set (ev_fjLepInputs env fs)" by (rule clusterOf_mem)
  then show "pj_user_index c < length fs \<and> \<not> isnan (candPt env fs (pj_user_index c))"
    using ev_fjLepInputs_mem collectLeptonIdxs_mem not_badPt_not_nan by blast
qed

lemma ev_dressed_char:
  assumes "clusterOf (ev_fjLepInputs env fs) (lepCluster env (leptonMinPt cfg) (ev_fjLepInputs env fs))"
  shows "\<exists>leptons. ev_dressed env cfg fs =
           Inr (leptons, \<Union> (consumed ` set (filter (acceptedLepton cfg fs)
                                (lepCluster env (leptonMinPt cfg) (ev_fjLepInputs env fs))))) \<and>
           list_all2 (\<lambda>J lep. dressedFrom env fs J lep \<and> j_p4 lep = fj_p4 J \<and>
                               set (j_constituents lep) \<subseteq> consumed J)
             (filter (acceptedLepton cfg fs) (lepCluster env (leptonMinPt cfg) (ev_fjLepInputs env fs)))
             leptons"
  using dressLeptons_char[OF lep_constituents_ok[OF assms], of cfg "[]" "{}"]
  by (simp add: ev_dressed_def)

lemma buildJets_char:
  assumes "buildJets cfg fs bH fjs (jets0, bj0, lj0) = Inr (jets, bj, lj)"
  shows "(list_all (\<lambda>i. i < length jets0) bj0 \<longrightarrow> list_all (\<lambda>i. i < length jets) bj) \<and>
         (list_all (\<lambda>i. i < length jets0) lj0 \<longrightarrow> list_all (\<lambda>i. i < length jets) lj) \<and>
         (\<forall>jet \<in> set jets. jet \<in> set jets0 \<or>
            (\<exists>J \<in> set fjs. j_constituents jet = map pj_user_index (fj_constituents J)))"
  using assms
proof (induction fjs arbitrary: jets0 bj0 lj0)
  case Nil
  then show ?case by simp
next
  case (Cons J fjs)
  show ?case
  proof (cases "dgt (dabs (fj_eta J)) (jetMaxEta cfg)")
    case True
    with Cons.prems have "buildJets cfg fs bH fjs (jets0, bj0, lj0) = Inr (jets, bj, lj)" by simp
    from Cons.IH[OF this] show ?thesis by auto
  next
    case False
    define genJet where "genJet = \<lparr>j_p4 = fj_p4 J, j_vertex = genVertex,
                      j_constituents = map pj_user_index (fj_constituents J),
                      j_pdgId = (if list_ex (\<lambda>index. index \<in> set bH) (map pj_user_index (fj_constituents J)) then 5 else 0),
                      j_charge = 0, j_area = fjArea J\<rparr>"
    have c: "j_constituents genJet = map pj_user_index (fj_constituents J)" by (simp add: genJet_def)
    have inr: "list_all (\<lambda>index. index < length fs) (map pj_user_index (fj_constituents J))"
      using False Cons.prems by (auto simp: Let_def split: if_splits)
    show ?thesis
    proof (cases "list_ex (\<lambda>index. index \<in> set bH) (map pj_user_index (fj_constituents J))")
      case True
      with False inr Cons.prems have
        "buildJets cfg fs bH fjs (jets0 @ [genJet], bj0 @ [length jets0], lj0) = Inr (jets, bj, lj)"
        by (simp add: Let_def genJet_def)
      from Cons.IH[OF this] c show ?thesis by (auto simp: list_all_iff less_Suc_eq)
    next
      case nb: False
      with False inr Cons.prems have
        "buildJets cfg fs bH fjs (jets0 @ [genJet], bj0, lj0 @ [length jets0]) = Inr (jets, bj, lj)"
        by (simp add: Let_def genJet_def)
      from Cons.IH[OF this] c show ?thesis by (auto simp: list_all_iff less_Suc_eq)
    qed
  qed
qed

lemma buildJets_total:
  assumes "\<forall>J \<in> set fjs. \<forall>c \<in> set (fj_constituents J). pj_user_index c < length fs"
  shows "\<exists>r. buildJets cfg fs bH fjs st = Inr r"
  using assms
proof (induction fjs arbitrary: st)
  case Nil
  show ?case by (cases st rule: prod_cases3) simp
next
  case (Cons J fjs)
  obtain jets bj lj where st: "st = (jets, bj, lj)" by (metis prod_cases3)
  have here: "list_all (\<lambda>index. index < length fs) (map pj_user_index (fj_constituents J))"
    using Cons.prems by (simp add: list_all_iff)
  have rest: "\<forall>J \<in> set fjs. \<forall>c \<in> set (fj_constituents J). pj_user_index c < length fs"
    using Cons.prems by simp
  show ?case unfolding st using here Cons.IH[OF rest] by (simp add: Let_def)
qed

subsection \<open>Size of the pseudo-top collection\<close>

lemma length_addDaughter: "length (addDaughter i d ps) = length ps"
  by (simp add: addDaughter_def)

lemma length_addMother: "length (addMother i m ps) = length ps"
  by (simp add: addMother_def)

lemma length_linkDecayTree: "length (linkDecayTree ps) = length ps"
  by (simp add: linkDecayTree_def length_addDaughter length_addMother)

lemma length_dileptonTree:
  "length (dileptonTree q1 q2 lepton1 lepton2 nu1 nu2 bJet1 bJet2) = 10"
  by (simp add: dileptonTree_def Let_def)

lemma length_semileptonTree:
  "length (semileptonTree lepton nu1 wJet1 wJet2 bJet1 bJet2) = 10"
  by (simp add: semileptonTree_def Let_def)

lemma dilepton_length:
  "dilepton env cfg leptons neutrinos jets bjetIdxs = Inr ps \<Longrightarrow>
     length ps = 0 \<or> length ps = 10"
  unfolding dilepton_def Let_def
  by (auto split: prod.splits sum.splits if_splits simp: length_dileptonTree)

lemma semilepton_length:
  "semilepton env cfg leptons neutrinos jets bjetIdxs ljetIdxs = Inr ps \<Longrightarrow>
     length ps = 0 \<or> length ps = 10"
  unfolding semilepton_def Let_def
  by (auto split: prod.splits sum.splits if_splits simp: length_semileptonTree)

lemma combine_length:
  "combine env cfg leptons neutrinos jets bjetIdxs ljetIdxs = Inr ps \<Longrightarrow> length ps = 0 \<or> length ps = 10"
  unfolding combine_def
  by (auto split: if_splits dest: dilepton_length semilepton_length)

lemma produce_stages:
  assumes "produce env cfg fs gen = Inr out"
  obtains leptons lepDauIdxs jets bjetIdxs ljetIdxs pseudoTop where
    "ev_dressed env cfg fs = Inr (leptons, lepDauIdxs)"
    "ev_jets env cfg fs gen lepDauIdxs = Inr (jets, bjetIdxs, ljetIdxs)"
    "combine env cfg leptons (ev_neutrinos env fs) jets bjetIdxs ljetIdxs = Inr pseudoTop"
    "out = \<lparr>o_neutrinos = ev_neutrinos env fs, o_leptons = leptons, o_jets = jets,
             o_pseudoTop = linkDecayTree pseudoTop\<rparr>"
  using assms unfolding produce_def Let_def
  by (auto split: sum.splits prod.splits)

text \<open>
  Claim C1. Whenever \<^verbatim>\<open>produce\<close> returns, the pseudo-top collection it emits has
  size 0 or size 10.
\<close>

theorem produce_pseudoTop_size:
  assumes "produce env cfg fs gen = Inr out"
  shows "length (o_pseudoTop out) = 0 \<or> length (o_pseudoTop out) = 10"
proof -
  from assms obtain leptons lepDauIdxs jets bjetIdxs ljetIdxs pseudoTop where
    c: "combine env cfg leptons (ev_neutrinos env fs) jets bjetIdxs ljetIdxs = Inr pseudoTop"
    and out: "out = \<lparr>o_neutrinos = ev_neutrinos env fs, o_leptons = leptons, o_jets = jets,
             o_pseudoTop = linkDecayTree pseudoTop\<rparr>"
    by (rule produce_stages)
  from c have "length pseudoTop = 0 \<or> length pseudoTop = 10" by (rule combine_length)
  then show ?thesis by (simp add: out length_linkDecayTree)
qed

lemma dge_trans: "dge a b \<Longrightarrow> dge b c \<Longrightarrow> dge a c"
  by (cases a; cases b; cases c) (auto simp: dge_def)

lemma dgt_imp_dge: "dgt a b \<Longrightarrow> dge a b"
  by (cases a; cases b) (auto simp: dgt_def dge_def)

lemma not_dgt_imp_dge: "\<not> isnan a \<Longrightarrow> \<not> isnan b \<Longrightarrow> \<not> dgt a b \<Longrightarrow> dge b a"
  by (cases a; cases b) (auto simp: dgt_def dge_def)

lemma set_insertByPt: "set (insertByPt env x ys) = insert x (set ys)"
  by (induction ys) auto

lemma mset_insertByPt: "mset (insertByPt env x ys) = add_mset x (mset ys)"
  by (induction ys) auto

lemma sorted_insertByPt:
  assumes "sorted_wrt (\<lambda>a b. dge (ptOf env a) (ptOf env b)) ys"
    and "\<not> isnan (ptOf env x)" "\<forall>y \<in> set ys. \<not> isnan (ptOf env y)"
  shows "sorted_wrt (\<lambda>a b. dge (ptOf env a) (ptOf env b)) (insertByPt env x ys)"
  using assms
proof (induction ys)
  case Nil
  then show ?case by simp
next
  case (Cons y ys)
  show ?case
  proof (cases "greaterByPt env x y")
    case True
    then have xy: "dge (ptOf env x) (ptOf env y)"
      by (simp add: greaterByPt_def ptOf_def dgt_imp_dge)
    then have "\<forall>z \<in> set ys. dge (ptOf env x) (ptOf env z)"
      using Cons.prems(1) by (auto intro: dge_trans)
    with True xy Cons.prems(1) show ?thesis by simp
  next
    case False
    then have "dge (ptOf env y) (ptOf env x)"
      using Cons.prems(2,3) by (simp add: greaterByPt_def ptOf_def not_dgt_imp_dge)
    moreover have "sorted_wrt (\<lambda>a b. dge (ptOf env a) (ptOf env b)) (insertByPt env x ys)"
      using Cons by simp
    ultimately show ?thesis using False Cons.prems(1) by (auto simp: set_insertByPt)
  qed
qed

lemma mset_fold_insertByPt:
  "mset (fold (insertByPt env) xs acc) = mset xs + mset acc"
  by (induction xs arbitrary: acc) (simp_all add: mset_insertByPt)

lemma mset_sortByPt: "mset (sortByPt env xs) = mset xs"
  by (simp add: sortByPt_def mset_fold_insertByPt)

lemma set_sortByPt: "set (sortByPt env xs) = set xs"
  using mset_sortByPt[of env xs] by (metis set_mset_mset)

lemma sorted_fold_insertByPt:
  assumes "sorted_wrt (\<lambda>a b. dge (ptOf env a) (ptOf env b)) acc"
    and "\<forall>x \<in> set xs. \<not> isnan (ptOf env x)" "\<forall>y \<in> set acc. \<not> isnan (ptOf env y)"
  shows "sorted_wrt (\<lambda>a b. dge (ptOf env a) (ptOf env b)) (fold (insertByPt env) xs acc)"
  using assms
proof (induction xs arbitrary: acc)
  case Nil
  then show ?case by simp
next
  case (Cons x xs)
  have "sorted_wrt (\<lambda>a b. dge (ptOf env a) (ptOf env b)) (insertByPt env x acc)"
    using Cons.prems by (intro sorted_insertByPt) simp_all
  moreover have "\<forall>y \<in> set (insertByPt env x acc). \<not> isnan (ptOf env y)"
    using Cons.prems by (simp add: set_insertByPt)
  ultimately show ?case using Cons.IH[of "insertByPt env x acc"] Cons.prems(2) by simp
qed

lemma sorted_sortByPt:
  assumes "\<forall>x \<in> set xs. \<not> isnan (ptOf env x)"
  shows "sorted_wrt (\<lambda>a b. dge (ptOf env a) (ptOf env b)) (sortByPt env xs)"
  unfolding sortByPt_def using assms by (intro sorted_fold_insertByPt) simp_all

lemma produce_neutrinos:
  "produce env cfg fs gen = Inr out \<Longrightarrow> o_neutrinos out = ev_neutrinos env fs"
  by (erule produce_stages) simp

text \<open>
  Claim C8, as amended. When no collected neutrino has a pt that is NaN, the neutrino
  collection \<^verbatim>\<open>produce\<close> emits is the list the sort returned, a permutation of the
  collected neutrinos in which every earlier entry has a pt greater than or equal to
  that of every later entry. It is the list the combination read, so the order is the
  same before and after the rest of \<^verbatim>\<open>produce\<close>. Entries of equal pt may stand
  next to each other: the order is not strict. The neutrinos go into the collection
  without a test of their pt; a neutrino whose pt is NaN is neither above nor below
  any other, and with it the collection is not ordered.
\<close>

theorem neutrinos_sorted:
  assumes "produce env cfg fs gen = Inr out"
    and "\<forall>nu \<in> set (collectNeutrinos fs). \<not> isnan (ptOf env nu)"
  shows "o_neutrinos out = ev_neutrinos env fs \<and>
         mset (ev_neutrinos env fs) = mset (collectNeutrinos fs) \<and>
         sorted_wrt (\<lambda>a b. dge (ptOf env a) (ptOf env b)) (o_neutrinos out)"
  using assms produce_neutrinos[OF assms(1)] sorted_sortByPt[OF assms(2)]
  by (simp add: ev_neutrinos_def mset_sortByPt)

lemma lepInputs_exclude:
  "i \<in> pj_user_index ` set (ev_fjLepInputs env fs) \<Longrightarrow> \<not> badPt env (fs ! i)"
  by (auto simp: ev_fjLepInputs_def fjLepInputs_def)

lemma stableInputs_mem:
  "i \<in> pj_user_index ` set (fjStableInputs env fs d) \<Longrightarrow>
     i < length fs \<and> c_status (fs ! i) = 1 \<and> \<not> badPt env (fs ! i) \<and> i \<notin> d"
  by (auto simp: fjStableInputs_def)

lemma ghostInputs_mem:
  "i \<in> pj_user_index ` set (fjGhostInputs env gen bH) \<Longrightarrow> i \<in> set bH \<and> \<not> badPt env (gen ! i)"
  by (auto simp: fjGhostInputs_def)


text \<open>
  Claim C9, as amended. A candidate whose pt is NaN or is less than or equal to 0 is
  in none of the clustering inputs: not among the lepton inputs, not among the
  stable-particle inputs of the jet clustering, not among the B hadron ghosts. The
  jet inputs are exactly these two lists, and every index the two filters read is
  inside its collection, so the filtering has no failing access. A pt of plus
  infinity passes both tests of the source and is not filtered.
\<close>

theorem bad_pt_filtered:
  "(\<forall>i. i < length fs \<longrightarrow>
        isnan (kin_pt env (c_p4 (fs ! i))) \<or> dle (kin_pt env (c_p4 (fs ! i))) (Fin 0) \<longrightarrow>
        i \<notin> pj_user_index ` set (ev_fjLepInputs env fs) \<and>
        i \<notin> pj_user_index ` set (fjStableInputs env fs lepDauIdxs)) \<and>
   (\<forall>i. i < length gen \<longrightarrow>
        isnan (kin_pt env (c_p4 (gen ! i))) \<or> dle (kin_pt env (c_p4 (gen ! i))) (Fin 0) \<longrightarrow>
        i \<notin> pj_user_index ` set (fjGhostInputs env gen (collectBHadrons gen))) \<and>
   ev_fjJetInputs env fs gen lepDauIdxs =
     fjStableInputs env fs lepDauIdxs @ fjGhostInputs env gen (collectBHadrons gen) \<and>
   (\<forall>i \<in> set (collectLeptonIdxs fs). i < length fs) \<and>
   (\<forall>i \<in> set (collectBHadrons gen). i < length gen)"
proof (intro conjI allI impI ballI)
  fix i assume "isnan (kin_pt env (c_p4 (fs ! i))) \<or> dle (kin_pt env (c_p4 (fs ! i))) (Fin 0)"
  then have b: "badPt env (fs ! i)" by (simp add: badPt_def)
  show "i \<notin> pj_user_index ` set (ev_fjLepInputs env fs)" using b lepInputs_exclude by blast
  show "i \<notin> pj_user_index ` set (fjStableInputs env fs lepDauIdxs)"
    using b stableInputs_mem by blast
next
  fix i assume "isnan (kin_pt env (c_p4 (gen ! i))) \<or> dle (kin_pt env (c_p4 (gen ! i))) (Fin 0)"
  then have "badPt env (gen ! i)" by (simp add: badPt_def)
  then show "i \<notin> pj_user_index ` set (fjGhostInputs env gen (collectBHadrons gen))"
    using ghostInputs_mem by blast
next
  show "ev_fjJetInputs env fs gen lepDauIdxs =
     fjStableInputs env fs lepDauIdxs @ fjGhostInputs env gen (collectBHadrons gen)"
    by (simp add: ev_fjJetInputs_def fjJetInputs_def)
next
  fix i assume "i \<in> set (collectLeptonIdxs fs)"
  then show "i < length fs" by (simp add: collectLeptonIdxs_mem)
next
  fix i assume "i \<in> set (collectBHadrons gen)"
  then show "i < length gen" by (simp add: collectBHadrons_mem)
qed

lemma ev_jets_valid:
  assumes "ev_jets env cfg fs gen d = Inr (jets, bj, lj)"
  shows "list_all (\<lambda>i. i < length jets) bj" "list_all (\<lambda>i. i < length jets) lj"
    "\<forall>jet \<in> set jets. \<exists>J \<in> set (jetCluster env (jetMinPt cfg) (ev_fjJetInputs env fs gen d)).
        j_constituents jet = map pj_user_index (fj_constituents J)"
  using buildJets_char[OF assms[unfolded ev_jets_def]] by auto

lemma jetInputs_in_range:
  assumes "ghostsInRange fs gen" "c \<in> set (ev_fjJetInputs env fs gen d)"
  shows "pj_user_index c < length fs"
proof -
  from assms(2) consider "pj_user_index c \<in> pj_user_index ` set (fjStableInputs env fs d)"
    | "pj_user_index c \<in> pj_user_index ` set (fjGhostInputs env gen (collectBHadrons gen))"
    by (auto simp: ev_fjJetInputs_def fjJetInputs_def)
  then show ?thesis
  proof cases
    case 1
    then show ?thesis using stableInputs_mem by blast
  next
    case 2
    then have "pj_user_index c \<in> set (collectBHadrons gen)" using ghostInputs_mem by blast
    then show ?thesis using assms(1) by (simp add: ghostsInRange_def list_all_iff)
  qed
qed

lemma ev_jets_total:
  assumes "clusterOf (ev_fjJetInputs env fs gen d)
             (jetCluster env (jetMinPt cfg) (ev_fjJetInputs env fs gen d))"
    and "ghostsInRange fs gen"
  shows "\<exists>jets bj lj. ev_jets env cfg fs gen d = Inr (jets, bj, lj)"
proof -
  have "\<forall>J \<in> set (jetCluster env (jetMinPt cfg) (ev_fjJetInputs env fs gen d)).
          \<forall>c \<in> set (fj_constituents J). pj_user_index c < length fs"
    using clusterOf_mem[OF assms(1)] jetInputs_in_range[OF assms(2)] by blast
  from buildJets_total[OF this, of cfg "collectBHadrons gen" "([], [], [])"]
  show ?thesis unfolding ev_jets_def by (metis prod_cases3)
qed

lemma produce_total:
  assumes "ev_dressed env cfg fs = Inr (leptons, d)"
    and "ev_jets env cfg fs gen d = Inr (jets, bj, lj)"
  shows "\<exists>ps. combine env cfg leptons (ev_neutrinos env fs) jets bj lj = Inr ps \<and>
              produce env cfg fs gen =
                Inr \<lparr>o_neutrinos = ev_neutrinos env fs, o_leptons = leptons, o_jets = jets,
                     o_pseudoTop = linkDecayTree ps\<rparr>"
proof -
  from combine_total[OF ev_jets_valid(1,2)[OF assms(2)]] obtain ps where
    "combine env cfg leptons (ev_neutrinos env fs) jets bj lj = Inr ps" by blast
  then show ?thesis using assms by (simp add: produce_def Let_def)
qed

lemma linkDecayTree_Nil: "linkDecayTree [] = []"
  by (simp add: linkDecayTree_def)

lemma list_all2_right_mem:
  "list_all2 P xs ys \<Longrightarrow> y \<in> set ys \<Longrightarrow> \<exists>x \<in> set xs. P x y"
  by (induction rule: list_all2_induct) auto

lemma distinct_concat_filter:
  "distinct (concat (map f xs)) \<Longrightarrow> distinct (concat (map f (filter P xs)))"
  by (induction xs) auto

lemma aligned_ghostsInRange: "aligned fs gen \<Longrightarrow> ghostsInRange fs gen"
  by (simp add: aligned_def ghostsInRange_def list_all_iff)

lemma aligned_same: "aligned ps ps"
  using collectBHadrons_mem by (auto simp: aligned_def list_all_iff)

lemma aligned_status:
  assumes "length gen \<le> length fs" "\<forall>i < length gen. c_status (fs ! i) = c_status (gen ! i)"
  shows "aligned fs gen"
  unfolding aligned_def list_all_iff
proof
  fix i assume "i \<in> set (collectBHadrons gen)"
  then have "i < length gen" "c_status (gen ! i) \<noteq> 1" using collectBHadrons_mem by auto
  then show "i < length fs \<and> c_status (fs ! i) \<noteq> 1" using assms by auto
qed

text \<open>
  Claim C7. Let the two collections be index-aligned, as the producer assumes: every
  index of an unstable B hadron of the generated-particle collection is the index of
  a particle of the final-state collection that is not stable. Let both clusterings
  return constituents of their inputs, each input at most once. Then \<^verbatim>\<open>produce\<close>
  returns; \<^verbatim>\<open>lepDauIdxs\<close> is the union of the constituent indices of the accepted
  lepton clusters, and these clusters share no index; no index of \<^verbatim>\<open>lepDauIdxs\<close> is
  a user index of a jet clustering input; and no dressed lepton shares a constituent
  with a jet.
\<close>

theorem lepton_jet_disjoint:
  assumes lepC: "clusterOf (ev_fjLepInputs env fs)
                   (lepCluster env (leptonMinPt cfg) (ev_fjLepInputs env fs))"
    and jetC: "\<And>d. clusterOf (ev_fjJetInputs env fs gen d)
                   (jetCluster env (jetMinPt cfg) (ev_fjJetInputs env fs gen d))"
    and al: "aligned fs gen"
  shows "\<exists>leptons lepDauIdxs out.
           ev_dressed env cfg fs = Inr (leptons, lepDauIdxs) \<and>
           produce env cfg fs gen = Inr out \<and> o_leptons out = leptons \<and>
           lepDauIdxs = \<Union> (consumed ` set (filter (acceptedLepton cfg fs)
                           (lepCluster env (leptonMinPt cfg) (ev_fjLepInputs env fs)))) \<and>
           distinct (concat (map (map pj_user_index \<circ> fj_constituents)
                      (filter (acceptedLepton cfg fs)
                         (lepCluster env (leptonMinPt cfg) (ev_fjLepInputs env fs))))) \<and>
           (\<forall>i \<in> lepDauIdxs. i \<notin> pj_user_index ` set (ev_fjJetInputs env fs gen lepDauIdxs)) \<and>
           (\<forall>lep \<in> set (o_leptons out). \<forall>jet \<in> set (o_jets out).
              set (j_constituents lep) \<inter> set (j_constituents jet) = {})"
proof -
  let ?clusters = "lepCluster env (leptonMinPt cfg) (ev_fjLepInputs env fs)"
  let ?acc = "filter (acceptedLepton cfg fs) ?clusters"
  let ?d = "\<Union> (consumed ` set ?acc)"
  from ev_dressed_char[OF lepC] obtain leptons where
    dr: "ev_dressed env cfg fs = Inr (leptons, ?d)"
    and l2: "list_all2 (\<lambda>J lep. dressedFrom env fs J lep \<and> j_p4 lep = fj_p4 J \<and>
                               set (j_constituents lep) \<subseteq> consumed J) ?acc leptons" by blast
  obtain jets bj lj where ej: "ev_jets env cfg fs gen ?d = Inr (jets, bj, lj)"
    using ev_jets_total[OF jetC[of ?d] aligned_ghostsInRange[OF al]] by blast
  from produce_total[OF dr ej] obtain ps where
    pr: "produce env cfg fs gen =
                Inr \<lparr>o_neutrinos = ev_neutrinos env fs, o_leptons = leptons, o_jets = jets,
                     o_pseudoTop = linkDecayTree ps\<rparr>" by blast
  have dist: "distinct (concat (map (map pj_user_index \<circ> fj_constituents) ?acc))"
  proof -
    have "distinct (map pj_user_index (concat (map fj_constituents ?clusters)))"
      using lepC distinct_ev_fjLepInputs by (rule clusterOf_distinct)
    then have "distinct (concat (map (map pj_user_index \<circ> fj_constituents) ?clusters))"
      by (simp add: map_concat comp_def)
    then show ?thesis by (rule distinct_concat_filter)
  qed
  have stable: "c_status (fs ! i) = 1 \<and> i < length fs" if "i \<in> ?d" for i
  proof -
    from that obtain J c where "J \<in> set ?clusters" "c \<in> set (fj_constituents J)"
      "pj_user_index c = i" by (auto simp: consumed_def)
    then have "c \<in> set (ev_fjLepInputs env fs)" using clusterOf_mem[OF lepC] by blast
    then show ?thesis
      using ev_fjLepInputs_mem collectLeptonIdxs_mem \<open>pj_user_index c = i\<close> by blast
  qed
  have excl: "i \<notin> pj_user_index ` set (ev_fjJetInputs env fs gen ?d)" if "i \<in> ?d" for i
  proof
    assume "i \<in> pj_user_index ` set (ev_fjJetInputs env fs gen ?d)"
    then consider "i \<in> pj_user_index ` set (fjStableInputs env fs ?d)"
      | "i \<in> pj_user_index ` set (fjGhostInputs env gen (collectBHadrons gen))"
      by (auto simp: ev_fjJetInputs_def fjJetInputs_def)
    then show False
    proof cases
      case 1
      then show False using stableInputs_mem that by blast
    next
      case 2
      then have "i \<in> set (collectBHadrons gen)" using ghostInputs_mem by blast
      then have "c_status (fs ! i) \<noteq> 1" using al by (simp add: aligned_def list_all_iff)
      then show False using stable[OF that] by blast
    qed
  qed
  have disj: "set (j_constituents lep) \<inter> set (j_constituents jet) = {}"
    if "lep \<in> set leptons" "jet \<in> set jets" for lep jet
  proof -
    from list_all2_right_mem[OF l2 that(1)] obtain J where
      "J \<in> set ?acc" "set (j_constituents lep) \<subseteq> consumed J" by blast
    then have a: "set (j_constituents lep) \<subseteq> ?d" by auto
    from ev_jets_valid(3)[OF ej] that(2) obtain FJ where
      fj: "FJ \<in> set (jetCluster env (jetMinPt cfg) (ev_fjJetInputs env fs gen ?d))"
          "j_constituents jet = map pj_user_index (fj_constituents FJ)" by blast
    have "set (j_constituents jet) \<subseteq> pj_user_index ` set (ev_fjJetInputs env fs gen ?d)"
      using fj clusterOf_mem[OF jetC[of ?d]] by auto
    with a excl show ?thesis by blast
  qed
  let ?out = "\<lparr>o_neutrinos = ev_neutrinos env fs, o_leptons = leptons, o_jets = jets,
                o_pseudoTop = linkDecayTree ps\<rparr>"
  have e: "\<forall>i \<in> ?d. i \<notin> pj_user_index ` set (ev_fjJetInputs env fs gen ?d)"
    using excl by blast
  have dj: "\<forall>lep \<in> set (o_leptons ?out). \<forall>jet \<in> set (o_jets ?out).
              set (j_constituents lep) \<inter> set (j_constituents jet) = {}"
    using disj by simp
  have H: "ev_dressed env cfg fs = Inr (leptons, ?d) \<and>
           produce env cfg fs gen = Inr ?out \<and> o_leptons ?out = leptons \<and>
           ?d = ?d \<and>
           distinct (concat (map (map pj_user_index \<circ> fj_constituents) ?acc)) \<and>
           (\<forall>i \<in> ?d. i \<notin> pj_user_index ` set (ev_fjJetInputs env fs gen ?d)) \<and>
           (\<forall>lep \<in> set (o_leptons ?out). \<forall>jet \<in> set (o_jets ?out).
              set (j_constituents lep) \<inter> set (j_constituents jet) = {})"
    apply (intro conjI)
          apply (rule dr)
         apply (rule pr)
        apply simp
       apply (rule refl)
      apply (rule dist)
     apply (rule e)
    apply (rule dj)
    done
  show ?thesis
    apply (rule exI[of _ leptons])
    apply (rule exI[of _ "?d"])
    apply (rule exI[of _ "?out"])
    apply (rule H)
    done
qed

lemma dilepton_empty:
  assumes valid: "list_all (\<lambda>i. i < length jets) bjetIdxs"
    and no: "0 < int32 (j_charge (leptons ! 0) * j_charge (leptons ! 1)) \<or>
         noDileptonCombination env cfg
           (if 0 < j_charge (leptons ! 0) then leptons ! 0 else leptons ! 1)
           (if 0 < j_charge (leptons ! 0) then leptons ! 1 else leptons ! 0)
           neutrinos jets bjetIdxs"
  shows "dilepton env cfg leptons neutrinos jets bjetIdxs = Inr []"
proof -
  define l1 where "l1 = (if 0 < j_charge (leptons ! 0) then leptons ! 0 else leptons ! 1)"
  define l2 where "l2 = (if 0 < j_charge (leptons ! 0) then leptons ! 1 else leptons ! 0)"
  define dnu where "dnu = (\<lambda>(i, j). nuPairDev env cfg l1 l2 neutrinos i j)"
  define db where "db = (\<lambda>i j. \<lambda>(k, l). bPairDev env cfg (p4_add (j_p4 l1) (gp_p4 (neutrinos ! i)))
                        (p4_add (j_p4 l2) (gp_p4 (neutrinos ! j))) jets k l)"
  define P where "P = orderedPairs [0..<length neutrinos]"
  define D where "D = dilepton env cfg leptons neutrinos jets bjetIdxs"
  have R: "0 < int32 (j_charge (leptons ! 0) * j_charge (leptons ! 1)) \<and> D = Inr [] \<or>
         \<not> 0 < int32 (j_charge (leptons ! 0) * j_charge (leptons ! 1)) \<and>
           (\<forall>c \<in> set P. \<not> dlt (dnu c) (Fin 1000000000)) \<and> D = Inr [] \<or>
         \<not> 0 < int32 (j_charge (leptons ! 0) * j_charge (leptons ! 1)) \<and>
           (\<exists>i j. firstMin dnu P (i, j) \<and> dlt (dnu (i, j)) (Fin 1000000000) \<and>
              ((\<forall>c \<in> set (orderedPairs bjetIdxs). \<not> dlt (db i j c) (Fin 1000000000)) \<and> D = Inr [] \<or>
               (\<exists>k l. firstMin (db i j) (orderedPairs bjetIdxs) (k, l) \<and>
                  dlt (db i j (k, l)) (Fin 1000000000) \<and>
                  D = Inr (dileptonTree (j_charge (leptons ! 0)) (j_charge (leptons ! 1)) l1 l2
                             (neutrinos ! i) (neutrinos ! j) (jets ! k) (jets ! l)))))"
    using dilepton_result[OF valid, where env=env and cfg=cfg and leptons=leptons
      and neutrinos=neutrinos]
    unfolding l1_def l2_def dnu_def db_def P_def D_def .
  have nd: "list_all (\<lambda>c. \<not> dlt (dnu c) (Fin 1000000000)) P \<or>
         list_ex (\<lambda>(i, j). firstMin dnu P (i, j) \<and> dlt (dnu (i, j)) (Fin 1000000000) \<and>
                    list_all (\<lambda>c. \<not> dlt (db i j c) (Fin 1000000000)) (orderedPairs bjetIdxs)) P"
    if "\<not> 0 < int32 (j_charge (leptons ! 0) * j_charge (leptons ! 1))"
    using no that
    unfolding noDileptonCombination_def Let_def l1_def l2_def dnu_def db_def P_def
    by (simp add: case_prod_unfold)
  have imp: False
    if "\<not> 0 < int32 (j_charge (leptons ! 0) * j_charge (leptons ! 1))"
      and fm: "firstMin dnu P (i, j)" and dl: "dlt (dnu (i, j)) (Fin 1000000000)"
      and fb: "firstMin (db i j) (orderedPairs bjetIdxs) (k, l)"
      and dbl: "dlt (db i j (k, l)) (Fin 1000000000)" for i j k l
  proof -
    from nd[OF that(1)] show False
    proof
      assume "list_all (\<lambda>c. \<not> dlt (dnu c) (Fin 1000000000)) P"
      then show False using firstMin_mem[OF fm] dl by (auto simp: list_all_iff)
    next
      assume "list_ex (\<lambda>(i, j). firstMin dnu P (i, j) \<and> dlt (dnu (i, j)) (Fin 1000000000) \<and>
                    list_all (\<lambda>c. \<not> dlt (db i j c) (Fin 1000000000)) (orderedPairs bjetIdxs)) P"
      then obtain i' j' where
        m: "firstMin dnu P (i', j')" "dlt (dnu (i', j')) (Fin 1000000000)"
           "\<forall>c \<in> set (orderedPairs bjetIdxs). \<not> dlt (db i' j' c) (Fin 1000000000)"
        by (auto simp: list_all_iff list_ex_iff)
      have n1: "\<not> isnan (dnu (i', j'))" using m(2) dlt_not_nan by blast
      have n2: "\<not> isnan (dnu (i, j))" using dl dlt_not_nan by blast
      have "(i', j') = (i, j)"
        using m(1) fm n1 n2 by (rule firstMin_unique)
      with m(3) firstMin_mem[OF fb] dbl show False by auto
    qed
  qed
  from R imp show ?thesis unfolding D_def[symmetric] by blast
qed

lemma semilepton_empty:
  assumes valid: "list_all (\<lambda>i. i < length jets) bjetIdxs"
    and validl: "list_all (\<lambda>j. j < length jets) ljetIdxs"
    and no: "noSemileptonCombination env cfg (leptons ! 0) neutrinos jets bjetIdxs ljetIdxs"
  shows "semilepton env cfg leptons neutrinos jets bjetIdxs ljetIdxs = Inr []"
proof -
  define dw where "dw = (\<lambda>(i, j1, j2). wJetsDev env cfg (leptons ! 0) neutrinos jets i j1 j2)"
  define db where "db = (\<lambda>i j1 j2. \<lambda>(k, l). bPairDev env cfg
                        (p4_add (j_p4 (leptons ! 0)) (gp_p4 (neutrinos ! i)))
                        (p4_add (j_p4 (jets ! j1)) (j_p4 (jets ! j2))) jets k l)"
  define P where "P = wCombos (length neutrinos) ljetIdxs"
  define D where "D = semilepton env cfg leptons neutrinos jets bjetIdxs ljetIdxs"
  have R: "(\<forall>c \<in> set P. \<not> dlt (dw c) (Fin 1000000000)) \<and> D = Inr [] \<or>
         (\<exists>i j1 j2. firstMin dw P (i, j1, j2) \<and> dlt (dw (i, j1, j2)) (Fin 1000000000) \<and>
              ((\<forall>c \<in> set (orderedPairs bjetIdxs). \<not> dlt (db i j1 j2 c) (Fin 1000000000)) \<and>
                 D = Inr [] \<or>
               (\<exists>k l. firstMin (db i j1 j2) (orderedPairs bjetIdxs) (k, l) \<and>
                  dlt (db i j1 j2 (k, l)) (Fin 1000000000) \<and>
                  D = Inr (semileptonTree (leptons ! 0) (neutrinos ! i) (jets ! j1) (jets ! j2)
                             (jets ! k) (jets ! l)))))"
    using semilepton_result[OF valid validl, where env=env and cfg=cfg and leptons=leptons
      and neutrinos=neutrinos]
    unfolding dw_def db_def P_def D_def .
  have nd: "list_all (\<lambda>c. \<not> dlt (dw c) (Fin 1000000000)) P \<or>
         list_ex (\<lambda>(i, j1, j2). firstMin dw P (i, j1, j2) \<and> dlt (dw (i, j1, j2)) (Fin 1000000000) \<and>
                    list_all (\<lambda>c. \<not> dlt (db i j1 j2 c) (Fin 1000000000)) (orderedPairs bjetIdxs)) P"
    using no
    unfolding noSemileptonCombination_def Let_def dw_def db_def P_def
    by (simp add: case_prod_unfold)
  have imp: False
    if fm: "firstMin dw P (i, j1, j2)" and dl: "dlt (dw (i, j1, j2)) (Fin 1000000000)"
      and fb: "firstMin (db i j1 j2) (orderedPairs bjetIdxs) (k, l)"
      and dbl: "dlt (db i j1 j2 (k, l)) (Fin 1000000000)" for i j1 j2 k l
  proof -
    from nd show False
    proof
      assume "list_all (\<lambda>c. \<not> dlt (dw c) (Fin 1000000000)) P"
      then show False using firstMin_mem[OF fm] dl by (auto simp: list_all_iff)
    next
      assume "list_ex (\<lambda>(i, j1, j2). firstMin dw P (i, j1, j2) \<and>
                    dlt (dw (i, j1, j2)) (Fin 1000000000) \<and>
                    list_all (\<lambda>c. \<not> dlt (db i j1 j2 c) (Fin 1000000000)) (orderedPairs bjetIdxs)) P"
      then obtain i' j1' j2' where
        m: "firstMin dw P (i', j1', j2')" "dlt (dw (i', j1', j2')) (Fin 1000000000)"
           "\<forall>c \<in> set (orderedPairs bjetIdxs). \<not> dlt (db i' j1' j2' c) (Fin 1000000000)"
        by (auto simp: list_all_iff list_ex_iff)
      have n1: "\<not> isnan (dw (i', j1', j2'))" using m(2) dlt_not_nan by blast
      have n2: "\<not> isnan (dw (i, j1, j2))" using dl dlt_not_nan by blast
      have "(i', j1', j2') = (i, j1, j2)"
        using m(1) fm n1 n2 by (rule firstMin_unique)
      with m(3) firstMin_mem[OF fb] dbl show False by auto
    qed
  qed
  from R imp show ?thesis unfolding D_def[symmetric] by blast
qed

lemma combine_empty:
  assumes "list_all (\<lambda>i. i < length jets) bjetIdxs" "list_all (\<lambda>j. j < length jets) ljetIdxs"
    and "noCandidate env cfg leptons neutrinos jets bjetIdxs ljetIdxs"
  shows "combine env cfg leptons neutrinos jets bjetIdxs ljetIdxs = Inr []"
  using assms dilepton_empty[OF assms(1), of leptons env cfg neutrinos]
    semilepton_empty[OF assms(1,2), of env cfg leptons neutrinos]
  unfolding combine_def noCandidate_def by (auto split: if_splits)

lemma int32_id: "- 2147483648 \<le> x \<Longrightarrow> x < 2147483648 \<Longrightarrow> int32 x = x"
  by (simp add: int32_def)

lemma sameSign_product:
  assumes "- 2147483648 \<le> a * b" "a * b < 2147483648"
  shows "(0 < int32 (a * b)) = sameSign a b"
proof -
  have "int32 (a * b) = a * b" using assms by (rule int32_id)
  then show ?thesis by (auto simp: sameSign_def zero_less_mult_iff)
qed






lemma keepBest_selected:
  assumes "\<not> isnan dm0"
  shows "(\<exists>c. fold (keepBest d enc) cs (dm0, s0) = (d c, enc c) \<and> dlt (d c) dm0 \<and> firstMin d cs c) =
           list_ex (\<lambda>c. dlt (d c) dm0) cs"
    and "(fold (keepBest d enc) cs (dm0, s0) = (dm0, s0)) = list_all (\<lambda>c. \<not> dlt (d c) dm0) cs"
proof -
  from keepBest_result[OF assms, of cs d enc s0]
  consider (none) "\<forall>c \<in> set cs. \<not> dlt (d c) dm0" "fold (keepBest d enc) cs (dm0, s0) = (dm0, s0)"
    | (some) c where "fold (keepBest d enc) cs (dm0, s0) = (d c, enc c)" "dlt (d c) dm0"
        "firstMin d cs c"
    by blast
  then have "((\<exists>c. fold (keepBest d enc) cs (dm0, s0) = (d c, enc c) \<and> dlt (d c) dm0 \<and> firstMin d cs c) =
           list_ex (\<lambda>c. dlt (d c) dm0) cs) \<and>
        ((fold (keepBest d enc) cs (dm0, s0) = (dm0, s0)) = list_all (\<lambda>c. \<not> dlt (d c) dm0) cs)"
  proof cases
    case none
    have n1: "\<not> (\<exists>c. fold (keepBest d enc) cs (dm0, s0) = (d c, enc c) \<and> dlt (d c) dm0 \<and> firstMin d cs c)"
    proof
      assume "\<exists>c. fold (keepBest d enc) cs (dm0, s0) = (d c, enc c) \<and> dlt (d c) dm0 \<and> firstMin d cs c"
      then obtain c where c: "dlt (d c) dm0" "firstMin d cs c" by blast
      from c(2) have "c \<in> set cs" by (rule firstMin_mem)
      with none(1) c(1) show False by simp
    qed
    have n2: "\<not> list_ex (\<lambda>c. dlt (d c) dm0) cs" using none(1) by (simp add: list_ex_iff)
    have n3: "list_all (\<lambda>c. \<not> dlt (d c) dm0) cs" using none(1) by (simp add: list_all_iff)
    show ?thesis by (simp only: n1[unfolded none(2)] n2 n3 none(2) simp_thms)
  next
    case some
    have m: "c \<in> set cs" using some(3) by (rule firstMin_mem)
    have "d c \<noteq> dm0" using some(2) dlt_irrefl by auto
    then have s1: "fold (keepBest d enc) cs (dm0, s0) \<noteq> (dm0, s0)" using some(1) by simp
    have s2: "list_ex (\<lambda>c. dlt (d c) dm0) cs" using m some(2) by (auto simp: list_ex_iff)
    have s3: "\<not> list_all (\<lambda>c. \<not> dlt (d c) dm0) cs" using m some(2) by (auto simp: list_all_iff)
    have s4: "\<exists>c. fold (keepBest d enc) cs (dm0, s0) = (d c, enc c) \<and> dlt (d c) dm0 \<and> firstMin d cs c"
      using some by (intro exI[of _ c] conjI)
    show ?thesis by (simp only: s1 s2 s3 s4 simp_thms)
  qed
  then show "(\<exists>c. fold (keepBest d enc) cs (dm0, s0) = (d c, enc c) \<and> dlt (d c) dm0 \<and> firstMin d cs c) =
           list_ex (\<lambda>c. dlt (d c) dm0) cs"
    and "(fold (keepBest d enc) cs (dm0, s0) = (dm0, s0)) = list_all (\<lambda>c. \<not> dlt (d c) dm0) cs"
    by blast+
qed

lemma searchNuPair_selected:
  "((\<exists>i j. searchNuPair env cfg lepton1 lepton2 neutrinos =
            (nuPairDev env cfg lepton1 lepton2 neutrinos i j, int i, int j) \<and>
          dlt (nuPairDev env cfg lepton1 lepton2 neutrinos i j) (Fin 1000000000) \<and>
          firstMin (\<lambda>(i, j). nuPairDev env cfg lepton1 lepton2 neutrinos i j)
            (orderedPairs [0..<length neutrinos]) (i, j)) =
      list_ex (\<lambda>(i, j). dlt (nuPairDev env cfg lepton1 lepton2 neutrinos i j) (Fin 1000000000))
        (orderedPairs [0..<length neutrinos])) \<and>
   ((searchNuPair env cfg lepton1 lepton2 neutrinos = (Fin 1000000000, - 1, - 1)) =
      list_all (\<lambda>(i, j). \<not> dlt (nuPairDev env cfg lepton1 lepton2 neutrinos i j) (Fin 1000000000))
        (orderedPairs [0..<length neutrinos]))"
  using keepBest_selected[of "Fin 1000000000"
      "\<lambda>(i, j). nuPairDev env cfg lepton1 lepton2 neutrinos i j" "\<lambda>(i, j). (int i, int j)"
      "orderedPairs [0..<length neutrinos]" "(- 1, - 1)"]
  unfolding searchNuPair_keepBest by (simp add: case_prod_unfold)

lemma searchBPair_selected:
  assumes "list_all (\<lambda>i. i < length jets) bjetIdxs"
  shows
  "((\<exists>k l. searchBPair env cfg w1LVec w2LVec jets bjetIdxs =
            Inr (bPairDev env cfg w1LVec w2LVec jets k l, int k, int l) \<and>
          dlt (bPairDev env cfg w1LVec w2LVec jets k l) (Fin 1000000000) \<and>
          firstMin (\<lambda>(k, l). bPairDev env cfg w1LVec w2LVec jets k l)
            (orderedPairs bjetIdxs) (k, l)) =
      list_ex (\<lambda>(k, l). dlt (bPairDev env cfg w1LVec w2LVec jets k l) (Fin 1000000000))
        (orderedPairs bjetIdxs)) \<and>
   ((searchBPair env cfg w1LVec w2LVec jets bjetIdxs = Inr (Fin 1000000000, - 1, - 1)) =
      list_all (\<lambda>(k, l). \<not> dlt (bPairDev env cfg w1LVec w2LVec jets k l) (Fin 1000000000))
        (orderedPairs bjetIdxs))"
  using keepBest_selected[of "Fin 1000000000"
      "\<lambda>(i, j). bPairDev env cfg w1LVec w2LVec jets i j" "\<lambda>(i, j). (int i, int j)"
      "orderedPairs bjetIdxs" "(- 1, - 1)"]
  unfolding searchBPair_keepBest[OF assms] by (simp add: case_prod_unfold)

lemma searchWJets_selected:
  assumes "list_all (\<lambda>j. j < length jets) ljetIdxs"
  shows
  "((\<exists>i j1 j2. searchWJets env cfg lepton neutrinos jets ljetIdxs =
            Inr (wJetsDev env cfg lepton neutrinos jets i j1 j2, int i, int j1, int j2) \<and>
          dlt (wJetsDev env cfg lepton neutrinos jets i j1 j2) (Fin 1000000000) \<and>
          firstMin (\<lambda>(i, j1, j2). wJetsDev env cfg lepton neutrinos jets i j1 j2)
            (wCombos (length neutrinos) ljetIdxs) (i, j1, j2)) =
      list_ex (\<lambda>(i, j1, j2). dlt (wJetsDev env cfg lepton neutrinos jets i j1 j2) (Fin 1000000000))
        (wCombos (length neutrinos) ljetIdxs)) \<and>
   ((searchWJets env cfg lepton neutrinos jets ljetIdxs = Inr (Fin 1000000000, - 1, - 1, - 1)) =
      list_all (\<lambda>(i, j1, j2). \<not> dlt (wJetsDev env cfg lepton neutrinos jets i j1 j2)
                                     (Fin 1000000000))
        (wCombos (length neutrinos) ljetIdxs))"
  using keepBest_selected[of "Fin 1000000000"
      "\<lambda>(i, j1, j2). wJetsDev env cfg lepton neutrinos jets i j1 j2"
      "\<lambda>(i, j1, j2). (int i, int j1, int j2)"
      "wCombos (length neutrinos) ljetIdxs" "(- 1, - 1, - 1)"]
  unfolding searchWJets_keepBest[OF assms] by (simp add: case_prod_unfold)

lemma list_ex_weaken:
  "list_ex P xs \<Longrightarrow> (\<And>x. P x \<Longrightarrow> Q x) \<Longrightarrow> list_ex Q xs"
  by (auto simp: list_ex_iff)

lemma list_all_weaken:
  "list_all P xs \<Longrightarrow> (\<And>x. P x \<Longrightarrow> Q x) \<Longrightarrow> list_all Q xs"
  by (auto simp: list_all_iff)

lemma all_dge_none_below:
  "list_all (\<lambda>c. dge (d c) b) cs \<Longrightarrow> list_all (\<lambda>c. \<not> dlt (d c) b) cs"
  by (erule list_all_weaken) (rule dge_not_dlt)

text \<open>
  Claim C10. Each of the three searches selects a combination exactly when an
  enumerated combination has a deviation strictly below \<^verbatim>\<open>1e9\<close>: its final state
  then holds the indices of the first combination, in the order of the loops, that
  attains the least deviation, and that deviation, which is below \<^verbatim>\<open>1e9\<close>; and
  its final state is the initial one, \<^verbatim>\<open>1e9\<close> with the indices \<open>-1\<close>, exactly when
  no enumerated combination has a deviation below \<^verbatim>\<open>1e9\<close>. When every
  combination of the first search of a channel has a deviation of at least
  \<^verbatim>\<open>1e9\<close>, or every pair of b jets has one for the combination the first search
  selected, the pseudo-top collection is empty, although with two neutrinos the
  dilepton channel has pairs to enumerate.
\<close>

theorem sentinel_abort:
  fixes env cfg leptons neutrinos jets bjetIdxs ljetIdxs lepton1 lepton2 lepton w1LVec w2LVec
  defines "lpos \<equiv> (if 0 < j_charge (leptons ! 0) then leptons ! 0 else leptons ! 1)"
    and "lneg \<equiv> (if 0 < j_charge (leptons ! 0) then leptons ! 1 else leptons ! 0)"
  shows
  "((\<exists>i j. searchNuPair env cfg lepton1 lepton2 neutrinos =
            (nuPairDev env cfg lepton1 lepton2 neutrinos i j, int i, int j) \<and>
          dlt (nuPairDev env cfg lepton1 lepton2 neutrinos i j) (Fin 1000000000) \<and>
          firstMin (\<lambda>(i, j). nuPairDev env cfg lepton1 lepton2 neutrinos i j)
            (orderedPairs [0..<length neutrinos]) (i, j)) =
      list_ex (\<lambda>(i, j). dlt (nuPairDev env cfg lepton1 lepton2 neutrinos i j) (Fin 1000000000))
        (orderedPairs [0..<length neutrinos])) \<and>
   ((searchNuPair env cfg lepton1 lepton2 neutrinos = (Fin 1000000000, - 1, - 1)) =
      list_all (\<lambda>(i, j). \<not> dlt (nuPairDev env cfg lepton1 lepton2 neutrinos i j) (Fin 1000000000))
        (orderedPairs [0..<length neutrinos])) \<and>
   (list_all (\<lambda>i. i < length jets) bjetIdxs \<longrightarrow>
      ((\<exists>k l. searchBPair env cfg w1LVec w2LVec jets bjetIdxs =
                Inr (bPairDev env cfg w1LVec w2LVec jets k l, int k, int l) \<and>
              dlt (bPairDev env cfg w1LVec w2LVec jets k l) (Fin 1000000000) \<and>
              firstMin (\<lambda>(k, l). bPairDev env cfg w1LVec w2LVec jets k l)
                (orderedPairs bjetIdxs) (k, l)) =
          list_ex (\<lambda>(k, l). dlt (bPairDev env cfg w1LVec w2LVec jets k l) (Fin 1000000000))
            (orderedPairs bjetIdxs)) \<and>
      ((searchBPair env cfg w1LVec w2LVec jets bjetIdxs = Inr (Fin 1000000000, - 1, - 1)) =
          list_all (\<lambda>(k, l). \<not> dlt (bPairDev env cfg w1LVec w2LVec jets k l) (Fin 1000000000))
            (orderedPairs bjetIdxs))) \<and>
   (list_all (\<lambda>j. j < length jets) ljetIdxs \<longrightarrow>
      ((\<exists>i j1 j2. searchWJets env cfg lepton neutrinos jets ljetIdxs =
                Inr (wJetsDev env cfg lepton neutrinos jets i j1 j2, int i, int j1, int j2) \<and>
              dlt (wJetsDev env cfg lepton neutrinos jets i j1 j2) (Fin 1000000000) \<and>
              firstMin (\<lambda>(i, j1, j2). wJetsDev env cfg lepton neutrinos jets i j1 j2)
                (wCombos (length neutrinos) ljetIdxs) (i, j1, j2)) =
          list_ex (\<lambda>(i, j1, j2). dlt (wJetsDev env cfg lepton neutrinos jets i j1 j2)
                                    (Fin 1000000000))
            (wCombos (length neutrinos) ljetIdxs)) \<and>
      ((searchWJets env cfg lepton neutrinos jets ljetIdxs = Inr (Fin 1000000000, - 1, - 1, - 1)) =
          list_all (\<lambda>(i, j1, j2). \<not> dlt (wJetsDev env cfg lepton neutrinos jets i j1 j2)
                                         (Fin 1000000000))
            (wCombos (length neutrinos) ljetIdxs))) \<and>
   (list_all (\<lambda>i. i < length jets) bjetIdxs \<and> list_all (\<lambda>j. j < length jets) ljetIdxs \<and>
    2 \<le> length bjetIdxs \<and> length leptons = 2 \<and> 2 \<le> length neutrinos \<and>
    (list_all (\<lambda>(i, j). dge (nuPairDev env cfg lpos lneg neutrinos i j) (Fin 1000000000))
       (orderedPairs [0..<length neutrinos]) \<or>
     list_ex (\<lambda>(i, j).
        firstMin (\<lambda>(i, j). nuPairDev env cfg lpos lneg neutrinos i j)
          (orderedPairs [0..<length neutrinos]) (i, j) \<and>
        dlt (nuPairDev env cfg lpos lneg neutrinos i j) (Fin 1000000000) \<and>
        list_all (\<lambda>(k, l). dge (bPairDev env cfg (p4_add (j_p4 lpos) (gp_p4 (neutrinos ! i)))
                                   (p4_add (j_p4 lneg) (gp_p4 (neutrinos ! j))) jets k l)
                                (Fin 1000000000))
          (orderedPairs bjetIdxs))
       (orderedPairs [0..<length neutrinos])) \<longrightarrow>
    orderedPairs [0..<length neutrinos] \<noteq> [] \<and>
    combine env cfg leptons neutrinos jets bjetIdxs ljetIdxs = Inr []) \<and>
   (list_all (\<lambda>i. i < length jets) bjetIdxs \<and> list_all (\<lambda>j. j < length jets) ljetIdxs \<and>
    2 \<le> length bjetIdxs \<and> length leptons = 1 \<and> 1 \<le> length neutrinos \<and>
    (list_all (\<lambda>(i, j1, j2). dge (wJetsDev env cfg (leptons ! 0) neutrinos jets i j1 j2)
                                (Fin 1000000000))
       (wCombos (length neutrinos) ljetIdxs) \<or>
     list_ex (\<lambda>(i, j1, j2).
        firstMin (\<lambda>(i, j1, j2). wJetsDev env cfg (leptons ! 0) neutrinos jets i j1 j2)
          (wCombos (length neutrinos) ljetIdxs) (i, j1, j2) \<and>
        dlt (wJetsDev env cfg (leptons ! 0) neutrinos jets i j1 j2) (Fin 1000000000) \<and>
        list_all (\<lambda>(k, l). dge (bPairDev env cfg
                                   (p4_add (j_p4 (leptons ! 0)) (gp_p4 (neutrinos ! i)))
                                   (p4_add (j_p4 (jets ! j1)) (j_p4 (jets ! j2))) jets k l)
                                (Fin 1000000000))
          (orderedPairs bjetIdxs))
       (wCombos (length neutrinos) ljetIdxs)) \<longrightarrow>
    combine env cfg leptons neutrinos jets bjetIdxs ljetIdxs = Inr [])"
proof (intro conjI impI)
  show "(\<exists>i j. searchNuPair env cfg lepton1 lepton2 neutrinos =
            (nuPairDev env cfg lepton1 lepton2 neutrinos i j, int i, int j) \<and>
          dlt (nuPairDev env cfg lepton1 lepton2 neutrinos i j) (Fin 1000000000) \<and>
          firstMin (\<lambda>(i, j). nuPairDev env cfg lepton1 lepton2 neutrinos i j)
            (orderedPairs [0..<length neutrinos]) (i, j)) =
      list_ex (\<lambda>(i, j). dlt (nuPairDev env cfg lepton1 lepton2 neutrinos i j) (Fin 1000000000))
        (orderedPairs [0..<length neutrinos])"
    by (rule searchNuPair_selected[THEN conjunct1])
next
  show "(searchNuPair env cfg lepton1 lepton2 neutrinos = (Fin 1000000000, - 1, - 1)) =
      list_all (\<lambda>(i, j). \<not> dlt (nuPairDev env cfg lepton1 lepton2 neutrinos i j) (Fin 1000000000))
        (orderedPairs [0..<length neutrinos])"
    by (rule searchNuPair_selected[THEN conjunct2])
next
  assume v: "list_all (\<lambda>i. i < length jets) bjetIdxs"
  show "(\<exists>k l. searchBPair env cfg w1LVec w2LVec jets bjetIdxs =
                Inr (bPairDev env cfg w1LVec w2LVec jets k l, int k, int l) \<and>
              dlt (bPairDev env cfg w1LVec w2LVec jets k l) (Fin 1000000000) \<and>
              firstMin (\<lambda>(k, l). bPairDev env cfg w1LVec w2LVec jets k l)
                (orderedPairs bjetIdxs) (k, l)) =
          list_ex (\<lambda>(k, l). dlt (bPairDev env cfg w1LVec w2LVec jets k l) (Fin 1000000000))
            (orderedPairs bjetIdxs)"
    by (rule searchBPair_selected[OF v, THEN conjunct1])
next
  assume v: "list_all (\<lambda>i. i < length jets) bjetIdxs"
  show "(searchBPair env cfg w1LVec w2LVec jets bjetIdxs = Inr (Fin 1000000000, - 1, - 1)) =
          list_all (\<lambda>(k, l). \<not> dlt (bPairDev env cfg w1LVec w2LVec jets k l) (Fin 1000000000))
            (orderedPairs bjetIdxs)"
    by (rule searchBPair_selected[OF v, THEN conjunct2])
next
  assume v: "list_all (\<lambda>j. j < length jets) ljetIdxs"
  show "(\<exists>i j1 j2. searchWJets env cfg lepton neutrinos jets ljetIdxs =
                Inr (wJetsDev env cfg lepton neutrinos jets i j1 j2, int i, int j1, int j2) \<and>
              dlt (wJetsDev env cfg lepton neutrinos jets i j1 j2) (Fin 1000000000) \<and>
              firstMin (\<lambda>(i, j1, j2). wJetsDev env cfg lepton neutrinos jets i j1 j2)
                (wCombos (length neutrinos) ljetIdxs) (i, j1, j2)) =
          list_ex (\<lambda>(i, j1, j2). dlt (wJetsDev env cfg lepton neutrinos jets i j1 j2)
                                    (Fin 1000000000))
            (wCombos (length neutrinos) ljetIdxs)"
    by (rule searchWJets_selected[OF v, THEN conjunct1])
next
  assume v: "list_all (\<lambda>j. j < length jets) ljetIdxs"
  show "(searchWJets env cfg lepton neutrinos jets ljetIdxs = Inr (Fin 1000000000, - 1, - 1, - 1)) =
          list_all (\<lambda>(i, j1, j2). \<not> dlt (wJetsDev env cfg lepton neutrinos jets i j1 j2)
                                         (Fin 1000000000))
            (wCombos (length neutrinos) ljetIdxs)"
    by (rule searchWJets_selected[OF v, THEN conjunct2])
next
  assume a: "list_all (\<lambda>i. i < length jets) bjetIdxs \<and> list_all (\<lambda>j. j < length jets) ljetIdxs \<and>
    2 \<le> length bjetIdxs \<and> length leptons = 2 \<and> 2 \<le> length neutrinos \<and>
    (list_all (\<lambda>(i, j). dge (nuPairDev env cfg lpos lneg neutrinos i j) (Fin 1000000000))
       (orderedPairs [0..<length neutrinos]) \<or>
     list_ex (\<lambda>(i, j).
        firstMin (\<lambda>(i, j). nuPairDev env cfg lpos lneg neutrinos i j)
          (orderedPairs [0..<length neutrinos]) (i, j) \<and>
        dlt (nuPairDev env cfg lpos lneg neutrinos i j) (Fin 1000000000) \<and>
        list_all (\<lambda>(k, l). dge (bPairDev env cfg (p4_add (j_p4 lpos) (gp_p4 (neutrinos ! i)))
                                   (p4_add (j_p4 lneg) (gp_p4 (neutrinos ! j))) jets k l)
                                (Fin 1000000000))
          (orderedPairs bjetIdxs))
       (orderedPairs [0..<length neutrinos]))"
  then have "list_all (\<lambda>(i, j). dge (nuPairDev env cfg lpos lneg neutrinos i j) (Fin 1000000000))
       (orderedPairs [0..<length neutrinos]) \<or>
     list_ex (\<lambda>(i, j).
        firstMin (\<lambda>(i, j). nuPairDev env cfg lpos lneg neutrinos i j)
          (orderedPairs [0..<length neutrinos]) (i, j) \<and>
        dlt (nuPairDev env cfg lpos lneg neutrinos i j) (Fin 1000000000) \<and>
        list_all (\<lambda>(k, l). dge (bPairDev env cfg (p4_add (j_p4 lpos) (gp_p4 (neutrinos ! i)))
                                   (p4_add (j_p4 lneg) (gp_p4 (neutrinos ! j))) jets k l)
                                (Fin 1000000000))
          (orderedPairs bjetIdxs))
       (orderedPairs [0..<length neutrinos])" by simp
  then have "noDileptonCombination env cfg lpos lneg neutrinos jets bjetIdxs"
    unfolding noDileptonCombination_def Let_def
  proof
    assume "list_all (\<lambda>(i, j). dge (nuPairDev env cfg lpos lneg neutrinos i j) (Fin 1000000000))
       (orderedPairs [0..<length neutrinos])"
    then have "list_all (\<lambda>c. \<not> dlt (case c of (i, j) \<Rightarrow> nuPairDev env cfg lpos lneg neutrinos i j)
                 (Fin 1000000000)) (orderedPairs [0..<length neutrinos])"
      by (rule list_all_weaken) (auto simp: dge_not_dlt)
    then show "list_all (\<lambda>c. \<not> dlt (case c of (i, j) \<Rightarrow> nuPairDev env cfg lpos lneg neutrinos i j)
                 (Fin 1000000000)) (orderedPairs [0..<length neutrinos]) \<or>
         list_ex (\<lambda>(i, j). firstMin (\<lambda>(i, j). nuPairDev env cfg lpos lneg neutrinos i j)
                       (orderedPairs [0..<length neutrinos]) (i, j) \<and>
                    dlt (case (i, j) of (i, j) \<Rightarrow> nuPairDev env cfg lpos lneg neutrinos i j)
                       (Fin 1000000000) \<and>
                    list_all (\<lambda>(k, l). \<not> dlt (bPairDev env cfg
                                 (p4_add (j_p4 lpos) (gp_p4 (neutrinos ! i)))
                                 (p4_add (j_p4 lneg) (gp_p4 (neutrinos ! j))) jets k l)
                               (Fin 1000000000))
                      (orderedPairs bjetIdxs))
           (orderedPairs [0..<length neutrinos])" by (rule disjI1)
  next
    assume "list_ex (\<lambda>(i, j).
        firstMin (\<lambda>(i, j). nuPairDev env cfg lpos lneg neutrinos i j)
          (orderedPairs [0..<length neutrinos]) (i, j) \<and>
        dlt (nuPairDev env cfg lpos lneg neutrinos i j) (Fin 1000000000) \<and>
        list_all (\<lambda>(k, l). dge (bPairDev env cfg (p4_add (j_p4 lpos) (gp_p4 (neutrinos ! i)))
                                   (p4_add (j_p4 lneg) (gp_p4 (neutrinos ! j))) jets k l)
                                (Fin 1000000000))
          (orderedPairs bjetIdxs))
       (orderedPairs [0..<length neutrinos])"
    then have "list_ex (\<lambda>(i, j). firstMin (\<lambda>(i, j). nuPairDev env cfg lpos lneg neutrinos i j)
                       (orderedPairs [0..<length neutrinos]) (i, j) \<and>
                    dlt (case (i, j) of (i, j) \<Rightarrow> nuPairDev env cfg lpos lneg neutrinos i j)
                       (Fin 1000000000) \<and>
                    list_all (\<lambda>(k, l). \<not> dlt (bPairDev env cfg
                                 (p4_add (j_p4 lpos) (gp_p4 (neutrinos ! i)))
                                 (p4_add (j_p4 lneg) (gp_p4 (neutrinos ! j))) jets k l)
                               (Fin 1000000000))
                      (orderedPairs bjetIdxs))
           (orderedPairs [0..<length neutrinos])"
      by (rule list_ex_weaken) (auto elim!: list_all_weaken simp: dge_not_dlt)
    then show "list_all (\<lambda>c. \<not> dlt (case c of (i, j) \<Rightarrow> nuPairDev env cfg lpos lneg neutrinos i j)
                 (Fin 1000000000)) (orderedPairs [0..<length neutrinos]) \<or>
         list_ex (\<lambda>(i, j). firstMin (\<lambda>(i, j). nuPairDev env cfg lpos lneg neutrinos i j)
                       (orderedPairs [0..<length neutrinos]) (i, j) \<and>
                    dlt (case (i, j) of (i, j) \<Rightarrow> nuPairDev env cfg lpos lneg neutrinos i j)
                       (Fin 1000000000) \<and>
                    list_all (\<lambda>(k, l). \<not> dlt (bPairDev env cfg
                                 (p4_add (j_p4 lpos) (gp_p4 (neutrinos ! i)))
                                 (p4_add (j_p4 lneg) (gp_p4 (neutrinos ! j))) jets k l)
                               (Fin 1000000000))
                      (orderedPairs bjetIdxs))
           (orderedPairs [0..<length neutrinos])" by (rule disjI2)
  qed
  then have "noCandidate env cfg leptons neutrinos jets bjetIdxs ljetIdxs"
    using a unfolding noCandidate_def lpos_def lneg_def by simp
  then show "combine env cfg leptons neutrinos jets bjetIdxs ljetIdxs = Inr []"
    using a combine_empty by blast
  have "(0, 1) \<in> set (orderedPairs [0..<length neutrinos])"
    using a by (auto simp: set_orderedPairs)
  then show "orderedPairs [0..<length neutrinos] \<noteq> []" by auto
next
  assume a: "list_all (\<lambda>i. i < length jets) bjetIdxs \<and> list_all (\<lambda>j. j < length jets) ljetIdxs \<and>
    2 \<le> length bjetIdxs \<and> length leptons = 1 \<and> 1 \<le> length neutrinos \<and>
    (list_all (\<lambda>(i, j1, j2). dge (wJetsDev env cfg (leptons ! 0) neutrinos jets i j1 j2)
                                (Fin 1000000000))
       (wCombos (length neutrinos) ljetIdxs) \<or>
     list_ex (\<lambda>(i, j1, j2).
        firstMin (\<lambda>(i, j1, j2). wJetsDev env cfg (leptons ! 0) neutrinos jets i j1 j2)
          (wCombos (length neutrinos) ljetIdxs) (i, j1, j2) \<and>
        dlt (wJetsDev env cfg (leptons ! 0) neutrinos jets i j1 j2) (Fin 1000000000) \<and>
        list_all (\<lambda>(k, l). dge (bPairDev env cfg
                                   (p4_add (j_p4 (leptons ! 0)) (gp_p4 (neutrinos ! i)))
                                   (p4_add (j_p4 (jets ! j1)) (j_p4 (jets ! j2))) jets k l)
                                (Fin 1000000000))
          (orderedPairs bjetIdxs))
       (wCombos (length neutrinos) ljetIdxs))"
  then have "list_all (\<lambda>(i, j1, j2). dge (wJetsDev env cfg (leptons ! 0) neutrinos jets i j1 j2)
                                (Fin 1000000000))
       (wCombos (length neutrinos) ljetIdxs) \<or>
     list_ex (\<lambda>(i, j1, j2).
        firstMin (\<lambda>(i, j1, j2). wJetsDev env cfg (leptons ! 0) neutrinos jets i j1 j2)
          (wCombos (length neutrinos) ljetIdxs) (i, j1, j2) \<and>
        dlt (wJetsDev env cfg (leptons ! 0) neutrinos jets i j1 j2) (Fin 1000000000) \<and>
        list_all (\<lambda>(k, l). dge (bPairDev env cfg
                                   (p4_add (j_p4 (leptons ! 0)) (gp_p4 (neutrinos ! i)))
                                   (p4_add (j_p4 (jets ! j1)) (j_p4 (jets ! j2))) jets k l)
                                (Fin 1000000000))
          (orderedPairs bjetIdxs))
       (wCombos (length neutrinos) ljetIdxs)" by simp
  then have "noSemileptonCombination env cfg (leptons ! 0) neutrinos jets bjetIdxs ljetIdxs"
    unfolding noSemileptonCombination_def Let_def
  proof
    assume "list_all (\<lambda>(i, j1, j2). dge (wJetsDev env cfg (leptons ! 0) neutrinos jets i j1 j2)
                                (Fin 1000000000))
       (wCombos (length neutrinos) ljetIdxs)"
    then have "list_all (\<lambda>c. \<not> dlt (case c of (i, j1, j2) \<Rightarrow> wJetsDev env cfg (leptons ! 0) neutrinos jets i j1 j2)
                 (Fin 1000000000)) (wCombos (length neutrinos) ljetIdxs)"
      by (rule list_all_weaken) (auto simp: dge_not_dlt)
    then show "list_all (\<lambda>c. \<not> dlt (case c of (i, j1, j2) \<Rightarrow> wJetsDev env cfg (leptons ! 0) neutrinos jets i j1 j2)
                 (Fin 1000000000)) (wCombos (length neutrinos) ljetIdxs) \<or>
         list_ex (\<lambda>(i, j1, j2). firstMin (\<lambda>(i, j1, j2). wJetsDev env cfg (leptons ! 0) neutrinos jets i j1 j2)
                       (wCombos (length neutrinos) ljetIdxs) (i, j1, j2) \<and>
                    dlt (case (i, j1, j2) of (i, j1, j2) \<Rightarrow> wJetsDev env cfg (leptons ! 0) neutrinos jets i j1 j2)
                       (Fin 1000000000) \<and>
                    list_all (\<lambda>(k, l). \<not> dlt (bPairDev env cfg
                                 (p4_add (j_p4 (leptons ! 0)) (gp_p4 (neutrinos ! i)))
                                 (p4_add (j_p4 (jets ! j1)) (j_p4 (jets ! j2))) jets k l)
                               (Fin 1000000000))
                      (orderedPairs bjetIdxs))
           (wCombos (length neutrinos) ljetIdxs)" by (rule disjI1)
  next
    assume "list_ex (\<lambda>(i, j1, j2).
        firstMin (\<lambda>(i, j1, j2). wJetsDev env cfg (leptons ! 0) neutrinos jets i j1 j2)
          (wCombos (length neutrinos) ljetIdxs) (i, j1, j2) \<and>
        dlt (wJetsDev env cfg (leptons ! 0) neutrinos jets i j1 j2) (Fin 1000000000) \<and>
        list_all (\<lambda>(k, l). dge (bPairDev env cfg
                                   (p4_add (j_p4 (leptons ! 0)) (gp_p4 (neutrinos ! i)))
                                   (p4_add (j_p4 (jets ! j1)) (j_p4 (jets ! j2))) jets k l)
                                (Fin 1000000000))
          (orderedPairs bjetIdxs))
       (wCombos (length neutrinos) ljetIdxs)"
    then have "list_ex (\<lambda>(i, j1, j2). firstMin (\<lambda>(i, j1, j2). wJetsDev env cfg (leptons ! 0) neutrinos jets i j1 j2)
                       (wCombos (length neutrinos) ljetIdxs) (i, j1, j2) \<and>
                    dlt (case (i, j1, j2) of (i, j1, j2) \<Rightarrow> wJetsDev env cfg (leptons ! 0) neutrinos jets i j1 j2)
                       (Fin 1000000000) \<and>
                    list_all (\<lambda>(k, l). \<not> dlt (bPairDev env cfg
                                 (p4_add (j_p4 (leptons ! 0)) (gp_p4 (neutrinos ! i)))
                                 (p4_add (j_p4 (jets ! j1)) (j_p4 (jets ! j2))) jets k l)
                               (Fin 1000000000))
                      (orderedPairs bjetIdxs))
           (wCombos (length neutrinos) ljetIdxs)"
      by (rule list_ex_weaken) (auto elim!: list_all_weaken simp: dge_not_dlt)
    then show "list_all (\<lambda>c. \<not> dlt (case c of (i, j1, j2) \<Rightarrow> wJetsDev env cfg (leptons ! 0) neutrinos jets i j1 j2)
                 (Fin 1000000000)) (wCombos (length neutrinos) ljetIdxs) \<or>
         list_ex (\<lambda>(i, j1, j2). firstMin (\<lambda>(i, j1, j2). wJetsDev env cfg (leptons ! 0) neutrinos jets i j1 j2)
                       (wCombos (length neutrinos) ljetIdxs) (i, j1, j2) \<and>
                    dlt (case (i, j1, j2) of (i, j1, j2) \<Rightarrow> wJetsDev env cfg (leptons ! 0) neutrinos jets i j1 j2)
                       (Fin 1000000000) \<and>
                    list_all (\<lambda>(k, l). \<not> dlt (bPairDev env cfg
                                 (p4_add (j_p4 (leptons ! 0)) (gp_p4 (neutrinos ! i)))
                                 (p4_add (j_p4 (jets ! j1)) (j_p4 (jets ! j2))) jets k l)
                               (Fin 1000000000))
                      (orderedPairs bjetIdxs))
           (wCombos (length neutrinos) ljetIdxs)" by (rule disjI2)
  qed
  then have "noCandidate env cfg leptons neutrinos jets bjetIdxs ljetIdxs"
    using a unfolding noCandidate_def by simp
  then show "combine env cfg leptons neutrinos jets bjetIdxs ljetIdxs = Inr []"
    using a combine_empty by blast
qed

text \<open>
  Claim C6, as amended. When the lepton clustering returns constituents of its input,
  the dressed leptons are, in order, one for each cluster that passes the eta cut and
  has a charged lepton (absolute species code 11 or 13) among its constituents; its
  species code and charge are those of the representative, a charged lepton of the
  cluster such that no charged lepton seen before it has a higher pt and every one
  seen after it has a lower pt: of two with equal pt the one seen last is taken. A
  cluster without a charged lepton gives no dressed lepton and none of its
  constituents is recorded as consumed.
\<close>

theorem dressed_representative:
  assumes "clusterOf (ev_fjLepInputs env fs)
             (lepCluster env (leptonMinPt cfg) (ev_fjLepInputs env fs))"
  shows "\<exists>leptons lepDauIdxs.
           ev_dressed env cfg fs = Inr (leptons, lepDauIdxs) \<and>
           list_all2 (dressedFrom env fs)
             (filter (acceptedLepton cfg fs)
                (lepCluster env (leptonMinPt cfg) (ev_fjLepInputs env fs)))
             leptons \<and>
           lepDauIdxs = \<Union> (consumed ` set (filter (acceptedLepton cfg fs)
                           (lepCluster env (leptonMinPt cfg) (ev_fjLepInputs env fs))))"
proof -
  from ev_dressed_char[OF assms] obtain leptons where
    dr: "ev_dressed env cfg fs =
           Inr (leptons, \<Union> (consumed ` set (filter (acceptedLepton cfg fs)
                                (lepCluster env (leptonMinPt cfg) (ev_fjLepInputs env fs)))))"
    and l2: "list_all2 (\<lambda>J lep. dressedFrom env fs J lep \<and> j_p4 lep = fj_p4 J \<and>
                               set (j_constituents lep) \<subseteq> consumed J)
             (filter (acceptedLepton cfg fs) (lepCluster env (leptonMinPt cfg) (ev_fjLepInputs env fs)))
             leptons" by blast
  from l2 have "list_all2 (dressedFrom env fs)
             (filter (acceptedLepton cfg fs) (lepCluster env (leptonMinPt cfg) (ev_fjLepInputs env fs)))
             leptons"
    by (rule list_all2_mono) simp
  with dr show ?thesis by blast
qed

subsection \<open>The properties on the example events\<close>

lemma upt_10: "[0..<10] = [0, 1, 2, 3, 4, 5, 6, 7, 8, 9]"
  by (simp add: upt_rec)

lemma ex_bHadrons: "collectBHadrons ex_event = [4, 5, 9]"
  by (simp add: collectBHadrons_def ex_event_def particle_def upt_10 isBHadron_cand_def isBHadron_def)

lemma ex_leptonIdxs: "collectLeptonIdxs ex_event = [0, 1, 8]"
  by (simp add: collectLeptonIdxs_def ex_event_def particle_def upt_10 isPrompt_def fromW_def fromB_def
        int32_def)

lemma ex_collectNeutrinos:
  "collectNeutrinos ex_event = [nuOut (Fin (- 40)) (Fin 40) 12, nuOut (Fin 35) (Fin 35) (- 14)]"
  by (simp add: collectNeutrinos_def ex_event_def particle_def isPrompt_def fromW_def fromB_def nuOut_def
        int32_def)

lemma ex_neutrinos: "ev_neutrinos ex_env ex_event = ex_nus"
  unfolding ev_neutrinos_def ex_collectNeutrinos ex_nus_def
  by (simp add: sortByPt_def greaterByPt_def ex_env_def xpt_def dgt_def nuOut_def GenParticle_def along_x_def)

lemma ex_lepInputs:
  "ev_fjLepInputs ex_env ex_event = [inputOf (Fin 40) (Fin 40) 0, inputOf (Fin (- 30)) (Fin 30) 1]"
  unfolding ev_fjLepInputs_def ex_leptonIdxs
  by (simp add: fjLepInputs_def badPt_def ex_env_def xpt_def ex_event_def particle_def inputOf_def along_x_def)

lemma ex_lepClusters:
  "alongAxis (Fin 20) [inputOf (Fin 40) (Fin 40) 0, inputOf (Fin (- 30)) (Fin 30) 1] =
     [\<lparr>fj_p4 = along_x (Fin 40) (Fin 40), fj_eta = Fin 0, fj_area = None,
       fj_constituents = [inputOf (Fin 40) (Fin 40) 0]\<rparr>,
      \<lparr>fj_p4 = along_x (Fin (- 30)) (Fin 30), fj_eta = Fin 0, fj_area = None,
       fj_constituents = [inputOf (Fin (- 30)) (Fin 30) 1]\<rparr>]"
  by (simp add: alongAxis_def kept_def jetFrom_def sortDesc_def p4_sum_def p4_add_def xpt_def
        dge_def dgt_def inputOf_def along_x_def Let_def)

lemma ex_dressed: "ev_dressed ex_env ex_cfg ex_event = Inr (ex_leptons, {0, 1})"
proof -
  have c: "lepCluster ex_env (leptonMinPt ex_cfg) (ev_fjLepInputs ex_env ex_event) =
     [\<lparr>fj_p4 = along_x (Fin 40) (Fin 40), fj_eta = Fin 0, fj_area = None,
       fj_constituents = [inputOf (Fin 40) (Fin 40) 0]\<rparr>,
      \<lparr>fj_p4 = along_x (Fin (- 30)) (Fin 30), fj_eta = Fin 0, fj_area = None,
       fj_constituents = [inputOf (Fin (- 30)) (Fin 30) 1]\<rparr>]"
    unfolding ex_lepInputs using ex_lepClusters by (simp add: ex_env_def ex_cfg_def)
  show ?thesis
    unfolding ev_dressed_def c
    by (simp add: ex_leptons_def ex_env_def xpt_def ex_cfg_def ex_event_def particle_def dgt_def jetOf_def
        genVertex_def fjArea_def inputOf_def insert_commute)
qed

lemma ex_jetInputs:
  "ev_fjJetInputs ex_env ex_event ex_event {0, 1} =
     [inputOf (Fin 25) (Fin 26) 6, inputOf (Fin (- 22)) (Fin 23) 7,
      inputOf (Fin (1 / 10 ^ 20)) (Fin (60 / 50 / 10 ^ 20)) 4,
      inputOf (Fin (- (1 / 10 ^ 20))) (Fin (50 / 45 / 10 ^ 20)) 5]"
  unfolding ev_fjJetInputs_def ex_bHadrons
  by (simp add: fjJetInputs_def fjStableInputs_def fjGhostInputs_def upt_10 badPt_def ghost_def
        ex_env_def xpt_def ex_event_def particle_def inputOf_def along_x_def)

lemma ex_jetClusters:
  "alongAxis (Fin 20)
     [inputOf (Fin 25) (Fin 26) 6, inputOf (Fin (- 22)) (Fin 23) 7,
      inputOf (Fin (1 / 10 ^ 20)) (Fin (60 / 50 / 10 ^ 20)) 4,
      inputOf (Fin (- (1 / 10 ^ 20))) (Fin (50 / 45 / 10 ^ 20)) 5] =
     [\<lparr>fj_p4 = along_x (Fin (25 + 1 / 10 ^ 20)) (Fin (26 + 60 / 50 / 10 ^ 20)), fj_eta = Fin 0,
       fj_area = None,
       fj_constituents = [inputOf (Fin 25) (Fin 26) 6,
                          inputOf (Fin (1 / 10 ^ 20)) (Fin (60 / 50 / 10 ^ 20)) 4]\<rparr>,
      \<lparr>fj_p4 = along_x (Fin (- 22 - 1 / 10 ^ 20)) (Fin (23 + 50 / 45 / 10 ^ 20)), fj_eta = Fin 0,
       fj_area = None,
       fj_constituents = [inputOf (Fin (- 22)) (Fin 23) 7,
                          inputOf (Fin (- (1 / 10 ^ 20))) (Fin (50 / 45 / 10 ^ 20)) 5]\<rparr>]"
  by (simp add: alongAxis_def kept_def jetFrom_def sortDesc_def p4_sum_def p4_add_def xpt_def
        dge_def dgt_def inputOf_def along_x_def Let_def)

lemma ex_ev_jets:
  "ev_jets ex_env ex_cfg ex_event ex_event {0, 1} = Inr (ex_jets, [0, 1], [])"
proof -
  have c: "jetCluster ex_env (jetMinPt ex_cfg) (ev_fjJetInputs ex_env ex_event ex_event {0, 1}) =
     [\<lparr>fj_p4 = along_x (Fin (25 + 1 / 10 ^ 20)) (Fin (26 + 60 / 50 / 10 ^ 20)), fj_eta = Fin 0,
       fj_area = None,
       fj_constituents = [inputOf (Fin 25) (Fin 26) 6,
                          inputOf (Fin (1 / 10 ^ 20)) (Fin (60 / 50 / 10 ^ 20)) 4]\<rparr>,
      \<lparr>fj_p4 = along_x (Fin (- 22 - 1 / 10 ^ 20)) (Fin (23 + 50 / 45 / 10 ^ 20)), fj_eta = Fin 0,
       fj_area = None,
       fj_constituents = [inputOf (Fin (- 22)) (Fin 23) 7,
                          inputOf (Fin (- (1 / 10 ^ 20))) (Fin (50 / 45 / 10 ^ 20)) 5]\<rparr>]"
    unfolding ex_jetInputs using ex_jetClusters by (simp add: ex_env_def ex_cfg_def)
  have l: "length ex_event = 10" by (simp add: ex_event_def)
  show ?thesis
    unfolding ev_jets_def c ex_bHadrons
    by (simp add: l ex_cfg_def dgt_def jetOf_def ex_jets_def
        genVertex_def fjArea_def inputOf_def Let_def)
qed

lemma upt_2: "[0..<2] = [0, 1]"
  by (simp add: upt_rec)

lemma upt_2': "[0..<Suc (Suc 0)] = [0, Suc 0]"
  by (simp add: upt_rec)

lemmas ex_eval =
  combine_def dilepton_def semilepton_def searchNuPair_def nuPairStep_def nuPairDev_def
  searchBPair_def bPairStep_def bPairDev_def searchWJets_def wJetsStep_def wJetsDev_def
  massDev_def p4_add_def dsub_def dge_def dgt_def vec_at_def orderedPairs_def wCombos_def
  ex_env_def ex_cfg_def ex_cfg_w_def ex_cfg_t_def ex_leptons_def ex_nus_def ex_jets_def
  ex_jets4_def jetOf_def nuOut_def GenParticle_def along_x_def upt_2 upt_2' Let_def int32_def

lemma ex_combine:
  "combine ex_env ex_cfg ex_leptons ex_nus ex_jets [0, 1] [] =
     Inr (dileptonTree 1 (- 1) (ex_leptons ! 0) (ex_leptons ! 1) (ex_nus ! 0) (ex_nus ! 1)
            (ex_jets ! 0) (ex_jets ! 1))"
  by (simp add: ex_eval)

lemma ex_produce: "produce ex_env ex_cfg ex_event ex_event = Inr ex_out"
  by (simp only: produce_def Let_def ex_neutrinos ex_dressed sum.case prod.case ex_ev_jets
        ex_combine ex_out_def)

lemma mset_insertDesc: "mset (insertDesc key x ys) = add_mset x (mset ys)"
  by (induction ys) auto

lemma mset_sortDesc: "mset (sortDesc key xs) = mset xs"
proof -
  have "mset (fold (insertDesc key) xs acc) = mset xs + mset acc" for acc
    by (induction xs arbitrary: acc) (simp_all add: mset_insertDesc)
  then show ?thesis by (simp add: sortDesc_def)
qed

lemma clusterOf_alongAxis: "clusterOf inputs (alongAxis ptmin inputs)"
proof -
  let ?P = "\<lambda>c. dle (Fin 0) (px (pj_p4 c))"
  have both: "mset (filter ?P inputs) + mset (filter (\<lambda>c. \<not> ?P c) inputs) = mset inputs"
    by (simp add: multiset_partition[symmetric])
  have both': "mset (filter (\<lambda>c. \<not> ?P c) inputs) + mset (filter ?P inputs) = mset inputs"
    using both by (simp add: add.commute)
  have sub: "mset (filter Q inputs) \<subseteq># mset inputs" for Q :: "pseudoJet \<Rightarrow> bool"
    by simp
  show ?thesis
    unfolding clusterOf_def alongAxis_def Let_def
    by (simp add: jetFrom_def mset_sortDesc both both' sub del: mset_filter)
qed

lemma alongAxis_above:
  "list_all (\<lambda>J. dge (xpt (fj_p4 J)) ptmin) (alongAxis ptmin inputs)"
  by (simp add: alongAxis_def kept_def jetFrom_def Let_def)

lemma alongAxis_sorted:
  "sorted_wrt (\<lambda>J K. \<not> dgt (xpt (fj_p4 K)) (xpt (fj_p4 J))) (alongAxis ptmin inputs)"
proof -
  have "dgt a b \<Longrightarrow> \<not> dgt b a" for a b
    unfolding dgt_def using dlt_trans dlt_irrefl by blast
  then show ?thesis by (simp add: alongAxis_def jetFrom_def Let_def)
qed

theorem produce_pseudoTop_size_witness:
  "produce ex_env ex_cfg ex_event ex_event = Inr ex_out \<and> length (o_pseudoTop ex_out) = 10"
proof -
  have "length (o_pseudoTop ex_out) = 10"
    by (simp add: ex_out_def length_linkDecayTree length_dileptonTree)
  then show ?thesis using produce_pseudoTop_size[OF ex_produce] ex_produce by simp
qed

theorem lepton_jet_disjoint_witness:
  "clusterOf (ev_fjLepInputs ex_env ex_event)
     (lepCluster ex_env (leptonMinPt ex_cfg) (ev_fjLepInputs ex_env ex_event)) \<and>
   clusterOf (ev_fjJetInputs ex_env ex_event ex_event {0, 1})
     (jetCluster ex_env (jetMinPt ex_cfg) (ev_fjJetInputs ex_env ex_event ex_event {0, 1})) \<and>
   aligned ex_event ex_event \<and>
   (\<exists>leptons lepDauIdxs out.
           ev_dressed ex_env ex_cfg ex_event = Inr (leptons, lepDauIdxs) \<and>
           produce ex_env ex_cfg ex_event ex_event = Inr out \<and> o_leptons out = leptons \<and>
           lepDauIdxs = \<Union> (consumed ` set (filter (acceptedLepton ex_cfg ex_event)
                           (lepCluster ex_env (leptonMinPt ex_cfg) (ev_fjLepInputs ex_env ex_event)))) \<and>
           distinct (concat (map (map pj_user_index \<circ> fj_constituents)
                      (filter (acceptedLepton ex_cfg ex_event)
                         (lepCluster ex_env (leptonMinPt ex_cfg) (ev_fjLepInputs ex_env ex_event))))) \<and>
           (\<forall>i \<in> lepDauIdxs. i \<notin> pj_user_index ` set (ev_fjJetInputs ex_env ex_event ex_event lepDauIdxs)) \<and>
           (\<forall>lep \<in> set (o_leptons out). \<forall>jet \<in> set (o_jets out).
              set (j_constituents lep) \<inter> set (j_constituents jet) = {}))"
proof -
  have l: "clusterOf (ev_fjLepInputs ex_env ex_event)
     (lepCluster ex_env (leptonMinPt ex_cfg) (ev_fjLepInputs ex_env ex_event))"
    using clusterOf_alongAxis by (simp add: ex_env_def)
  have j: "clusterOf (ev_fjJetInputs ex_env ex_event ex_event d)
     (jetCluster ex_env (jetMinPt ex_cfg) (ev_fjJetInputs ex_env ex_event ex_event d))" for d
    using clusterOf_alongAxis by (simp add: ex_env_def)
  have a: "aligned ex_event ex_event" by (rule aligned_same)
  show ?thesis
    using l j[of "{0, 1}"] a lepton_jet_disjoint[of ex_env ex_event ex_cfg ex_event, OF l j a]
    by (intro conjI) simp_all
qed

lemma tie_leptonIdxs: "collectLeptonIdxs ex_tie = [0, 1]"
  by (simp add: collectLeptonIdxs_def ex_tie_def particle_def upt_2 isPrompt_def fromW_def int32_def)

lemma tie_lepInputs:
  "ev_fjLepInputs ex_env ex_tie = [inputOf (Fin 30) (Fin 30) 0, inputOf (Fin 30) (Fin 31) 1]"
  unfolding ev_fjLepInputs_def tie_leptonIdxs
  by (simp add: fjLepInputs_def badPt_def ex_env_def xpt_def ex_tie_def particle_def inputOf_def
        along_x_def)

lemma tie_clusters:
  "lepCluster ex_env (leptonMinPt ex_cfg) (ev_fjLepInputs ex_env ex_tie) =
     [\<lparr>fj_p4 = along_x (Fin 60) (Fin 61), fj_eta = Fin 0, fj_area = None,
       fj_constituents = [inputOf (Fin 30) (Fin 30) 0, inputOf (Fin 30) (Fin 31) 1]\<rparr>]"
  unfolding tie_lepInputs
  by (simp add: ex_env_def ex_cfg_def alongAxis_def kept_def jetFrom_def sortDesc_def p4_sum_def
        p4_add_def xpt_def dge_def dgt_def inputOf_def along_x_def Let_def)

lemma tie_rev_leptonIdxs: "collectLeptonIdxs ex_tie_rev = [0, 1]"
  by (simp add: collectLeptonIdxs_def ex_tie_rev_def ex_tie_def particle_def upt_2 isPrompt_def
        fromW_def int32_def)

lemma tie_rev_lepInputs:
  "ev_fjLepInputs ex_env ex_tie_rev = [inputOf (Fin 30) (Fin 31) 0, inputOf (Fin 30) (Fin 30) 1]"
  unfolding ev_fjLepInputs_def tie_rev_leptonIdxs
  by (simp add: fjLepInputs_def badPt_def ex_env_def xpt_def ex_tie_rev_def ex_tie_def particle_def
        inputOf_def along_x_def)

lemma tie_rev_clusters:
  "lepCluster ex_env (leptonMinPt ex_cfg) (ev_fjLepInputs ex_env ex_tie_rev) =
     [\<lparr>fj_p4 = along_x (Fin 60) (Fin 61), fj_eta = Fin 0, fj_area = None,
       fj_constituents = [inputOf (Fin 30) (Fin 31) 0, inputOf (Fin 30) (Fin 30) 1]\<rparr>]"
  unfolding tie_rev_lepInputs
  by (simp add: ex_env_def ex_cfg_def alongAxis_def kept_def jetFrom_def sortDesc_def p4_sum_def
        p4_add_def xpt_def dge_def dgt_def inputOf_def along_x_def Let_def)

lemma tie_rev_dressed:
  "ev_dressed ex_env ex_cfg ex_tie_rev =
     Inr ([\<lparr>j_p4 = along_x (Fin 60) (Fin 61), j_vertex = (Fin 0, Fin 0, Fin 0),
            j_constituents = [0, 1], j_pdgId = - 11, j_charge = 1, j_area = Fin 0\<rparr>], {0, 1})"
  unfolding ev_dressed_def tie_rev_clusters
  by (simp add: ex_env_def xpt_def ex_cfg_def ex_tie_rev_def ex_tie_def particle_def dgt_def
        genVertex_def fjArea_def inputOf_def along_x_def insert_commute)

text \<open>
  Claim C6 as stated fails on \<open>ex_tie\<close>: a positron and a muon of equal pt 30 in one
  cluster of pt 60, which passes both cuts, the positron seen first; the dressed
  lepton has the muon's species code and charge. On \<open>ex_tie_rev\<close> the muon is seen
  first and the dressed lepton has the positron's species code and charge.
\<close>

theorem tie_last_seen_wins:
  "map pj_user_index (fj_constituents
      (lepCluster ex_env (leptonMinPt ex_cfg) (ev_fjLepInputs ex_env ex_tie) ! 0)) = [0, 1] \<and>
   dge (kin_pt ex_env (fj_p4 (lepCluster ex_env (leptonMinPt ex_cfg)
                                (ev_fjLepInputs ex_env ex_tie) ! 0))) (leptonMinPt ex_cfg) \<and>
   dle (dabs (fj_eta (lepCluster ex_env (leptonMinPt ex_cfg)
                        (ev_fjLepInputs ex_env ex_tie) ! 0))) (leptonMaxEta ex_cfg) \<and>
   isChargedLepton (ex_tie ! 0) \<and> isChargedLepton (ex_tie ! 1) \<and>
   candPt ex_env ex_tie 0 = Fin 30 \<and> candPt ex_env ex_tie 1 = Fin 30 \<and>
   c_pdgId (ex_tie ! 0) = - 11 \<and> c_charge (ex_tie ! 0) = 1 \<and>
   ev_dressed ex_env ex_cfg ex_tie =
     Inr ([\<lparr>j_p4 = along_x (Fin 60) (Fin 61), j_vertex = (Fin 0, Fin 0, Fin 0),
            j_constituents = [0, 1], j_pdgId = 13, j_charge = - 1, j_area = Fin 0\<rparr>], {0, 1}) \<and>
   map pj_user_index (fj_constituents
      (lepCluster ex_env (leptonMinPt ex_cfg) (ev_fjLepInputs ex_env ex_tie_rev) ! 0)) = [0, 1] \<and>
   c_pdgId (ex_tie_rev ! 0) = 13 \<and> c_charge (ex_tie_rev ! 0) = - 1 \<and>
   ev_dressed ex_env ex_cfg ex_tie_rev =
     Inr ([\<lparr>j_p4 = along_x (Fin 60) (Fin 61), j_vertex = (Fin 0, Fin 0, Fin 0),
            j_constituents = [0, 1], j_pdgId = - 11, j_charge = 1, j_area = Fin 0\<rparr>], {0, 1})"
proof -
  have "ev_dressed ex_env ex_cfg ex_tie =
     Inr ([\<lparr>j_p4 = along_x (Fin 60) (Fin 61), j_vertex = (Fin 0, Fin 0, Fin 0),
            j_constituents = [0, 1], j_pdgId = 13, j_charge = - 1, j_area = Fin 0\<rparr>], {0, 1})"
    unfolding ev_dressed_def tie_clusters
    by (simp add: ex_env_def xpt_def ex_cfg_def ex_tie_def particle_def dgt_def genVertex_def
          fjArea_def inputOf_def along_x_def insert_commute)
  moreover have "map pj_user_index (fj_constituents
      (lepCluster ex_env (leptonMinPt ex_cfg) (ev_fjLepInputs ex_env ex_tie) ! 0)) = [0, 1]"
    unfolding tie_clusters by (simp add: inputOf_def)
  moreover have "dge (kin_pt ex_env (fj_p4 (lepCluster ex_env (leptonMinPt ex_cfg)
                                (ev_fjLepInputs ex_env ex_tie) ! 0))) (leptonMinPt ex_cfg) \<and>
   dle (dabs (fj_eta (lepCluster ex_env (leptonMinPt ex_cfg)
                        (ev_fjLepInputs ex_env ex_tie) ! 0))) (leptonMaxEta ex_cfg)"
    unfolding tie_clusters by (simp add: ex_env_def xpt_def ex_cfg_def dge_def along_x_def)
  moreover have "isChargedLepton (ex_tie ! 0) \<and> isChargedLepton (ex_tie ! 1) \<and>
   candPt ex_env ex_tie 0 = Fin 30 \<and> candPt ex_env ex_tie 1 = Fin 30 \<and>
   c_pdgId (ex_tie ! 0) = - 11 \<and> c_charge (ex_tie ! 0) = 1"
    by (simp add: isChargedLepton_def candPt_def ex_tie_def particle_def ex_env_def xpt_def along_x_def)
  moreover have "map pj_user_index (fj_constituents
      (lepCluster ex_env (leptonMinPt ex_cfg) (ev_fjLepInputs ex_env ex_tie_rev) ! 0)) = [0, 1]"
    unfolding tie_rev_clusters by (simp add: inputOf_def)
  moreover have "c_pdgId (ex_tie_rev ! 0) = 13 \<and> c_charge (ex_tie_rev ! 0) = - 1"
    by (simp add: ex_tie_rev_def ex_tie_def particle_def)
  ultimately show ?thesis using tie_rev_dressed by blast
qed

theorem dressed_representative_witness:
  "clusterOf (ev_fjLepInputs ex_env ex_tie)
     (lepCluster ex_env (leptonMinPt ex_cfg) (ev_fjLepInputs ex_env ex_tie)) \<and>
   (\<exists>leptons lepDauIdxs.
      ev_dressed ex_env ex_cfg ex_tie = Inr (leptons, lepDauIdxs) \<and>
      list_all2 (dressedFrom ex_env ex_tie)
        (filter (acceptedLepton ex_cfg ex_tie)
           (lepCluster ex_env (leptonMinPt ex_cfg) (ev_fjLepInputs ex_env ex_tie)))
        leptons \<and>
      lepDauIdxs = \<Union> (consumed ` set (filter (acceptedLepton ex_cfg ex_tie)
                      (lepCluster ex_env (leptonMinPt ex_cfg)
                         (ev_fjLepInputs ex_env ex_tie)))))"
proof -
  have c: "clusterOf (ev_fjLepInputs ex_env ex_tie)
     (lepCluster ex_env (leptonMinPt ex_cfg) (ev_fjLepInputs ex_env ex_tie))"
    using clusterOf_alongAxis by (simp add: ex_env_def)
  show ?thesis using c dressed_representative[OF c] by (rule conjI)
qed

theorem neutrinos_sorted_witness:
  "produce ex_env ex_cfg ex_event ex_event = Inr ex_out \<and>
   list_all (\<lambda>nu. \<not> isnan (ptOf ex_env nu)) (collectNeutrinos ex_event) \<and>
   map (ptOf ex_env) (o_neutrinos ex_out) = [Fin 40, Fin 35] \<and>
   sorted_wrt (\<lambda>a b. dge (ptOf ex_env a) (ptOf ex_env b)) (o_neutrinos ex_out)"
proof -
  have nn: "\<forall>nu \<in> set (collectNeutrinos ex_event). \<not> isnan (ptOf ex_env nu)"
    unfolding ex_collectNeutrinos
    by (simp add: ptOf_def ex_env_def xpt_def nuOut_def GenParticle_def along_x_def)
  have pts: "map (ptOf ex_env) (o_neutrinos ex_out) = [Fin 40, Fin 35]"
    by (simp add: ex_out_def ex_nus_def ptOf_def ex_env_def xpt_def nuOut_def GenParticle_def along_x_def)
  have la: "list_all (\<lambda>nu. \<not> isnan (ptOf ex_env nu)) (collectNeutrinos ex_event)"
    using nn by (simp add: list_all_iff)
  from neutrinos_sorted[OF ex_produce nn]
  have srt: "sorted_wrt (\<lambda>a b. dge (ptOf ex_env a) (ptOf ex_env b)) (o_neutrinos ex_out)"
    by (rule conjunct2[THEN conjunct2])
  show ?thesis by (intro conjI ex_produce la pts srt)
qed

lemma alongAxis_Nil: "alongAxis ptmin [] = []"
  by (simp add: alongAxis_def kept_def)

text \<open>
  Claim C8 as stated fails on \<open>ex_nan_nu\<close>: the neutrino whose pt is NaN is emitted
  as it was collected, and next to the neutrino of pt 10 neither of the two is at
  least the other, in whichever order the sort leaves them.
\<close>

theorem nan_neutrino_unsorted:
  "produce ex_env ex_cfg ex_nan_nu ex_nan_nu =
     Inr \<lparr>o_neutrinos = [nuOut NaN NaN 12, nuOut (Fin 10) (Fin 10) (- 14)],
          o_leptons = [], o_jets = [], o_pseudoTop = []\<rparr> \<and>
   ptOf ex_env (nuOut NaN NaN 12) = NaN \<and>
   ptOf ex_env (nuOut (Fin 10) (Fin 10) (- 14)) = Fin 10 \<and>
   \<not> dge (ptOf ex_env (nuOut NaN NaN 12)) (ptOf ex_env (nuOut (Fin 10) (Fin 10) (- 14))) \<and>
   \<not> dge (ptOf ex_env (nuOut (Fin 10) (Fin 10) (- 14))) (ptOf ex_env (nuOut NaN NaN 12))"
proof -
  have n: "ev_neutrinos ex_env ex_nan_nu = [nuOut NaN NaN 12, nuOut (Fin 10) (Fin 10) (- 14)]"
    by (simp add: ev_neutrinos_def collectNeutrinos_def ex_nan_nu_def particle_def isPrompt_def
          fromW_def int32_def sortByPt_def greaterByPt_def ex_env_def xpt_def dgt_def nuOut_def
          GenParticle_def along_x_def)
  have li: "collectLeptonIdxs ex_nan_nu = []"
    by (simp add: collectLeptonIdxs_def ex_nan_nu_def particle_def upt_2 isPrompt_def fromW_def
          int32_def)
  have d: "ev_dressed ex_env ex_cfg ex_nan_nu = Inr ([], {})"
    unfolding ev_dressed_def ev_fjLepInputs_def li
    by (simp add: fjLepInputs_def ex_env_def alongAxis_Nil)
  have b: "collectBHadrons ex_nan_nu = []"
    by (simp add: collectBHadrons_def ex_nan_nu_def particle_def upt_2)
  have ji: "ev_fjJetInputs ex_env ex_nan_nu ex_nan_nu {} = []"
    unfolding ev_fjJetInputs_def b
    by (simp add: fjJetInputs_def fjStableInputs_def fjGhostInputs_def upt_2 ex_nan_nu_def
          particle_def)
  have j: "ev_jets ex_env ex_cfg ex_nan_nu ex_nan_nu {} = Inr ([], [], [])"
    unfolding ev_jets_def ji b by (simp add: ex_env_def alongAxis_Nil)
  have c: "combine ex_env ex_cfg [] [nuOut NaN NaN 12, nuOut (Fin 10) (Fin 10) (- 14)] [] [] [] =
             Inr []"
    by (simp add: combine_def)
  have "produce ex_env ex_cfg ex_nan_nu ex_nan_nu =
     Inr \<lparr>o_neutrinos = [nuOut NaN NaN 12, nuOut (Fin 10) (Fin 10) (- 14)],
          o_leptons = [], o_jets = [], o_pseudoTop = []\<rparr>"
    by (simp only: produce_def Let_def n d sum.case prod.case j c linkDecayTree_Nil)
  then show ?thesis
    by (simp add: ptOf_def ex_env_def xpt_def nuOut_def GenParticle_def along_x_def dge_def)
qed






lemma upt_8: "[0..<8] = [0, 1, 2, 3, 4, 5, 6, 7]"
  by (simp add: upt_rec)










lemma upt_3: "[0..<3] = [0, 1, 2]"
  by (simp add: upt_rec)

text \<open>
  Claim C9 as stated fails for a pt of plus infinity: the three particles of
  \<open>ex_infinite\<close> are inputs of the lepton clustering, of the jet clustering and of the
  ghost injection.
\<close>

theorem infinite_pt_not_filtered:
  "kin_pt ex_env (c_p4 (ex_infinite ! 0)) = PInf \<and>
   kin_pt ex_env (c_p4 (ex_infinite ! 1)) = PInf \<and>
   kin_pt ex_env (c_p4 (ex_infinite ! 2)) = PInf \<and>
   map pj_user_index (ev_fjLepInputs ex_env ex_infinite) = [0] \<and>
   map pj_user_index (fjStableInputs ex_env ex_infinite {0}) = [1] \<and>
   map pj_user_index (fjGhostInputs ex_env ex_infinite (collectBHadrons ex_infinite)) = [2]"
proof -
  have li: "collectLeptonIdxs ex_infinite = [0]"
    by (simp add: collectLeptonIdxs_def ex_infinite_def particle_def upt_3 isPrompt_def
          fromW_def fromB_def int32_def)
  have b: "collectBHadrons ex_infinite = [2]"
    by (simp add: collectBHadrons_def ex_infinite_def particle_def upt_3 isBHadron_cand_def
          isBHadron_def)
  have "map pj_user_index (ev_fjLepInputs ex_env ex_infinite) = [0]"
    unfolding ev_fjLepInputs_def li
    by (simp add: fjLepInputs_def badPt_def ex_env_def xpt_def ex_infinite_def particle_def along_x_def)
  moreover have "map pj_user_index (fjStableInputs ex_env ex_infinite {0}) = [1]"
    by (simp add: fjStableInputs_def upt_3 badPt_def ex_env_def xpt_def ex_infinite_def particle_def
          along_x_def)
  moreover have "map pj_user_index (fjGhostInputs ex_env ex_infinite (collectBHadrons ex_infinite)) = [2]"
    unfolding b
    by (simp add: fjGhostInputs_def badPt_def ex_env_def xpt_def ex_infinite_def particle_def along_x_def)
  moreover have "kin_pt ex_env (c_p4 (ex_infinite ! 0)) = PInf \<and>
   kin_pt ex_env (c_p4 (ex_infinite ! 1)) = PInf \<and>
   kin_pt ex_env (c_p4 (ex_infinite ! 2)) = PInf"
    by (simp add: ex_env_def xpt_def ex_infinite_def particle_def along_x_def)
  ultimately show ?thesis by blast
qed

theorem bad_pt_filtered_witness:
  "dle (kin_pt ex_env (c_p4 (ex_event ! 8))) (Fin 0) \<and>
   8 \<notin> pj_user_index ` set (ev_fjLepInputs ex_env ex_event) \<and>
   8 \<notin> pj_user_index ` set (fjStableInputs ex_env ex_event {0, 1}) \<and>
   isnan (kin_pt ex_env (c_p4 (ex_event ! 9))) \<and>
   9 \<notin> pj_user_index ` set (fjGhostInputs ex_env ex_event (collectBHadrons ex_event))"
proof -
  have z: "dle (kin_pt ex_env (c_p4 (ex_event ! 8))) (Fin 0)"
    by (simp add: ex_env_def xpt_def ex_event_def particle_def along_x_def)
  have n: "isnan (kin_pt ex_env (c_p4 (ex_event ! 9)))"
    by (simp add: ex_env_def xpt_def ex_event_def particle_def along_x_def)
  have l8: "(8::nat) < length ex_event" and l9: "(9::nat) < length ex_event"
    by (simp_all add: ex_event_def)
  note F = bad_pt_filtered[of ex_event ex_env "{0, 1}" ex_event]
  from F have a: "\<forall>i. i < length ex_event \<longrightarrow>
        isnan (kin_pt ex_env (c_p4 (ex_event ! i))) \<or> dle (kin_pt ex_env (c_p4 (ex_event ! i))) (Fin 0) \<longrightarrow>
        i \<notin> pj_user_index ` set (ev_fjLepInputs ex_env ex_event) \<and>
        i \<notin> pj_user_index ` set (fjStableInputs ex_env ex_event {0, 1})"
    by (rule conjunct1)
  from F have b: "\<forall>i. i < length ex_event \<longrightarrow>
        isnan (kin_pt ex_env (c_p4 (ex_event ! i))) \<or> dle (kin_pt ex_env (c_p4 (ex_event ! i))) (Fin 0) \<longrightarrow>
        i \<notin> pj_user_index ` set (fjGhostInputs ex_env ex_event (collectBHadrons ex_event))"
    by (rule conjunct2[THEN conjunct1])
  from a l8 z have "8 \<notin> pj_user_index ` set (ev_fjLepInputs ex_env ex_event) \<and>
        8 \<notin> pj_user_index ` set (fjStableInputs ex_env ex_event {0, 1})" by blast
  moreover from b l9 n have
    "9 \<notin> pj_user_index ` set (fjGhostInputs ex_env ex_event (collectBHadrons ex_event))" by blast
  ultimately show ?thesis using z n by blast
qed


theorem sentinel_abort_witness:
  "searchNuPair ex_env ex_cfg (ex_leptons ! 0) (ex_leptons ! 1) ex_nus = (Fin 15, 0, 1) \<and>
   list_ex (\<lambda>(i, j). dlt (nuPairDev ex_env ex_cfg (ex_leptons ! 0) (ex_leptons ! 1) ex_nus i j)
                         (Fin 1000000000)) (orderedPairs [0..<length ex_nus]) \<and>
   searchNuPair ex_env ex_cfg_w (ex_leptons ! 0) (ex_leptons ! 1) ex_nus =
     (Fin 1000000000, - 1, - 1) \<and>
   orderedPairs [0..<length ex_nus] = [(0, 1), (1, 0)] \<and>
   combine ex_env ex_cfg_w ex_leptons ex_nus ex_jets [0, 1] [] = Inr [] \<and>
   combine ex_env ex_cfg_t ex_leptons ex_nus ex_jets [0, 1] [] = Inr [] \<and>
   wCombos (length ex_nus) [2, 3] = [(0, 2, 3), (1, 2, 3)] \<and>
   combine ex_env ex_cfg_w [ex_leptons ! 0] ex_nus ex_jets4 [0, 1] [2, 3] = Inr [] \<and>
   combine ex_env ex_cfg_t [ex_leptons ! 0] ex_nus ex_jets4 [0, 1] [2, 3] = Inr []"
proof -
  note A = sentinel_abort[where env=ex_env and cfg=ex_cfg and neutrinos=ex_nus
      and ?lepton1.0="ex_leptons ! 0" and ?lepton2.0="ex_leptons ! 1"]
  have s0: "searchNuPair ex_env ex_cfg (ex_leptons ! 0) (ex_leptons ! 1) ex_nus = (Fin 15, 0, 1)"
    by (simp add: ex_eval)
  have "\<exists>i j. searchNuPair ex_env ex_cfg (ex_leptons ! 0) (ex_leptons ! 1) ex_nus =
            (nuPairDev ex_env ex_cfg (ex_leptons ! 0) (ex_leptons ! 1) ex_nus i j, int i, int j) \<and>
          dlt (nuPairDev ex_env ex_cfg (ex_leptons ! 0) (ex_leptons ! 1) ex_nus i j) (Fin 1000000000) \<and>
          firstMin (\<lambda>(i, j). nuPairDev ex_env ex_cfg (ex_leptons ! 0) (ex_leptons ! 1) ex_nus i j)
            (orderedPairs [0..<length ex_nus]) (i, j)"
    by (rule exI[of _ 0], rule exI[of _ 1]) (simp add: ex_eval)
  then have s1: "list_ex (\<lambda>(i, j). dlt (nuPairDev ex_env ex_cfg (ex_leptons ! 0) (ex_leptons ! 1) ex_nus i j)
                         (Fin 1000000000)) (orderedPairs [0..<length ex_nus])"
    unfolding A[THEN conjunct1] .
  note B = sentinel_abort[where env=ex_env and cfg=ex_cfg_w and neutrinos=ex_nus
      and ?lepton1.0="ex_leptons ! 0" and ?lepton2.0="ex_leptons ! 1"]
  have s2: "searchNuPair ex_env ex_cfg_w (ex_leptons ! 0) (ex_leptons ! 1) ex_nus =
     (Fin 1000000000, - 1, - 1)"
    unfolding B[THEN conjunct2, THEN conjunct1] by (simp add: ex_eval)
  have p: "orderedPairs [0..<length ex_nus] = [(0, 1), (1, 0)]"
    by (simp add: ex_eval)
  have w: "wCombos (length ex_nus) [2, 3] = [(0, 2, 3), (1, 2, 3)]"
    by (simp add: ex_eval)
  have c1: "orderedPairs [0..<length ex_nus] \<noteq> [] \<and>
            combine ex_env ex_cfg_w ex_leptons ex_nus ex_jets [0, 1] [] = Inr []"
    by (rule mp[OF sentinel_abort[where env=ex_env and cfg=ex_cfg_w and neutrinos=ex_nus
            and leptons=ex_leptons and jets=ex_jets and bjetIdxs="[0, 1]" and ljetIdxs="[]",
            THEN conjunct2, THEN conjunct2, THEN conjunct2, THEN conjunct2, THEN conjunct1]])
       (simp add: ex_eval)
  have c2: "orderedPairs [0..<length ex_nus] \<noteq> [] \<and>
            combine ex_env ex_cfg_t ex_leptons ex_nus ex_jets [0, 1] [] = Inr []"
    by (rule mp[OF sentinel_abort[where env=ex_env and cfg=ex_cfg_t and neutrinos=ex_nus
            and leptons=ex_leptons and jets=ex_jets and bjetIdxs="[0, 1]" and ljetIdxs="[]",
            THEN conjunct2, THEN conjunct2, THEN conjunct2, THEN conjunct2, THEN conjunct1]])
       (simp add: ex_eval)
  have c3: "combine ex_env ex_cfg_w [ex_leptons ! 0] ex_nus ex_jets4 [0, 1] [2, 3] = Inr []"
    by (rule mp[OF sentinel_abort[where env=ex_env and cfg=ex_cfg_w and neutrinos=ex_nus
            and leptons="[ex_leptons ! 0]" and jets=ex_jets4 and bjetIdxs="[0, 1]"
            and ljetIdxs="[2, 3]",
            THEN conjunct2, THEN conjunct2, THEN conjunct2, THEN conjunct2, THEN conjunct2]])
       (simp add: ex_eval)
  have c4: "combine ex_env ex_cfg_t [ex_leptons ! 0] ex_nus ex_jets4 [0, 1] [2, 3] = Inr []"
    by (rule mp[OF sentinel_abort[where env=ex_env and cfg=ex_cfg_t and neutrinos=ex_nus
            and leptons="[ex_leptons ! 0]" and jets=ex_jets4 and bjetIdxs="[0, 1]"
            and ljetIdxs="[2, 3]",
            THEN conjunct2, THEN conjunct2, THEN conjunct2, THEN conjunct2, THEN conjunct2]])
       (simp add: ex_eval)
  show ?thesis
    by (intro conjI s0 s1 s2 p w c1[THEN conjunct2] c2[THEN conjunct2] c3 c4)
qed

lemma neg_neutrinos: "ev_neutrinos ex_env ex_event_neg = ex_nus"
  by (simp add: ev_neutrinos_def collectNeutrinos_def ex_event_neg_def particle_def isPrompt_def
        fromW_def fromB_def int32_def ex_nus_def sortByPt_def greaterByPt_def ex_env_def xpt_def
        dgt_def nuOut_def GenParticle_def along_x_def)

lemma neg_leptonIdxs: "collectLeptonIdxs ex_event_neg = [0, 1]"
  by (simp add: collectLeptonIdxs_def ex_event_neg_def particle_def upt_8 isPrompt_def
        fromW_def fromB_def int32_def)

lemma neg_bHadrons: "collectBHadrons ex_event_neg = [4, 5]"
  by (simp add: collectBHadrons_def ex_event_neg_def particle_def upt_8 isBHadron_cand_def
        isBHadron_def)

lemma neg_lepInputs:
  "ev_fjLepInputs ex_env ex_event_neg =
     [inputOf (Fin 30) (Fin 30) 0, inputOf (Fin (- 40)) (Fin 40) 1]"
  unfolding ev_fjLepInputs_def neg_leptonIdxs
  by (simp add: fjLepInputs_def badPt_def ex_env_def xpt_def ex_event_neg_def particle_def
        inputOf_def along_x_def)

lemma neg_lepClusters:
  "lepCluster ex_env (leptonMinPt ex_cfg) (ev_fjLepInputs ex_env ex_event_neg) =
     [\<lparr>fj_p4 = along_x (Fin (- 40)) (Fin 40), fj_eta = Fin 0, fj_area = None,
       fj_constituents = [inputOf (Fin (- 40)) (Fin 40) 1]\<rparr>,
      \<lparr>fj_p4 = along_x (Fin 30) (Fin 30), fj_eta = Fin 0, fj_area = None,
       fj_constituents = [inputOf (Fin 30) (Fin 30) 0]\<rparr>]"
  unfolding neg_lepInputs
  by (simp add: ex_env_def ex_cfg_def alongAxis_def kept_def jetFrom_def sortDesc_def p4_sum_def
        p4_add_def xpt_def dge_def dgt_def inputOf_def along_x_def Let_def)

lemma neg_dressed:
  "ev_dressed ex_env ex_cfg ex_event_neg = Inr (ex_leptons_neg, {0, 1})"
  unfolding ev_dressed_def neg_lepClusters
  by (simp add: ex_leptons_neg_def ex_env_def xpt_def ex_cfg_def ex_event_neg_def particle_def
        dgt_def jetOf_def genVertex_def fjArea_def inputOf_def insert_commute)

lemma neg_jetInputs:
  "ev_fjJetInputs ex_env ex_event_neg ex_event_neg {0, 1} =
     [inputOf (Fin 25) (Fin 26) 6, inputOf (Fin (- 22)) (Fin 23) 7,
      inputOf (Fin (1 / 10 ^ 20)) (Fin (60 / 50 / 10 ^ 20)) 4,
      inputOf (Fin (- (1 / 10 ^ 20))) (Fin (50 / 45 / 10 ^ 20)) 5]"
  unfolding ev_fjJetInputs_def neg_bHadrons
  by (simp add: fjJetInputs_def fjStableInputs_def fjGhostInputs_def upt_8 badPt_def ghost_def
        ex_env_def xpt_def ex_event_neg_def particle_def inputOf_def along_x_def)

lemma neg_jets:
  "ev_jets ex_env ex_cfg ex_event_neg ex_event_neg {0, 1} = Inr (ex_jets, [0, 1], [])"
proof -
  have c: "jetCluster ex_env (jetMinPt ex_cfg) (ev_fjJetInputs ex_env ex_event_neg ex_event_neg {0, 1}) =
     [\<lparr>fj_p4 = along_x (Fin (25 + 1 / 10 ^ 20)) (Fin (26 + 60 / 50 / 10 ^ 20)), fj_eta = Fin 0,
       fj_area = None,
       fj_constituents = [inputOf (Fin 25) (Fin 26) 6,
                          inputOf (Fin (1 / 10 ^ 20)) (Fin (60 / 50 / 10 ^ 20)) 4]\<rparr>,
      \<lparr>fj_p4 = along_x (Fin (- 22 - 1 / 10 ^ 20)) (Fin (23 + 50 / 45 / 10 ^ 20)), fj_eta = Fin 0,
       fj_area = None,
       fj_constituents = [inputOf (Fin (- 22)) (Fin 23) 7,
                          inputOf (Fin (- (1 / 10 ^ 20))) (Fin (50 / 45 / 10 ^ 20)) 5]\<rparr>]"
    unfolding neg_jetInputs using ex_jetClusters by (simp add: ex_env_def ex_cfg_def)
  have l: "length ex_event_neg = 8" by (simp add: ex_event_neg_def)
  show ?thesis
    unfolding ev_jets_def c neg_bHadrons
    by (simp add: l ex_cfg_def dgt_def jetOf_def ex_jets_def
        genVertex_def fjArea_def inputOf_def Let_def)
qed

lemma neg_combine:
  "combine ex_env ex_cfg ex_leptons_neg ex_nus ex_jets [0, 1] [] =
     Inr (dileptonTree (- 1) 1 (ex_leptons_neg ! 1) (ex_leptons_neg ! 0)
            (ex_nus ! 0) (ex_nus ! 1) (ex_jets ! 0) (ex_jets ! 1))"
  by (simp add: ex_eval ex_leptons_neg_def)

text \<open>
  Claim C5, evaluated on the event \<open>ex_event_neg\<close>, whose harder and so first dressed
  lepton is the muon, of charge \<open>-1\<close>; the second is the positron, of charge \<open>1\<close>.
  The candidate at index 0 is built from the positron: its lepton leg, at index 4, has
  the positron's species code and four-momentum. It is given the species code \<open>-6\<close>
  and the charge argument \<open>-2/3\<close>, its W the code \<open>-24\<close> and the charge \<open>-1\<close>, and
  the lepton leg the charge \<open>-1\<close>.
\<close>

theorem negative_first_lepton_mislabelled:
  "produce ex_env ex_cfg ex_event_neg ex_event_neg =
     Inr \<lparr>o_neutrinos = ex_nus, o_leptons = ex_leptons_neg, o_jets = ex_jets,
          o_pseudoTop = linkDecayTree
            (dileptonTree (- 1) 1 (ex_leptons_neg ! 1) (ex_leptons_neg ! 0)
               (ex_nus ! 0) (ex_nus ! 1) (ex_jets ! 0) (ex_jets ! 1))\<rparr> \<and>
   map gp_pdgId (linkDecayTree
            (dileptonTree (- 1) 1 (ex_leptons_neg ! 1) (ex_leptons_neg ! 0)
               (ex_nus ! 0) (ex_nus ! 1) (ex_jets ! 0) (ex_jets ! 1))) =
     [- 6, 6, - 24, - 5, - 11, 12, 24, 5, 13, - 14] \<and>
   map gp_charge (linkDecayTree
            (dileptonTree (- 1) 1 (ex_leptons_neg ! 1) (ex_leptons_neg ! 0)
               (ex_nus ! 0) (ex_nus ! 1) (ex_jets ! 0) (ex_jets ! 1))) =
     [- 2 / 3, 2 / 3, - 1, 1 / 3, - 1, 0, 1, 1 / 3, 1, 0] \<and>
   map gp_daughters (linkDecayTree
            (dileptonTree (- 1) 1 (ex_leptons_neg ! 1) (ex_leptons_neg ! 0)
               (ex_nus ! 0) (ex_nus ! 1) (ex_jets ! 0) (ex_jets ! 1))) =
     [[2, 3], [6, 7], [4, 5], [], [], [], [8, 9], [], [], []] \<and>
   gp_p4 (linkDecayTree
            (dileptonTree (- 1) 1 (ex_leptons_neg ! 1) (ex_leptons_neg ! 0)
               (ex_nus ! 0) (ex_nus ! 1) (ex_jets ! 0) (ex_jets ! 1)) ! 4) =
     j_p4 (ex_leptons_neg ! 1) \<and>
   map j_charge ex_leptons_neg = [- 1, 1] \<and> map j_pdgId ex_leptons_neg = [13, - 11]"
proof -
  have "produce ex_env ex_cfg ex_event_neg ex_event_neg =
     Inr \<lparr>o_neutrinos = ex_nus, o_leptons = ex_leptons_neg, o_jets = ex_jets,
          o_pseudoTop = linkDecayTree
            (dileptonTree (- 1) 1 (ex_leptons_neg ! 1) (ex_leptons_neg ! 0)
               (ex_nus ! 0) (ex_nus ! 1) (ex_jets ! 0) (ex_jets ! 1))\<rparr>"
    by (simp only: produce_def Let_def neg_neutrinos neg_dressed sum.case prod.case
          neg_jets neg_combine)
  moreover have "map gp_pdgId (linkDecayTree
            (dileptonTree (- 1) 1 (ex_leptons_neg ! 1) (ex_leptons_neg ! 0)
               (ex_nus ! 0) (ex_nus ! 1) (ex_jets ! 0) (ex_jets ! 1))) =
     [- 6, 6, - 24, - 5, - 11, 12, 24, 5, 13, - 14]"
    by (simp add: linkDecayTree_def addMother_def addDaughter_def dileptonTree_def Let_def
          GenParticle_def ex_leptons_neg_def ex_nus_def jetOf_def nuOut_def int32_def)
  moreover have "map gp_charge (linkDecayTree
            (dileptonTree (- 1) 1 (ex_leptons_neg ! 1) (ex_leptons_neg ! 0)
               (ex_nus ! 0) (ex_nus ! 1) (ex_jets ! 0) (ex_jets ! 1))) =
     [- 2 / 3, 2 / 3, - 1, 1 / 3, - 1, 0, 1, 1 / 3, 1, 0]"
    by (simp add: linkDecayTree_def addMother_def addDaughter_def dileptonTree_def Let_def
          GenParticle_def ex_leptons_neg_def ex_nus_def jetOf_def nuOut_def int32_def)
  moreover have "map gp_daughters (linkDecayTree
            (dileptonTree (- 1) 1 (ex_leptons_neg ! 1) (ex_leptons_neg ! 0)
               (ex_nus ! 0) (ex_nus ! 1) (ex_jets ! 0) (ex_jets ! 1))) =
     [[2, 3], [6, 7], [4, 5], [], [], [], [8, 9], [], [], []]"
    by (simp add: linkDecayTree_def addMother_def addDaughter_def dileptonTree_def Let_def
          GenParticle_def ex_leptons_neg_def ex_nus_def jetOf_def nuOut_def int32_def)
  moreover have "gp_p4 (linkDecayTree
            (dileptonTree (- 1) 1 (ex_leptons_neg ! 1) (ex_leptons_neg ! 0)
               (ex_nus ! 0) (ex_nus ! 1) (ex_jets ! 0) (ex_jets ! 1)) ! 4) =
     j_p4 (ex_leptons_neg ! 1)"
    by (simp add: linkDecayTree_def addMother_def addDaughter_def dileptonTree_def Let_def
          GenParticle_def ex_leptons_neg_def ex_nus_def jetOf_def nuOut_def int32_def)
  moreover have "map j_charge ex_leptons_neg = [- 1, 1] \<and> map j_pdgId ex_leptons_neg = [13, - 11]"
    by (simp add: ex_leptons_neg_def jetOf_def)
  ultimately show ?thesis by blast
qed

end
